theory Spec2Isabelle
  imports Main "HOL-Library.Char_ord" "HOL-Library.List_Lexorder"
begin

section \<open>JavaScript strings\<close>

text \<open>
  A JavaScript string is modelled as a \<^typ>\<open>string\<close>: one \<^typ>\<open>char\<close> per UTF-16 code unit,
  for code units below 256. All string operations the converters use (\<open>startsWith\<close>,
  \<open>substring\<close>, \<open>indexOf\<close>, \<open>includes\<close>, \<open>split\<close>, \<open>trim\<close>, \<open>replace\<close>) work on
  code units, so they are list operations here. \<open>null\<close> and \<open>undefined\<close> are both \<open>None\<close>;
  the source only ever tests such values for truthiness, where the empty string is falsy too.
\<close>

definition starts_with :: "string \<Rightarrow> string \<Rightarrow> bool" where
  \<comment> \<open>\<open>s.startsWith(p)\<close>\<close>
  "starts_with s p = (take (length p) s = p)"

fun includes_str :: "string \<Rightarrow> string \<Rightarrow> bool" where
  \<comment> \<open>\<open>s.includes(p)\<close>\<close>
  "includes_str [] p = (p = [])"
| "includes_str (c # cs) p = (starts_with (c # cs) p \<or> includes_str cs p)"

definition index_of :: "char \<Rightarrow> string \<Rightarrow> nat option" where
  \<comment> \<open>\<open>s.indexOf(c)\<close>, with \<open>None\<close> for \<open>-1\<close>\<close>
  "index_of c s = (if c \<in> set s then Some (length (takeWhile (\<lambda>x. x \<noteq> c) s)) else None)"

definition truthy :: "string option \<Rightarrow> bool" where
  \<comment> \<open>truthiness of a \<open>string | null | undefined\<close> value\<close>
  "truthy v = (case v of None \<Rightarrow> False | Some s \<Rightarrow> s \<noteq> [])"

definition or_undefined :: "string option \<Rightarrow> string option" where
  \<comment> \<open>\<open>v || undefined\<close> and \<open>v || null\<close>\<close>
  "or_undefined v = (if truthy v then v else None)"

definition or_else :: "string option \<Rightarrow> string \<Rightarrow> string" where
  \<comment> \<open>\<open>v || d\<close> for a string default\<close>
  "or_else v d = (if truthy v then the v else d)"

definition is_space :: "char \<Rightarrow> bool" where
  \<comment> \<open>the code units below 256 that \<open>trim\<close> removes: TAB, LF, VT, FF, CR, space, NBSP\<close>
  "is_space c = (c \<in> {CHR 0x09, CHR 0x0A, CHR 0x0B, CHR 0x0C, CHR 0x0D, CHR 0x20, CHR 0xA0})"

definition trim :: "string \<Rightarrow> string" where
  \<comment> \<open>\<open>s.trim()\<close>\<close>
  "trim s = rev (dropWhile is_space (rev (dropWhile is_space s)))"

fun split_on :: "(char \<Rightarrow> bool) \<Rightarrow> string \<Rightarrow> string list" where
  \<comment> \<open>\<open>s.split(sep)\<close> for a one-character separator or a character class. The result
     always has a first piece, to which a character that is no separator is added; the
     \<open>[]\<close> branch is never taken.\<close>
  "split_on P [] = [[]]"
| "split_on P (c # cs) =
     (if P c then [] # split_on P cs
      else (case split_on P cs of
              piece # pieces \<Rightarrow> (c # piece) # pieces
            | [] \<Rightarrow> [[c]]))"

fun split_lines :: "string \<Rightarrow> string list" where
  \<comment> \<open>\<open>s.split(/\r?\n/)\<close>: a CR directly before a LF belongs to the separator\<close>
  "split_lines [] = [[]]"
| "split_lines (c # cs) =
     (if c = CHR 0x0A then [] # split_lines cs
      else if c = CHR 0x0D \<and> take 1 cs = [CHR 0x0A] then split_lines cs
      else (case split_lines cs of
              piece # pieces \<Rightarrow> (c # piece) # pieces
            | [] \<Rightarrow> [[c]]))"

fun join :: "string \<Rightarrow> string list \<Rightarrow> string" where
  \<comment> \<open>\<open>xs.join(sep)\<close>\<close>
  "join sep [] = []"
| "join sep [x] = x"
| "join sep (x # y # ys) = x @ sep @ join sep (y # ys)"

definition nth_opt :: "'a list \<Rightarrow> nat \<Rightarrow> 'a option" where
  \<comment> \<open>\<open>xs[i]\<close>, \<open>undefined\<close> out of range\<close>
  "nth_opt xs i = (if i < length xs then Some (xs ! i) else None)"

definition LATIN1_UPPER :: string where
  \<comment> \<open>the capital letters of Latin-1: 0xC0 to 0xDE without the multiplication sign 0xD7\<close>
  "LATIN1_UPPER =
     [CHR 0xC0, CHR 0xC1, CHR 0xC2, CHR 0xC3, CHR 0xC4, CHR 0xC5, CHR 0xC6, CHR 0xC7,
      CHR 0xC8, CHR 0xC9, CHR 0xCA, CHR 0xCB, CHR 0xCC, CHR 0xCD, CHR 0xCE, CHR 0xCF,
      CHR 0xD0, CHR 0xD1, CHR 0xD2, CHR 0xD3, CHR 0xD4, CHR 0xD5, CHR 0xD6, CHR 0xD8,
      CHR 0xD9, CHR 0xDA, CHR 0xDB, CHR 0xDC, CHR 0xDD, CHR 0xDE]"

definition LATIN1_LOWER :: string where
  \<comment> \<open>their small letters, 0x20 above\<close>
  "LATIN1_LOWER =
     [CHR 0xE0, CHR 0xE1, CHR 0xE2, CHR 0xE3, CHR 0xE4, CHR 0xE5, CHR 0xE6, CHR 0xE7,
      CHR 0xE8, CHR 0xE9, CHR 0xEA, CHR 0xEB, CHR 0xEC, CHR 0xED, CHR 0xEE, CHR 0xEF,
      CHR 0xF0, CHR 0xF1, CHR 0xF2, CHR 0xF3, CHR 0xF4, CHR 0xF5, CHR 0xF6, CHR 0xF8,
      CHR 0xF9, CHR 0xFA, CHR 0xFB, CHR 0xFC, CHR 0xFD, CHR 0xFE]"

definition to_lower :: "char \<Rightarrow> char" where
  \<comment> \<open>\<open>toLowerCase\<close> on one code unit below 256: the letters A to Z and the capital
     letters of Latin-1 have a small letter, every other code unit is left as it is\<close>
  "to_lower c =
     (case map_of (zip (''ABCDEFGHIJKLMNOPQRSTUVWXYZ'' @ LATIN1_UPPER)
                       (''abcdefghijklmnopqrstuvwxyz'' @ LATIN1_LOWER)) c of
        Some l \<Rightarrow> l
      | None \<Rightarrow> c)"

definition toLowerCase :: "string \<Rightarrow> string" where
  "toLowerCase s = map to_lower s"

definition decode_newlines :: "string \<Rightarrow> string list" where
  \<comment> \<open>\<open>s.split('\n').map(s => s.trim()).filter(Boolean)\<close>\<close>
  "decode_newlines s = filter (\<lambda>x. x \<noteq> []) (map trim (split_on (\<lambda>c. c = CHR 0x0A) s))"

definition decode_commas :: "string \<Rightarrow> string list" where
  \<comment> \<open>\<open>s.split(',').map(s => s.trim()).filter(Boolean)\<close>\<close>
  "decode_commas s = filter (\<lambda>x. x \<noteq> []) (map trim (split_on (\<lambda>c. c = CHR '','') s))"

definition getMultilineValues :: "string option \<Rightarrow> string list" where
  \<comment> \<open>the spreadsheet's decoder (and validation rule 7):
     \<open>value.split(/[,|\n]/).map(s => s.trim()).filter(s => s)\<close>, \<open>[]\<close> for a falsy value\<close>
  "getMultilineValues value =
     (if truthy value
      then filter (\<lambda>x. x \<noteq> [])
             (map trim (split_on (\<lambda>c. c = CHR '','' \<or> c = CHR ''|'' \<or> c = CHR 0x0A) (the value)))
      else [])"

section \<open>Namespace resolver (marva-profile.ts)\<close>

record namespace =
  prefix :: string
  namespace :: string

fun prefixUri :: "string \<Rightarrow> namespace list \<Rightarrow> string" where
  "prefixUri uri [] = uri"
| "prefixUri uri (ns # namespaces) =
     (if starts_with uri (namespace ns)
      then prefix ns @ '':'' @ drop (length (namespace ns)) uri
      else prefixUri uri namespaces)"

definition expandUri :: "string \<Rightarrow> namespace list \<Rightarrow> string" where
  "expandUri prefixedUri namespaces =
     (case index_of (CHR '':'') prefixedUri of
        None \<Rightarrow> prefixedUri
      | Some colonIndex \<Rightarrow>
          (let pfx = take colonIndex prefixedUri;
               localPart = drop (colonIndex + 1) prefixedUri
           in if includes_str prefixedUri ''://'' then prefixedUri
              else (case find (\<lambda>ns. prefix ns = pfx) namespaces of
                      Some ns \<Rightarrow> namespace ns @ localPart
                    | None \<Rightarrow> prefixedUri)))"

section \<open>Data model (types/dctap.ts) and the store (services/database.ts)\<close>

text \<open>
  The fourteen text columns of a statement row. A \<open>CreateRowRequest\<close> adds an optional
  \<open>rowOrder\<close>, a stored \<open>StatementRow\<close> a definite one. Row ids, timestamps and the cached
  validation flags are left out: no converter reads them.
\<close>

record row_fields =
  propertyId :: "string option"
  propertyLabel :: "string option"
  mandatory :: "string option"
  repeatable :: "string option"
  valueNodeType :: "string option"
  valueDataType :: "string option"
  valueShape :: "string option"
  valueConstraint :: "string option"
  valueConstraintType :: "string option"
  lcDefaultLiteral :: "string option"
  lcDefaultURI :: "string option"
  rowNote :: "string option"
  lcDataTypeURI :: "string option"
  lcRemark :: "string option"

record CreateRowRequest = row_fields +
  req_rowOrder :: "int option"

record StatementRow = row_fields +
  rowOrder :: int

record Shape =
  shapeId :: string
  shapeLabel :: "string option"
  description :: "string option"
  resourceURI :: "string option"
  folderId :: "nat option"

record Folder =
  folder_id :: nat
  folder_name :: string

text \<open>
  One workspace database: the \<open>_shapes\<close>, \<open>_namespaces\<close> and \<open>_folders\<close> tables in insertion
  order, the row tables by table name, the folder AUTOINCREMENT counter and the
  \<open>useLCColumns\<close> option.
\<close>

record WorkspaceDb =
  ws_name :: string
  shapes_tbl :: "Shape list"
  row_tables :: "string \<rightharpoonup> StatementRow list"
  namespaces_tbl :: "namespace list"
  folders_tbl :: "Folder list"
  next_folder_id :: nat
  useLCColumns :: bool

text \<open>
  The store: the workspaces in creation order. A workspace id is the position of the
  workspace, which models \<open>uuidv4()\<close> as a source of ids never used before.
\<close>

type_synonym store = "WorkspaceDb list"

datatype error =
    WorkspaceNotFound
  | ConstraintFailed
  | NoSuchTable
  | NoStartingPointsConfig
  | NoMenuGroups

definition DEFAULT_NAMESPACES :: "namespace list" where
  "DEFAULT_NAMESPACES =
    [\<lparr>prefix = ''rdf'', namespace = ''http://www.w3.org/1999/02/22-rdf-syntax-ns#''\<rparr>,
     \<lparr>prefix = ''rdfs'', namespace = ''http://www.w3.org/2000/01/rdf-schema#''\<rparr>,
     \<lparr>prefix = ''xsd'', namespace = ''http://www.w3.org/2001/XMLSchema#''\<rparr>,
     \<lparr>prefix = ''owl'', namespace = ''http://www.w3.org/2002/07/owl#''\<rparr>,
     \<lparr>prefix = ''skos'', namespace = ''http://www.w3.org/2004/02/skos/core#''\<rparr>,
     \<lparr>prefix = ''dcterms'', namespace = ''http://purl.org/dc/terms/''\<rparr>,
     \<lparr>prefix = ''foaf'', namespace = ''http://xmlns.com/foaf/0.1/''\<rparr>,
     \<lparr>prefix = ''bf'', namespace = ''http://id.loc.gov/ontologies/bibframe/''\<rparr>,
     \<lparr>prefix = ''bflc'', namespace = ''http://id.loc.gov/ontologies/bflc/''\<rparr>,
     \<lparr>prefix = ''bfsimple'', namespace = ''http://id.loc.gov/ontologies/bfsimple/''\<rparr>,
     \<lparr>prefix = ''cc'', namespace = ''http://creativecommons.org/ns#''\<rparr>,
     \<lparr>prefix = ''sp'', namespace = ''http://id.loc.gov/ontologies/sp/''\<rparr>,
     \<lparr>prefix = ''pom'', namespace = ''http://performedmusicontology.org/ontology/''\<rparr>,
     \<lparr>prefix = ''mads'', namespace = ''http://www.loc.gov/mads/rdf/v1#''\<rparr>]"

definition initializeWorkspaceDb :: "string \<Rightarrow> WorkspaceDb" where
  "initializeWorkspaceDb name =
     \<lparr>ws_name = name, shapes_tbl = [], row_tables = Map.empty,
      namespaces_tbl = DEFAULT_NAMESPACES, folders_tbl = [], next_folder_id = 1,
      useLCColumns = False\<rparr>"

definition workspaceService_create :: "string \<Rightarrow> store \<Rightarrow> nat \<times> store" where
  "workspaceService_create name st = (length st, st @ [initializeWorkspaceDb name])"

definition getWorkspaceDb :: "store \<Rightarrow> nat \<Rightarrow> error + WorkspaceDb" where
  "getWorkspaceDb st workspaceId =
     (if workspaceId < length st then Inr (st ! workspaceId) else Inl WorkspaceNotFound)"

definition sanitize_char :: "char \<Rightarrow> char" where
  \<comment> \<open>\<open>[^a-zA-Z0-9_]\<close> becomes an underscore, then \<open>toLowerCase\<close>\<close>
  "sanitize_char c =
     (if c \<in> set ''abcdefghijklmnopqrstuvwxyzABCDEFGHIJKLMNOPQRSTUVWXYZ0123456789_''
      then to_lower c else CHR ''_'')"

definition sanitizeTableName :: "string \<Rightarrow> string" where
  "sanitizeTableName name = map sanitize_char name"

definition tableName :: "string \<Rightarrow> string" where
  "tableName sid = ''shape_'' @ sanitizeTableName sid"

subsection \<open>shapeService\<close>

definition shapeService_list :: "WorkspaceDb \<Rightarrow> Shape list" where
  \<comment> \<open>\<open>SELECT * FROM _shapes ORDER BY shape_id ASC\<close>\<close>
  "shapeService_list db = sort_key shapeId (shapes_tbl db)"

definition shapeService_get :: "WorkspaceDb \<Rightarrow> string \<Rightarrow> Shape option" where
  "shapeService_get db sid = find (\<lambda>s. shapeId s = sid) (shapes_tbl db)"

definition shapeService_create ::
  "string \<Rightarrow> string option \<Rightarrow> string option \<Rightarrow> nat option \<Rightarrow> string option \<Rightarrow>
   WorkspaceDb \<Rightarrow> error + WorkspaceDb" where
  \<comment> \<open>the INSERT fails on the UNIQUE constraint of \<open>shape_id\<close>;
     \<open>CREATE TABLE IF NOT EXISTS\<close> keeps a row table that is already there\<close>
  "shapeService_create sid label uri fid descr db =
     (if sid \<in> shapeId ` set (shapes_tbl db) then Inl ConstraintFailed
      else Inr (db\<lparr>shapes_tbl := shapes_tbl db @
                    [\<lparr>shapeId = sid, shapeLabel = or_undefined label,
                      description = or_undefined descr, resourceURI = or_undefined uri,
                      folderId = fid\<rparr>],
                  row_tables := (row_tables db)(tableName sid \<mapsto>
                    (case row_tables db (tableName sid) of None \<Rightarrow> [] | Some rs \<Rightarrow> rs))\<rparr>))"

definition shapeService_delete :: "string \<Rightarrow> WorkspaceDb \<Rightarrow> WorkspaceDb" where
  \<comment> \<open>nothing happens when the shape does not exist; otherwise the row table is dropped
     and the shape's line deleted\<close>
  "shapeService_delete sid db =
     (case shapeService_get db sid of
        None \<Rightarrow> db
      | Some _ \<Rightarrow> db\<lparr>shapes_tbl := filter (\<lambda>s. shapeId s \<noteq> sid) (shapes_tbl db),
                     row_tables := (row_tables db)(tableName sid := None)\<rparr>)"

subsection \<open>rowService\<close>

definition rowService_list :: "WorkspaceDb \<Rightarrow> string \<Rightarrow> error + StatementRow list" where
  \<comment> \<open>\<open>SELECT * FROM "shape_..." ORDER BY row_order ASC\<close>; rows of equal \<open>row_order\<close> are
     taken in insertion order\<close>
  "rowService_list db sid =
     (case row_tables db (tableName sid) of
        None \<Rightarrow> Inl NoSuchTable
      | Some rs \<Rightarrow> Inr (sort_key rowOrder rs))"

definition next_row_order :: "StatementRow list \<Rightarrow> int" where
  \<comment> \<open>\<open>(MAX(row_order) ?? -1) + 1\<close>\<close>
  "next_row_order rs = (if rs = [] then 0 else Max (rowOrder ` set rs) + 1)"

definition stored_row :: "CreateRowRequest \<Rightarrow> int \<Rightarrow> StatementRow" where
  \<comment> \<open>every text column is stored as \<open>data.x || null\<close>\<close>
  "stored_row d k =
     \<lparr>propertyId = or_undefined (propertyId d),
      propertyLabel = or_undefined (propertyLabel d),
      mandatory = or_undefined (mandatory d),
      repeatable = or_undefined (repeatable d),
      valueNodeType = or_undefined (valueNodeType d),
      valueDataType = or_undefined (valueDataType d),
      valueShape = or_undefined (valueShape d),
      valueConstraint = or_undefined (valueConstraint d),
      valueConstraintType = or_undefined (valueConstraintType d),
      lcDefaultLiteral = or_undefined (lcDefaultLiteral d),
      lcDefaultURI = or_undefined (lcDefaultURI d),
      rowNote = or_undefined (rowNote d),
      lcDataTypeURI = or_undefined (lcDataTypeURI d),
      lcRemark = or_undefined (lcRemark d),
      rowOrder = k\<rparr>"

definition rowService_create :: "string \<Rightarrow> CreateRowRequest \<Rightarrow> WorkspaceDb \<Rightarrow> error + WorkspaceDb" where
  "rowService_create sid d db =
     (case row_tables db (tableName sid) of
        None \<Rightarrow> Inl NoSuchTable
      | Some rs \<Rightarrow>
          (let k = (case req_rowOrder d of Some k \<Rightarrow> k | None \<Rightarrow> next_row_order rs)
           in Inr (db\<lparr>row_tables := (row_tables db)(tableName sid \<mapsto> rs @ [stored_row d k])\<rparr>)))"

subsection \<open>namespaceService, folderService, optionsService\<close>

definition namespaceService_list :: "WorkspaceDb \<Rightarrow> namespace list" where
  \<comment> \<open>\<open>ORDER BY prefix ASC\<close>\<close>
  "namespaceService_list db = sort_key prefix (namespaces_tbl db)"

definition namespaceService_create :: "string \<Rightarrow> string \<Rightarrow> WorkspaceDb \<Rightarrow> error + WorkspaceDb" where
  \<comment> \<open>the INSERT fails on the UNIQUE constraint of \<open>prefix\<close>\<close>
  "namespaceService_create p uri db =
     (if p \<in> prefix ` set (namespaces_tbl db) then Inl ConstraintFailed
      else Inr (db\<lparr>namespaces_tbl := namespaces_tbl db @ [\<lparr>prefix = p, namespace = uri\<rparr>]\<rparr>))"

definition folderService_list :: "WorkspaceDb \<Rightarrow> Folder list" where
  \<comment> \<open>\<open>ORDER BY name ASC\<close>\<close>
  "folderService_list db = sort_key folder_name (folders_tbl db)"

definition folderService_create :: "string \<Rightarrow> WorkspaceDb \<Rightarrow> nat \<times> WorkspaceDb" where
  "folderService_create name db =
     (next_folder_id db,
      db\<lparr>folders_tbl := folders_tbl db @ [\<lparr>folder_id = next_folder_id db, folder_name = name\<rparr>],
         next_folder_id := next_folder_id db + 1\<rparr>)"

definition optionsService_update :: "bool \<Rightarrow> WorkspaceDb \<Rightarrow> WorkspaceDb" where
  "optionsService_update b db = db\<lparr>useLCColumns := b\<rparr>"

section \<open>CSV/TSV converter (services/csv-parser.ts)\<close>

datatype column =
    ColShapeID | ColShapeLabel | ColResourceURI
  | ColPropertyId | ColPropertyLabel | ColMandatory | ColRepeatable
  | ColValueNodeType | ColValueDataType | ColValueShape | ColValueConstraint
  | ColValueConstraintType | ColNote
  | ColLcDefaultLiteral | ColLcDefaultURI | ColLcDataTypeURI | ColLcRemark

definition COLUMN_MAPPINGS :: "(string \<times> column) list" where
  "COLUMN_MAPPINGS =
    [(''shapeid'', ColShapeID), (''shapelabel'', ColShapeLabel),
     (''resourceuri'', ColResourceURI), (''propertyid'', ColPropertyId),
     (''propertylabel'', ColPropertyLabel), (''mandatory'', ColMandatory),
     (''repeatable'', ColRepeatable), (''valuenodetype'', ColValueNodeType),
     (''valuedatatype'', ColValueDataType), (''valueshape'', ColValueShape),
     (''valueconstraint'', ColValueConstraint),
     (''valueconstrainttype'', ColValueConstraintType), (''note'', ColNote),
     (''lcdefaultliteral'', ColLcDefaultLiteral), (''lcdefaulturi'', ColLcDefaultURI),
     (''lcdatatypeuri'', ColLcDataTypeURI), (''lcremark'', ColLcRemark)]"

text \<open>
  Messages are kept as values that carry what the source's message text interpolates:
  \<open>EmptyFile\<close> is 'Empty file', \<open>MissingColumns\<close> is 'File must contain at least propertyID
  or shapeID column', \<open>NoShapeID\<close> is 'Row has no associated shapeID, will use "default"',
  \<open>FullUri shape n pid\<close> is 'Shape "shape", row n: Property ID "pid" appears to be a full
  URI. ...' and \<open>UnknownPrefix p\<close> is 'Unknown namespace prefix "p" - placeholder URI
  created. ...'.
\<close>

datatype message =
    EmptyFile
  | MissingColumns
  | NoShapeID
  | FullUri string nat string
  | UnknownPrefix string

datatype severity = SevError | SevWarning

record ValidationError =
  err_row :: "nat option"
  err_message :: message
  err_severity :: severity

record ParsedRow =
  p_shapeID :: "string option"
  p_shapeLabel :: "string option"
  p_resourceURI :: "string option"
  p_data :: CreateRowRequest

datatype format = CSV | TSV

record ParseResult =
  success :: bool
  rows :: "ParsedRow list option"
  errors :: "ValidationError list"
  warnings :: "ValidationError list"
  detectedFormat :: "format option"

definition count_char :: "char \<Rightarrow> string \<Rightarrow> nat" where
  "count_char c s = length (filter (\<lambda>x. x = c) s)"

definition detectDelimiter :: "string \<Rightarrow> char" where
  "detectDelimiter content =
     (let firstLine = hd (split_on (\<lambda>c. c = CHR 0x0A) content);
          tabCount = count_char (CHR 0x09) firstLine;
          commaCount = count_char (CHR '','') firstLine
      in if tabCount > commaCount then CHR 0x09 else CHR '','')"

text \<open>
  The scan of \<open>parseCSVLine\<close>: \<open>result\<close>, \<open>current\<close> and \<open>inQuotes\<close> are the loop's variables,
  the last argument is the rest of the line from position \<open>i\<close> on.
\<close>

fun parseCSVLine_scan :: "char \<Rightarrow> string list \<Rightarrow> string \<Rightarrow> bool \<Rightarrow> string \<Rightarrow> string list" where
  "parseCSVLine_scan delimiter result current inQuotes [] = result @ [trim current]"
| "parseCSVLine_scan delimiter result current inQuotes (c # cs) =
     (if c = CHR 0x22 then
        (case cs of
           nextChar # rest \<Rightarrow>
             if inQuotes \<and> nextChar = CHR 0x22
             then parseCSVLine_scan delimiter result (current @ [CHR 0x22]) inQuotes rest
             else parseCSVLine_scan delimiter result current (\<not> inQuotes) cs
         | [] \<Rightarrow> parseCSVLine_scan delimiter result current (\<not> inQuotes) cs)
      else if c = delimiter \<and> \<not> inQuotes
      then parseCSVLine_scan delimiter (result @ [trim current]) [] inQuotes cs
      else parseCSVLine_scan delimiter result (current @ [c]) inQuotes cs)"

definition parseCSVLine :: "string \<Rightarrow> char \<Rightarrow> string list" where
  "parseCSVLine line delimiter = parseCSVLine_scan delimiter [] [] False line"

definition str_replace_all :: "char \<Rightarrow> string \<Rightarrow> string \<Rightarrow> string" where
  \<comment> \<open>\<open>s.replace(/c/g, r)\<close>\<close>
  "str_replace_all c r s = concat (map (\<lambda>x. if x = c then r else [x]) s)"

definition escapeCSVValue :: "string option \<Rightarrow> char \<Rightarrow> bool \<Rightarrow> string" where
  "escapeCSVValue v delimiter convertNewlinesToPipes =
     (case v of
        None \<Rightarrow> []
      | Some s0 \<Rightarrow>
          (let str = (if convertNewlinesToPipes then str_replace_all (CHR 0x0A) '' | '' s0 else s0)
           in if delimiter \<in> set str \<or> CHR 0x22 \<in> set str \<or> CHR 0x0A \<in> set str
              then [CHR 0x22] @ str_replace_all (CHR 0x22) [CHR 0x22, CHR 0x22] str @ [CHR 0x22]
              else str))"

definition normalize_header :: "string \<Rightarrow> string" where
  \<comment> \<open>\<open>h.toLowerCase().replace(/[^a-z]/g, '')\<close>\<close>
  "normalize_header h =
     filter (\<lambda>c. c \<in> set ''abcdefghijklmnopqrstuvwxyz'') (toLowerCase h)"

fun header_indices :: "nat \<Rightarrow> string list \<Rightarrow> (column \<rightharpoonup> nat) \<Rightarrow> (column \<rightharpoonup> nat)" where
  \<comment> \<open>the loop that fills \<open>columnIndices\<close>; a later header cell of the same column wins\<close>
  "header_indices i [] columnIndices = columnIndices"
| "header_indices i (h # hs) columnIndices =
     header_indices (i + 1) hs
       (case map_of COLUMN_MAPPINGS (normalize_header h) of
          Some mapped \<Rightarrow> columnIndices(mapped \<mapsto> i)
        | None \<Rightarrow> columnIndices)"

definition cell :: "(column \<rightharpoonup> nat) \<Rightarrow> string list \<Rightarrow> column \<Rightarrow> string option" where
  \<comment> \<open>\<open>columnIndices.c !== undefined ? values[columnIndices.c] || null : null\<close>\<close>
  "cell columnIndices values c =
     (case columnIndices c of
        None \<Rightarrow> None
      | Some i \<Rightarrow> or_undefined (nth_opt values i))"

definition row_data :: "(column \<rightharpoonup> nat) \<Rightarrow> string list \<Rightarrow> CreateRowRequest" where
  "row_data columnIndices values =
     \<lparr>propertyId = cell columnIndices values ColPropertyId,
      propertyLabel = cell columnIndices values ColPropertyLabel,
      mandatory = cell columnIndices values ColMandatory,
      repeatable = cell columnIndices values ColRepeatable,
      valueNodeType = cell columnIndices values ColValueNodeType,
      valueDataType = cell columnIndices values ColValueDataType,
      valueShape = cell columnIndices values ColValueShape,
      valueConstraint = cell columnIndices values ColValueConstraint,
      valueConstraintType = cell columnIndices values ColValueConstraintType,
      lcDefaultLiteral = cell columnIndices values ColLcDefaultLiteral,
      lcDefaultURI = cell columnIndices values ColLcDefaultURI,
      rowNote = cell columnIndices values ColNote,
      lcDataTypeURI = cell columnIndices values ColLcDataTypeURI,
      lcRemark = cell columnIndices values ColLcRemark,
      req_rowOrder = None\<rparr>"

definition field_values :: "'a row_fields_scheme \<Rightarrow> string option list" where
  \<comment> \<open>the text columns of a row, as \<open>Object.values\<close> lists them\<close>
  "field_values d =
     [propertyId d, propertyLabel d, mandatory d, repeatable d, valueNodeType d,
      valueDataType d, valueShape d, valueConstraint d, valueConstraintType d,
      rowNote d, lcDefaultLiteral d, lcDefaultURI d, lcDataTypeURI d, lcRemark d]"

definition hasData :: "'a row_fields_scheme \<Rightarrow> bool" where
  \<comment> \<open>\<open>Object.values(data).some(v => v !== undefined && v !== '')\<close>\<close>
  "hasData d = (\<exists>v \<in> set (field_values d). truthy v)"

record parse_state =
  currentShapeID :: "string option"
  currentShapeLabel :: "string option"
  currentResourceURI :: "string option"
  st_rows :: "ParsedRow list"
  st_warnings :: "ValidationError list"

definition parse_init :: parse_state where
  "parse_init = \<lparr>currentShapeID = None, currentShapeLabel = None, currentResourceURI = None,
                  st_rows = [], st_warnings = []\<rparr>"

definition parse_row :: "(column \<rightharpoonup> nat) \<Rightarrow> char \<Rightarrow> nat \<Rightarrow> string \<Rightarrow> parse_state \<Rightarrow> parse_state" where
  \<comment> \<open>one pass of the loop over the data lines (\<open>i\<close> is the index into \<open>lines\<close>)\<close>
  "parse_row columnIndices delimiter i line st =
     (let values = parseCSVLine line delimiter;
          lineNum = i + 1;
          rowShapeID = cell columnIndices values ColShapeID;
          rowShapeLabel = cell columnIndices values ColShapeLabel;
          rowResourceURI = cell columnIndices values ColResourceURI;
          st1 = (if truthy rowShapeID
                 then st\<lparr>currentShapeID := rowShapeID, currentShapeLabel := rowShapeLabel,
                         currentResourceURI := rowResourceURI\<rparr>
                 else if truthy rowShapeLabel \<and> \<not> truthy (currentShapeLabel st)
                 then st\<lparr>currentShapeLabel := rowShapeLabel\<rparr>
                 else st);
          d = row_data columnIndices values
      in if \<not> hasData d \<and> \<not> truthy rowShapeID then st1
         else
           (let st2 = (if \<not> truthy (currentShapeID st1)
                       then st1\<lparr>st_warnings := st_warnings st1 @
                                  [\<lparr>err_row = Some lineNum, err_message = NoShapeID,
                                    err_severity = SevWarning\<rparr>],
                                currentShapeID := Some ''default''\<rparr>
                       else st1)
            in st2\<lparr>st_rows := st_rows st2 @
                      [\<lparr>p_shapeID = currentShapeID st2, p_shapeLabel = currentShapeLabel st2,
                        p_resourceURI = currentResourceURI st2, p_data = d\<rparr>]\<rparr>))"

fun parse_rows :: "(column \<rightharpoonup> nat) \<Rightarrow> char \<Rightarrow> nat \<Rightarrow> string list \<Rightarrow> parse_state \<Rightarrow> parse_state" where
  "parse_rows columnIndices delimiter i [] st = st"
| "parse_rows columnIndices delimiter i (line # rest) st =
     parse_rows columnIndices delimiter (i + 1) rest (parse_row columnIndices delimiter i line st)"

definition parse_failure :: "message \<Rightarrow> ParseResult" where
  "parse_failure m =
     \<lparr>success = False, rows = None,
      errors = [\<lparr>err_row = None, err_message = m, err_severity = SevError\<rparr>],
      warnings = [], detectedFormat = None\<rparr>"

definition csv_lines :: "string \<Rightarrow> string list" where
  \<comment> \<open>\<open>content.split(/\r?\n/).filter(line => line.trim().length > 0)\<close>\<close>
  "csv_lines content = filter (\<lambda>line. trim line \<noteq> []) (split_lines content)"

definition parseCSV :: "string \<Rightarrow> ParseResult" where
  "parseCSV content =
     (let delimiter = detectDelimiter content
      in case csv_lines content of
           [] \<Rightarrow> parse_failure EmptyFile
         | header # dataLines \<Rightarrow>
             (let headerLine = parseCSVLine header delimiter;
                  columnIndices = header_indices 0 headerLine Map.empty
              in if columnIndices ColPropertyId = None \<and> columnIndices ColShapeID = None
                 then parse_failure MissingColumns
                 else
                   (let st = parse_rows columnIndices delimiter 1 dataLines parse_init;
                        errs = []
                    in \<lparr>success = (length errs = 0), rows = Some (st_rows st), errors = errs,
                        warnings = st_warnings st,
                        detectedFormat = Some (if delimiter = CHR 0x09 then TSV else CSV)\<rparr>)))"

subsection \<open>importToWorkspace\<close>

record ShapeGroup =
  g_label :: "string option"
  g_resourceURI :: "string option"
  g_rows :: "CreateRowRequest list"

definition group_step :: "ParsedRow \<Rightarrow> (string \<times> ShapeGroup) list \<Rightarrow> (string \<times> ShapeGroup) list" where
  \<comment> \<open>one pass of the grouping loop; the list is the insertion-ordered \<open>Map\<close>\<close>
  "group_step row shapeGroups =
     (let sid = or_else (p_shapeID row) ''default'';
          groups1 = (if map_of shapeGroups sid = None
                     then shapeGroups @
                            [(sid, \<lparr>g_label = p_shapeLabel row, g_resourceURI = p_resourceURI row,
                                    g_rows = []\<rparr>)]
                     else shapeGroups)
      in map (\<lambda>(k, g).
                if k = sid
                then (k, \<lparr>g_label = (if truthy (p_shapeLabel row) \<and> \<not> truthy (g_label g)
                                     then p_shapeLabel row else g_label g),
                          g_resourceURI = (if truthy (p_resourceURI row) \<and> \<not> truthy (g_resourceURI g)
                                           then p_resourceURI row else g_resourceURI g),
                          g_rows = g_rows g @ [p_data row]\<rparr>)
                else (k, g)) groups1)"

record import_acc =
  unknownNamespaces :: "string list"
  allWarnings :: "ValidationError list"
  totalRows :: nat

definition check_prefix :: "string \<Rightarrow> nat \<Rightarrow> CreateRowRequest \<Rightarrow> import_acc \<Rightarrow> import_acc" where
  \<comment> \<open>the check for unknown prefixes on row \<open>i\<close> of shape \<open>sid\<close>\<close>
  "check_prefix sid i rowData acc =
     (if truthy (propertyId rowData) then
        (let pid = the (propertyId rowData) in
         case index_of (CHR '':'') pid of
           None \<Rightarrow> acc
         | Some colonIndex \<Rightarrow>
             if colonIndex > 0 then
               (let pfx = take colonIndex pid in
                if pfx = ''http'' \<or> pfx = ''https''
                then acc\<lparr>allWarnings := allWarnings acc @
                           [\<lparr>err_row = None, err_message = FullUri sid (i + 1) pid,
                             err_severity = SevWarning\<rparr>]\<rparr>
                else if pfx \<notin> prefix ` set DEFAULT_NAMESPACES \<and> pfx \<notin> set (unknownNamespaces acc)
                then acc\<lparr>unknownNamespaces := unknownNamespaces acc @ [pfx]\<rparr>
                else acc)
             else acc)
      else acc)"

fun import_rows ::
  "string \<Rightarrow> nat \<Rightarrow> CreateRowRequest list \<Rightarrow> import_acc \<times> WorkspaceDb \<Rightarrow>
   error + import_acc \<times> WorkspaceDb" where
  "import_rows sid i [] (acc, db) = Inr (acc, db)"
| "import_rows sid i (rowData # rest) (acc, db) =
     (let acc1 = check_prefix sid i rowData acc in
      case rowService_create sid (rowData\<lparr>req_rowOrder := Some (int i)\<rparr>) db of
        Inl e \<Rightarrow> Inl e
      | Inr db1 \<Rightarrow> import_rows sid (i + 1) rest (acc1\<lparr>totalRows := totalRows acc1 + 1\<rparr>, db1))"

fun import_groups ::
  "(string \<times> ShapeGroup) list \<Rightarrow> import_acc \<times> WorkspaceDb \<Rightarrow> error + import_acc \<times> WorkspaceDb" where
  "import_groups [] (acc, db) = Inr (acc, db)"
| "import_groups ((sid, g) # rest) (acc, db) =
     (case shapeService_create sid (or_undefined (g_label g)) (or_undefined (g_resourceURI g))
             None None db of
        Inl e \<Rightarrow> Inl e
      | Inr db1 \<Rightarrow>
          (case import_rows sid 0 (g_rows g) (acc, db1) of
             Inl e \<Rightarrow> Inl e
           | Inr p \<Rightarrow> import_groups rest p))"

definition placeholder_uri :: "string \<Rightarrow> string" where
  \<comment> \<open>the template \<open>http://example.org/${prefix}/\<close>\<close>
  "placeholder_uri p = ''http://example.org/'' @ p @ ''/''"

fun add_placeholders ::
  "string list \<Rightarrow> ValidationError list \<times> WorkspaceDb \<Rightarrow> error + ValidationError list \<times> WorkspaceDb" where
  "add_placeholders [] (ws, db) = Inr (ws, db)"
| "add_placeholders (p # rest) (ws, db) =
     (case namespaceService_create p (placeholder_uri p) db of
        Inl e \<Rightarrow> Inl e
      | Inr db1 \<Rightarrow>
          add_placeholders rest
            (ws @ [\<lparr>err_row = None, err_message = UnknownPrefix p, err_severity = SevWarning\<rparr>], db1))"

record ImportResult =
  ir_success :: bool
  ir_workspaceId :: "nat option"
  ir_shapesCreated :: "nat option"
  ir_rowsImported :: "nat option"
  ir_errors :: "ValidationError list option"
  ir_warnings :: "ValidationError list option"
  ir_unknownNamespaces :: "string list option"

definition non_empty :: "'a list \<Rightarrow> 'a list option" where
  \<comment> \<open>\<open>xs.length > 0 ? xs : undefined\<close>\<close>
  "non_empty xs = (if xs = [] then None else Some xs)"

text \<open>
  The result is \<open>Inl\<close> when a store call throws; the state a thrown call leaves behind is
  not modelled. Otherwise it is the returned object and the store after the call.
\<close>

definition importToWorkspace :: "string \<Rightarrow> string \<Rightarrow> store \<Rightarrow> error + ImportResult \<times> store" where
  "importToWorkspace content workspaceName st =
     (let parseResult = parseCSV content in
      if \<not> success parseResult \<or> rows parseResult = None
      then Inr (\<lparr>ir_success = False, ir_workspaceId = None, ir_shapesCreated = None,
                 ir_rowsImported = None, ir_errors = Some (errors parseResult),
                 ir_warnings = None, ir_unknownNamespaces = None\<rparr>, st)
      else
        (let shapeGroups = fold group_step (the (rows parseResult)) [];
             (wid, st1) = workspaceService_create workspaceName st
         in case getWorkspaceDb st1 wid of
              Inl e \<Rightarrow> Inl e
            | Inr db \<Rightarrow>
                (case import_groups shapeGroups
                        (\<lparr>unknownNamespaces = [], allWarnings = warnings parseResult,
                          totalRows = 0\<rparr>, db) of
                   Inl e \<Rightarrow> Inl e
                 | Inr (acc, db1) \<Rightarrow>
                     (case add_placeholders (unknownNamespaces acc) (allWarnings acc, db1) of
                        Inl e \<Rightarrow> Inl e
                      | Inr (ws, db2) \<Rightarrow>
                          Inr (\<lparr>ir_success = True, ir_workspaceId = Some wid,
                                ir_shapesCreated = Some (length shapeGroups),
                                ir_rowsImported = Some (totalRows acc), ir_errors = None,
                                ir_warnings = non_empty ws,
                                ir_unknownNamespaces = non_empty (unknownNamespaces acc)\<rparr>,
                               st1[wid := db2])))))"

subsection \<open>exportWorkspace\<close>

definition export_headers :: "string list" where
  "export_headers =
     [''shapeID'', ''shapeLabel'', ''resourceURI'', ''propertyID'', ''propertyLabel'',
      ''mandatory'', ''repeatable'', ''valueNodeType'', ''valueDataType'', ''valueShape'',
      ''valueConstraint'', ''valueConstraintType'', ''note'', ''lcDefaultLiteral'',
      ''lcDefaultURI'', ''lcDataTypeURI'', ''lcRemark'']"

definition export_row_values :: "Shape \<Rightarrow> char \<Rightarrow> bool \<Rightarrow> StatementRow \<Rightarrow> string list" where
  "export_row_values shape delimiter isFirstRow row =
     [escapeCSVValue (if isFirstRow then Some (shapeId shape) else Some []) delimiter False,
      escapeCSVValue (if isFirstRow then shapeLabel shape else Some []) delimiter False,
      escapeCSVValue (if isFirstRow then resourceURI shape else Some []) delimiter False,
      escapeCSVValue (propertyId row) delimiter False,
      escapeCSVValue (propertyLabel row) delimiter False,
      escapeCSVValue (mandatory row) delimiter False,
      escapeCSVValue (repeatable row) delimiter False,
      escapeCSVValue (valueNodeType row) delimiter False,
      escapeCSVValue (valueDataType row) delimiter False,
      escapeCSVValue (valueShape row) delimiter True,
      escapeCSVValue (valueConstraint row) delimiter True,
      escapeCSVValue (valueConstraintType row) delimiter False,
      escapeCSVValue (rowNote row) delimiter False,
      escapeCSVValue (lcDefaultLiteral row) delimiter False,
      escapeCSVValue (lcDefaultURI row) delimiter False,
      escapeCSVValue (lcDataTypeURI row) delimiter False,
      escapeCSVValue (lcRemark row) delimiter False]"

fun export_rows :: "Shape \<Rightarrow> char \<Rightarrow> bool \<Rightarrow> StatementRow list \<Rightarrow> string list" where
  "export_rows shape delimiter isFirstRow [] = []"
| "export_rows shape delimiter isFirstRow (row # rest) =
     join [delimiter] (export_row_values shape delimiter isFirstRow row)
       # export_rows shape delimiter False rest"

definition export_empty_shape :: "Shape \<Rightarrow> char \<Rightarrow> string" where
  "export_empty_shape shape delimiter =
     join [delimiter]
       ([escapeCSVValue (Some (shapeId shape)) delimiter False,
         escapeCSVValue (shapeLabel shape) delimiter False,
         escapeCSVValue (resourceURI shape) delimiter False] @ replicate 14 [])"

fun export_shapes :: "WorkspaceDb \<Rightarrow> char \<Rightarrow> Shape list \<Rightarrow> error + string list" where
  "export_shapes db delimiter [] = Inr []"
| "export_shapes db delimiter (shape # rest) =
     (case rowService_list db (shapeId shape) of
        Inl e \<Rightarrow> Inl e
      | Inr rs \<Rightarrow>
          (case export_shapes db delimiter rest of
             Inl e \<Rightarrow> Inl e
           | Inr ls \<Rightarrow>
               Inr (export_rows shape delimiter True rs
                    @ (if rs = [] then [export_empty_shape shape delimiter] else [])
                    @ ls)))"

definition exportWorkspace :: "store \<Rightarrow> nat \<Rightarrow> format \<Rightarrow> error + string" where
  "exportWorkspace st workspaceId fmt =
     (let delimiter = (if fmt = TSV then CHR 0x09 else CHR '','') in
      case getWorkspaceDb st workspaceId of
        Inl e \<Rightarrow> Inl e
      | Inr db \<Rightarrow>
          (case export_shapes db delimiter (shapeService_list db) of
             Inl e \<Rightarrow> Inl e
           | Inr ls \<Rightarrow> Inr (join [CHR 0x0A] (join [delimiter] export_headers # ls))))"

section \<open>Auxiliary definitions for the proofs\<close>

definition acc_ok :: "import_acc \<Rightarrow> bool" where
  \<comment> \<open>the collected unknown prefixes are distinct and none is a default prefix\<close>
  "acc_ok acc \<longleftrightarrow> distinct (unknownNamespaces acc) \<and>
     set (unknownNamespaces acc) \<inter> prefix ` set DEFAULT_NAMESPACES = {}"

definition imported_shape :: "string \<times> ShapeGroup \<Rightarrow> Shape" where
  "imported_shape p =
     \<lparr>shapeId = fst p, shapeLabel = or_undefined (g_label (snd p)), description = None,
      resourceURI = or_undefined (g_resourceURI (snd p)), folderId = None\<rparr>"

fun db_after_groups :: "(string \<times> ShapeGroup) list \<Rightarrow> WorkspaceDb \<Rightarrow> WorkspaceDb" where
  "db_after_groups [] db = db"
| "db_after_groups (p # rest) db =
     db_after_groups rest
       (db\<lparr>shapes_tbl := shapes_tbl db @ [imported_shape p],
           row_tables := (row_tables db)(tableName (fst p) \<mapsto>
             (case row_tables db (tableName (fst p)) of None \<Rightarrow> [] | Some rs \<Rightarrow> rs)
             @ map (\<lambda>(k, r). stored_row r (int k)) (List.enumerate 0 (g_rows (snd p))))\<rparr>)"

definition placeholder_namespaces :: "string list \<Rightarrow> namespace list" where
  "placeholder_namespaces ps = map (\<lambda>p. \<lparr>prefix = p, namespace = placeholder_uri p\<rparr>) ps"

subsection \<open>The shape context of a data line, stated on the lines\<close>

text \<open>
  What one data line holds in the three shape columns and in the statement columns, and
  whether the loop skips it.
\<close>

definition line_shapeID :: "(column \<rightharpoonup> nat) \<Rightarrow> char \<Rightarrow> string \<Rightarrow> string option" where
  "line_shapeID ci d line = cell ci (parseCSVLine line d) ColShapeID"

definition line_shapeLabel :: "(column \<rightharpoonup> nat) \<Rightarrow> char \<Rightarrow> string \<Rightarrow> string option" where
  "line_shapeLabel ci d line = cell ci (parseCSVLine line d) ColShapeLabel"

definition line_resourceURI :: "(column \<rightharpoonup> nat) \<Rightarrow> char \<Rightarrow> string \<Rightarrow> string option" where
  "line_resourceURI ci d line = cell ci (parseCSVLine line d) ColResourceURI"

definition line_data :: "(column \<rightharpoonup> nat) \<Rightarrow> char \<Rightarrow> string \<Rightarrow> CreateRowRequest" where
  "line_data ci d line = row_data ci (parseCSVLine line d)"

definition line_skipped :: "(column \<rightharpoonup> nat) \<Rightarrow> char \<Rightarrow> string \<Rightarrow> bool" where
  "line_skipped ci d line \<longleftrightarrow> \<not> hasData (line_data ci d line) \<and> \<not> truthy (line_shapeID ci d line)"

text \<open>
  The context a parsed row is expected to carry, for the data lines \<open>pre\<close> up to and
  including its own: the nearest line with an explicit shapeID gives the shapeID, the
  resourceURI and, when its label cell is not blank, the shapeLabel; a blank label is filled
  by the first non-blank label cell after that line; with no explicit shapeID so far the
  shape is \<open>default\<close>.
\<close>

definition nearest_shape_line :: "(column \<rightharpoonup> nat) \<Rightarrow> char \<Rightarrow> string list \<Rightarrow> string option" where
  "nearest_shape_line ci d pre = find (\<lambda>l. truthy (line_shapeID ci d l)) (rev pre)"

definition lines_after_shape :: "(column \<rightharpoonup> nat) \<Rightarrow> char \<Rightarrow> string list \<Rightarrow> string list" where
  "lines_after_shape ci d pre = rev (takeWhile (\<lambda>l. \<not> truthy (line_shapeID ci d l)) (rev pre))"

definition first_label :: "(column \<rightharpoonup> nat) \<Rightarrow> char \<Rightarrow> string list \<Rightarrow> string option" where
  "first_label ci d ls =
     (case find (\<lambda>l. truthy (line_shapeLabel ci d l)) ls of
        Some l \<Rightarrow> line_shapeLabel ci d l
      | None \<Rightarrow> None)"

definition inherited_shapeID :: "(column \<rightharpoonup> nat) \<Rightarrow> char \<Rightarrow> string list \<Rightarrow> string option" where
  "inherited_shapeID ci d pre =
     (case nearest_shape_line ci d pre of
        Some l \<Rightarrow> line_shapeID ci d l
      | None \<Rightarrow> Some ''default'')"

definition inherited_shapeLabel :: "(column \<rightharpoonup> nat) \<Rightarrow> char \<Rightarrow> string list \<Rightarrow> string option" where
  "inherited_shapeLabel ci d pre =
     (case nearest_shape_line ci d pre of
        Some l \<Rightarrow>
          if truthy (line_shapeLabel ci d l) then line_shapeLabel ci d l
          else first_label ci d (lines_after_shape ci d pre)
      | None \<Rightarrow> first_label ci d pre)"

definition inherited_resourceURI :: "(column \<rightharpoonup> nat) \<Rightarrow> char \<Rightarrow> string list \<Rightarrow> string option" where
  "inherited_resourceURI ci d pre =
     (case nearest_shape_line ci d pre of
        Some l \<Rightarrow> line_resourceURI ci d l
      | None \<Rightarrow> None)"

definition expected_row :: "(column \<rightharpoonup> nat) \<Rightarrow> char \<Rightarrow> string list \<Rightarrow> ParsedRow" where
  "expected_row ci d pre =
     \<lparr>p_shapeID = inherited_shapeID ci d pre,
      p_shapeLabel = inherited_shapeLabel ci d pre,
      p_resourceURI = inherited_resourceURI ci d pre,
      p_data = line_data ci d (last pre)\<rparr>"

definition expected_rows :: "(column \<rightharpoonup> nat) \<Rightarrow> char \<Rightarrow> string list \<Rightarrow> ParsedRow list" where
  "expected_rows ci d ls =
     map (expected_row ci d)
       (filter (\<lambda>pre. \<not> line_skipped ci d (last pre))
          (map (\<lambda>n. take (Suc n) ls) [0..<length ls]))"

definition expected_warnings :: "(column \<rightharpoonup> nat) \<Rightarrow> char \<Rightarrow> nat \<Rightarrow> string list \<Rightarrow> ValidationError list" where
  "expected_warnings ci d i ls =
     (case find (\<lambda>l. \<not> line_skipped ci d l) ls of
        None \<Rightarrow> []
      | Some l \<Rightarrow>
          if truthy (line_shapeID ci d l) then []
          else [\<lparr>err_row = Some (i + length (takeWhile (line_skipped ci d) ls) + 1),
                 err_message = NoShapeID, err_severity = SevWarning\<rparr>])"

text \<open>The loop's variables after the data lines \<open>ls\<close>.\<close>

definition state_after :: "(column \<rightharpoonup> nat) \<Rightarrow> char \<Rightarrow> nat \<Rightarrow> string list \<Rightarrow> parse_state" where
  "state_after ci d i ls =
     \<lparr>currentShapeID =
        (case nearest_shape_line ci d ls of
           Some l \<Rightarrow> line_shapeID ci d l
         | None \<Rightarrow> if \<exists>l \<in> set ls. \<not> line_skipped ci d l then Some ''default'' else None),
      currentShapeLabel = inherited_shapeLabel ci d ls,
      currentResourceURI = inherited_resourceURI ci d ls,
      st_rows = expected_rows ci d ls,
      st_warnings = expected_warnings ci d i ls\<rparr>"


text \<open>
  The reading of C6 as it is written: the nearest non-blank cell of a column at or before the
  row, whatever the shapeID cells hold.
\<close>

definition nearest_nonempty :: "(string \<Rightarrow> string option) \<Rightarrow> string list \<Rightarrow> string option" where
  "nearest_nonempty f pre =
     (case find (\<lambda>l. truthy (f l)) (rev pre) of Some l \<Rightarrow> f l | None \<Rightarrow> None)"

section \<open>Starting-point naming convention (services/starting-point.ts)\<close>

definition STARTING_POINT_FOLDER_NAME :: string where
  "STARTING_POINT_FOLDER_NAME = ''Starting Points''"

definition STARTING_POINT_PREFIX :: string where
  "STARTING_POINT_PREFIX = ''startingpoint:''"

definition STARTING_POINT_INDEX_ID :: string where
  "STARTING_POINT_INDEX_ID = ''startingpoint:index''"

definition isStartingPointShape :: "string \<Rightarrow> bool" where
  "isStartingPointShape sid \<longleftrightarrow>
     starts_with (toLowerCase sid) (toLowerCase STARTING_POINT_PREFIX)
     \<or> includes_str (toLowerCase sid) ''startingpoint''"

definition isInStartingPointFolder :: "WorkspaceDb \<Rightarrow> nat option \<Rightarrow> bool" where
  "isInStartingPointFolder db fid =
     (case fid of
        None \<Rightarrow> False
      | Some i \<Rightarrow>
          (case find (\<lambda>f. folder_id f = i) (folderService_list db) of
             None \<Rightarrow> False
           | Some f \<Rightarrow> folder_name f = STARTING_POINT_FOLDER_NAME))"

fun replace_space_runs :: "bool \<Rightarrow> string \<Rightarrow> string" where
  \<comment> \<open>\<open>s.replace(/\s+/g, '_')\<close>: every run of white space becomes one underscore; the flag
     says that the character before was white space\<close>
  "replace_space_runs prev [] = []"
| "replace_space_runs prev (c # cs) =
     (if is_space c
      then (if prev then replace_space_runs True cs else CHR ''_'' # replace_space_runs True cs)
      else c # replace_space_runs False cs)"

section \<open>Marva profile converter (services/marva-profile.ts)\<close>

datatype prop_type = TLiteral | TResource | TLookup | TList

record MarvaDefault =
  defaultURI :: "string option"
  defaultLiteral :: "string option"

text \<open>
  A value constraint that is absent, or whose lists are absent, behaves in the importer as
  one with empty lists and no fields (the optional chaining), so it is modelled by that one.
  \<open>dataTypeURI\<close> is \<open>valueDataType.dataTypeURI\<close>.
\<close>

record MarvaValueConstraint =
  valueTemplateRefs :: "string list"
  useValuesFrom :: "string list"
  defaults :: "MarvaDefault list"
  dataTypeURI :: "string option"
  vc_repeatable :: "string option"

record MarvaPropertyTemplate =
  propertyURI :: string
  pt_propertyLabel :: string
  pt_mandatory :: string
  pt_repeatable :: string
  pt_type :: prop_type
  pt_remark :: "string option"
  pt_valueConstraint :: MarvaValueConstraint

record MarvaResourceTemplate =
  rt_id :: string
  rt_resourceURI :: "string option"
  rt_resourceLabel :: "string option"
  rt_remark :: "string option"
  propertyTemplates :: "MarvaPropertyTemplate list"

record MarvaProfile =
  prof_id :: string
  prof_title :: string
  prof_description :: "string option"
  resourceTemplates :: "MarvaResourceTemplate list"

text \<open>
  A document: its name and \<open>json.Profile\<close>, which the importer allows to be missing. The
  document id and the timestamps (a fresh UUID and the current time on export) are left out.
\<close>

record MarvaProfileDocument =
  doc_name :: string
  doc_profile :: "MarvaProfile option"

definition empty_row :: CreateRowRequest where
  "empty_row =
     \<lparr>propertyId = None, propertyLabel = None, mandatory = None, repeatable = None,
      valueNodeType = None, valueDataType = None, valueShape = None, valueConstraint = None,
      valueConstraintType = None, lcDefaultLiteral = None, lcDefaultURI = None, rowNote = None,
      lcDataTypeURI = None, lcRemark = None, req_rowOrder = None\<rparr>"

definition flatten_commas :: "string list \<Rightarrow> string list" where
  \<comment> \<open>\<open>xs.flatMap(x => x.split(',').map(s => s.trim()).filter(Boolean))\<close>\<close>
  "flatten_commas xs = concat (map decode_commas xs)"

definition propertyTemplateToRow ::
  "MarvaPropertyTemplate \<Rightarrow> int \<Rightarrow> namespace list \<Rightarrow> CreateRowRequest" where
  "propertyTemplateToRow prop rowOrd namespaces =
     (let vc = pt_valueConstraint prop;
          row = empty_row\<lparr>
                  req_rowOrder := Some rowOrd,
                  propertyId := Some (prefixUri (propertyURI prop) namespaces),
                  propertyLabel := Some (pt_propertyLabel prop),
                  mandatory := Some (pt_mandatory prop),
                  repeatable := Some (if pt_repeatable prop \<noteq> [] then pt_repeatable prop
                                      else or_else (vc_repeatable vc) ''false''),
                  lcRemark := or_undefined (pt_remark prop)\<rparr>;
          row1 = (if pt_type prop = TLiteral then row\<lparr>valueNodeType := Some ''literal''\<rparr>
                  else if pt_type prop = TResource \<or> pt_type prop = TList then
                    (if length (valueTemplateRefs vc) > 0
                     then row\<lparr>valueNodeType := Some ''bnode'',
                              valueShape := Some (join [CHR 0x0A] (flatten_commas (valueTemplateRefs vc)))\<rparr>
                     else row)
                  else if pt_type prop = TLookup then
                    (if length (useValuesFrom vc) > 0
                     then row\<lparr>valueConstraintType := Some ''IRIstem'',
                              valueConstraint := Some (join [CHR 0x0A] (flatten_commas (useValuesFrom vc)))\<rparr>
                     else row)
                  else row);
          row2 = (if truthy (dataTypeURI vc)
                  then row1\<lparr>lcDataTypeURI := Some (prefixUri (the (dataTypeURI vc)) namespaces)\<rparr>
                  else row1);
          literals = map (\<lambda>d. the (defaultLiteral d)) (filter (\<lambda>d. truthy (defaultLiteral d)) (defaults vc));
          uris = map (\<lambda>d. the (defaultURI d)) (filter (\<lambda>d. truthy (defaultURI d)) (defaults vc));
          row3 = (if length literals > 0 then row2\<lparr>lcDefaultLiteral := Some (join [CHR 0x0A] literals)\<rparr>
                  else row2)
      in if length uris > 0 then row3\<lparr>lcDefaultURI := Some (join [CHR 0x0A] uris)\<rparr> else row3)"

definition no_space :: "string \<Rightarrow> bool" where
  "no_space s \<longleftrightarrow> CHR '' '' \<notin> set s"

definition extractFolderName :: "string \<Rightarrow> string option" where
  "extractFolderName sid =
     (let parts = split_on (\<lambda>c. c = CHR '':'') sid in
      if length parts \<ge> 3 \<and> parts ! 0 = ''lc'' then
        (let type = parts ! 1; grp = parts ! 2 in
         if type \<noteq> [] \<and> grp \<noteq> [] \<and> length grp \<le> 20 \<and> no_space grp then
           (if type = ''RT'' \<and> length parts \<ge> 4 \<and> parts ! 3 \<noteq> [] \<and> length (parts ! 3) \<le> 30
               \<and> no_space (parts ! 3)
            then Some (type @ ''_'' @ grp @ ''_'' @ parts ! 3)
            else Some (type @ ''_'' @ grp))
         else None)
      else None)"

record marva_acc =
  folderMap :: "(string \<times> nat) list"
  shapesCreated :: nat
  rowsCreated :: nat

definition getOrCreateFolder :: "string \<Rightarrow> marva_acc \<times> WorkspaceDb \<Rightarrow> nat \<times> marva_acc \<times> WorkspaceDb" where
  "getOrCreateFolder folderName p =
     (case map_of (folderMap (fst p)) folderName of
        Some i \<Rightarrow> (i, p)
      | None \<Rightarrow>
          (let (i, db1) = folderService_create folderName (snd p)
           in (i, (fst p)\<lparr>folderMap := folderMap (fst p) @ [(folderName, i)]\<rparr>, db1)))"

definition folder_for :: "string \<Rightarrow> marva_acc \<times> WorkspaceDb \<Rightarrow> nat option \<times> marva_acc \<times> WorkspaceDb" where
  \<comment> \<open>\<open>name ? getOrCreateFolder(name) : undefined\<close> for \<open>name = extractFolderName(id)\<close>\<close>
  "folder_for sid p =
     (case extractFolderName sid of
        None \<Rightarrow> (None, p)
      | Some folderName \<Rightarrow>
          (if folderName = [] then (None, p)
           else (let (i, p1) = getOrCreateFolder folderName p in (Some i, p1))))"

fun import_props ::
  "string \<Rightarrow> namespace list \<Rightarrow> int \<Rightarrow> MarvaPropertyTemplate list \<Rightarrow> marva_acc \<times> WorkspaceDb \<Rightarrow>
   error + marva_acc \<times> WorkspaceDb" where
  "import_props rtId namespaces rowOrd [] (acc, db) = Inr (acc, db)"
| "import_props rtId namespaces rowOrd (prop # rest) (acc, db) =
     (case rowService_create rtId (propertyTemplateToRow prop rowOrd namespaces) db of
        Inl e \<Rightarrow> Inl e
      | Inr db1 \<Rightarrow>
          import_props rtId namespaces (rowOrd + 1) rest
            (acc\<lparr>rowsCreated := rowsCreated acc + 1\<rparr>, db1))"

fun import_rts ::
  "namespace list \<Rightarrow> MarvaResourceTemplate list \<Rightarrow> marva_acc \<times> WorkspaceDb \<Rightarrow>
   error + marva_acc \<times> WorkspaceDb" where
  "import_rts namespaces [] p = Inr p"
| "import_rts namespaces (rt # rest) p =
     (let (rtFolderId, acc, db) = folder_for (rt_id rt) p;
          prefixedResourceURI = (if truthy (rt_resourceURI rt)
                                 then Some (prefixUri (the (rt_resourceURI rt)) namespaces)
                                 else None)
      in case shapeService_create (rt_id rt) (or_undefined (rt_resourceLabel rt))
                prefixedResourceURI rtFolderId (or_undefined (rt_remark rt)) db of
           Inl e \<Rightarrow> Inl e
         | Inr db1 \<Rightarrow>
             (case import_props (rt_id rt) namespaces 0 (propertyTemplates rt)
                     (acc\<lparr>shapesCreated := shapesCreated acc + 1\<rparr>, db1) of
                Inl e \<Rightarrow> Inl e
              | Inr p1 \<Rightarrow> import_rts namespaces rest p1))"

definition link_row :: "int \<Rightarrow> string \<Rightarrow> CreateRowRequest" where
  "link_row linkRowOrder rtId =
     empty_row\<lparr>req_rowOrder := Some linkRowOrder, propertyId := Some ''dcterms:hasPart'',
               propertyLabel := Some ''Has Shape'', valueShape := Some rtId,
               valueNodeType := Some ''bnode''\<rparr>"

fun import_links ::
  "string \<Rightarrow> int \<Rightarrow> string list \<Rightarrow> marva_acc \<times> WorkspaceDb \<Rightarrow> error + marva_acc \<times> WorkspaceDb" where
  "import_links profileShapeId linkRowOrder [] (acc, db) = Inr (acc, db)"
| "import_links profileShapeId linkRowOrder (rtId # rest) (acc, db) =
     (case rowService_create profileShapeId (link_row linkRowOrder rtId) db of
        Inl e \<Rightarrow> Inl e
      | Inr db1 \<Rightarrow>
          import_links profileShapeId (linkRowOrder + 1) rest
            (acc\<lparr>rowsCreated := rowsCreated acc + 1\<rparr>, db1))"

fun import_docs ::
  "namespace list \<Rightarrow> MarvaProfileDocument list \<Rightarrow> marva_acc \<times> WorkspaceDb \<Rightarrow>
   error + marva_acc \<times> WorkspaceDb" where
  "import_docs namespaces [] p = Inr p"
| "import_docs namespaces (doc # rest) p =
     (case doc_profile doc of
        None \<Rightarrow> import_docs namespaces rest p
      | Some profile \<Rightarrow>
          (let (profileFolderId, acc, db) = folder_for (prof_id profile) p in
           case shapeService_create (prof_id profile) (Some (prof_title profile)) None
                  profileFolderId (or_undefined (prof_description profile)) db of
             Inl e \<Rightarrow> Inl e
           | Inr db1 \<Rightarrow>
               (case import_rts namespaces (resourceTemplates profile)
                       (acc\<lparr>shapesCreated := shapesCreated acc + 1\<rparr>, db1) of
                  Inl e \<Rightarrow> Inl e
                | Inr p1 \<Rightarrow>
                    (case import_links (prof_id profile) 0
                            (map rt_id (resourceTemplates profile)) p1 of
                       Inl e \<Rightarrow> Inl e
                     | Inr p2 \<Rightarrow> import_docs namespaces rest p2))))"

record ImportMarvaProfileResult =
  res_workspaceId :: nat
  res_workspaceName :: string
  res_shapesCreated :: nat
  res_rowsCreated :: nat

definition importMarvaProfiles ::
  "string \<Rightarrow> MarvaProfileDocument list \<Rightarrow> store \<Rightarrow> error + ImportMarvaProfileResult \<times> store" where
  "importMarvaProfiles workspaceName profiles st =
     (let (wid, st1) = workspaceService_create workspaceName st in
      case getWorkspaceDb st1 wid of
        Inl e \<Rightarrow> Inl e
      | Inr db0 \<Rightarrow>
          (let db = optionsService_update True db0;
               namespaces = namespaceService_list db
           in case import_docs namespaces profiles
                     (\<lparr>folderMap = [], shapesCreated = 0, rowsCreated = 0\<rparr>, db) of
                Inl e \<Rightarrow> Inl e
              | Inr (acc, db1) \<Rightarrow>
                  Inr (\<lparr>res_workspaceId = wid, res_workspaceName = workspaceName,
                        res_shapesCreated = shapesCreated acc,
                        res_rowsCreated = rowsCreated acc\<rparr>, st1[wid := db1])))"

subsection \<open>What an import is expected to count\<close>

definition profiles_of :: "MarvaProfileDocument list \<Rightarrow> MarvaProfile list" where
  "profiles_of docs = List.map_filter doc_profile docs"

definition profile_shape_ids :: "MarvaProfile \<Rightarrow> string list" where
  "profile_shape_ids p = prof_id p # map rt_id (resourceTemplates p)"

definition count_props :: "MarvaProfile \<Rightarrow> nat" where
  "count_props p = sum_list (map (\<lambda>rt. length (propertyTemplates rt)) (resourceTemplates p))"


subsection \<open>Example documents\<close>

definition title_property :: MarvaPropertyTemplate where
  "title_property =
     \<lparr>propertyURI = ''http://id.loc.gov/ontologies/bibframe/mainTitle'',
      pt_propertyLabel = ''Main title'', pt_mandatory = ''true'', pt_repeatable = ''false'',
      pt_type = TLiteral, pt_remark = None,
      pt_valueConstraint = \<lparr>valueTemplateRefs = [], useValuesFrom = [], defaults = [],
                              dataTypeURI = None, vc_repeatable = None\<rparr>\<rparr>"

definition title_document :: MarvaProfileDocument where
  "title_document =
     \<lparr>doc_name = ''Title'',
      doc_profile = Some
        \<lparr>prof_id = ''lc:profile:bf2:Title'', prof_title = ''Title'', prof_description = None,
         resourceTemplates =
           [\<lparr>rt_id = ''lc:RT:bf2:Title'', rt_resourceURI = None, rt_resourceLabel = Some ''Title'',
             rt_remark = None, propertyTemplates = [title_property]\<rparr>]\<rparr>\<rparr>"

definition bare_document :: MarvaProfileDocument where
  "bare_document =
     \<lparr>doc_name = ''P'',
      doc_profile = Some \<lparr>prof_id = ''P'', prof_title = ''P'', prof_description = None,
                          resourceTemplates = []\<rparr>\<rparr>"

subsection \<open>exportMarvaProfiles\<close>

definition empty_constraint :: MarvaValueConstraint where
  "empty_constraint =
     \<lparr>valueTemplateRefs = [], useValuesFrom = [], defaults = [], dataTypeURI = None,
      vc_repeatable = None\<rparr>"

definition split_defaults :: "string option \<Rightarrow> string list" where
  \<comment> \<open>\<open>v?.split('\n').filter(Boolean) || []\<close>\<close>
  "split_defaults v =
     (case v of None \<Rightarrow> [] | Some s \<Rightarrow> filter (\<lambda>x. x \<noteq> []) (split_on (\<lambda>c. c = CHR 0x0A) s))"

definition pair_defaults :: "string option \<Rightarrow> string option \<Rightarrow> MarvaDefault list" where
  \<comment> \<open>the loop over \<open>i < maxDefaults\<close>: the i-th literal with the i-th URI\<close>
  "pair_defaults lits uris =
     (let defaultLiterals = split_defaults lits;
          defaultURIs = split_defaults uris;
          maxDefaults = max (length defaultLiterals) (length defaultURIs)
      in List.map_filter
           (\<lambda>i. let l = or_undefined (nth_opt defaultLiterals i);
                    u = or_undefined (nth_opt defaultURIs i)
                in if l \<noteq> None \<or> u \<noteq> None
                   then Some \<lparr>defaultURI = u, defaultLiteral = l\<rparr> else None)
           [0..<maxDefaults])"

definition base_property :: "namespace list \<Rightarrow> StatementRow \<Rightarrow> MarvaPropertyTemplate" where
  "base_property namespaces row =
     \<lparr>propertyURI = expandUri (or_else (propertyId row) []) namespaces,
      pt_propertyLabel = or_else (propertyLabel row) [],
      pt_mandatory = or_else (mandatory row) ''false'',
      pt_repeatable = or_else (repeatable row) ''false'',
      pt_type = TLiteral, pt_remark = None, pt_valueConstraint = empty_constraint\<rparr>"

definition infer_type :: "StatementRow \<Rightarrow> MarvaPropertyTemplate \<Rightarrow> MarvaPropertyTemplate" where
  \<comment> \<open>"Determine type based on data", in the loop over the profile shapes\<close>
  "infer_type row p =
     (if valueNodeType row = Some ''literal'' then p\<lparr>pt_type := TLiteral\<rparr>
      else if valueNodeType row = Some ''bnode'' \<and> truthy (valueShape row)
      then p\<lparr>pt_type := TResource,
             pt_valueConstraint := (pt_valueConstraint p)
               \<lparr>valueTemplateRefs := decode_newlines (the (valueShape row))\<rparr>\<rparr>
      else if valueConstraintType row = Some ''IRIstem'' \<and> truthy (valueConstraint row)
      then p\<lparr>pt_type := TLookup,
             pt_valueConstraint := (pt_valueConstraint p)
               \<lparr>useValuesFrom := decode_newlines (the (valueConstraint row))\<rparr>\<rparr>
      else if truthy (valueShape row)
      then p\<lparr>pt_type := TResource,
             pt_valueConstraint := (pt_valueConstraint p)
               \<lparr>valueTemplateRefs := decode_newlines (the (valueShape row))\<rparr>\<rparr>
      else p)"

definition infer_type_fallback :: "StatementRow \<Rightarrow> MarvaPropertyTemplate \<Rightarrow> MarvaPropertyTemplate" where
  \<comment> \<open>the same step in the single-document fallback: it has three branches\<close>
  "infer_type_fallback row p =
     (if valueNodeType row = Some ''literal'' then p\<lparr>pt_type := TLiteral\<rparr>
      else if valueNodeType row = Some ''bnode'' \<and> truthy (valueShape row)
      then p\<lparr>pt_type := TResource,
             pt_valueConstraint := (pt_valueConstraint p)
               \<lparr>valueTemplateRefs := decode_newlines (the (valueShape row))\<rparr>\<rparr>
      else if valueConstraintType row = Some ''IRIstem'' \<and> truthy (valueConstraint row)
      then p\<lparr>pt_type := TLookup,
             pt_valueConstraint := (pt_valueConstraint p)
               \<lparr>useValuesFrom := decode_newlines (the (valueConstraint row))\<rparr>\<rparr>
      else p)"

definition finish_property ::
  "namespace list \<Rightarrow> StatementRow \<Rightarrow> MarvaPropertyTemplate \<Rightarrow> MarvaPropertyTemplate" where
  \<comment> \<open>dataTypeURI, defaults and remark: the same text in both loops\<close>
  "finish_property namespaces row p =
     (let p1 = (if truthy (lcDataTypeURI row)
                then p\<lparr>pt_valueConstraint := (pt_valueConstraint p)
                         \<lparr>dataTypeURI := Some (expandUri (the (lcDataTypeURI row)) namespaces)\<rparr>\<rparr>
                else p);
          p2 = p1\<lparr>pt_valueConstraint := (pt_valueConstraint p1)
                    \<lparr>defaults := defaults (pt_valueConstraint p1)
                       @ pair_defaults (lcDefaultLiteral row) (lcDefaultURI row)\<rparr>\<rparr>
      in if truthy (lcRemark row) then p2\<lparr>pt_remark := lcRemark row\<rparr> else p2)"

definition rowToProperty :: "namespace list \<Rightarrow> StatementRow \<Rightarrow> MarvaPropertyTemplate" where
  "rowToProperty namespaces row =
     finish_property namespaces row (infer_type row (base_property namespaces row))"

definition rowToPropertyFallback :: "namespace list \<Rightarrow> StatementRow \<Rightarrow> MarvaPropertyTemplate" where
  "rowToPropertyFallback namespaces row =
     finish_property namespaces row (infer_type_fallback row (base_property namespaces row))"

definition shape_template ::
  "namespace list \<Rightarrow> Shape \<Rightarrow> MarvaPropertyTemplate list \<Rightarrow> MarvaResourceTemplate" where
  "shape_template namespaces s pts =
     \<lparr>rt_id = shapeId s,
      rt_resourceURI = (if truthy (resourceURI s)
                        then Some (expandUri (the (resourceURI s)) namespaces) else None),
      rt_resourceLabel = or_undefined (shapeLabel s),
      rt_remark = or_undefined (description s),
      propertyTemplates = pts\<rparr>"

definition linked_ids :: "StatementRow list \<Rightarrow> string list" where
  \<comment> \<open>the ids the hasPart rows of a shape link to, starting-point ids left out\<close>
  "linked_ids rs =
     filter (\<lambda>i. \<not> isStartingPointShape i)
       (concat (map (\<lambda>r. decode_newlines (the (valueShape r)))
          (filter (\<lambda>r. propertyId r = Some ''dcterms:hasPart''
                       \<and> propertyLabel r = Some ''Has Shape'' \<and> truthy (valueShape r)) rs)))"

fun find_profiles :: "WorkspaceDb \<Rightarrow> Shape list \<Rightarrow> error + (Shape \<times> string list) list" where
  "find_profiles db [] = Inr []"
| "find_profiles db (s # rest) =
     (case rowService_list db (shapeId s) of
        Inl e \<Rightarrow> Inl e
      | Inr rs \<Rightarrow>
          (case find_profiles db rest of
             Inl e \<Rightarrow> Inl e
           | Inr ps \<Rightarrow> Inr (if linked_ids rs \<noteq> [] then (s, linked_ids rs) # ps else ps)))"

fun export_templates ::
  "WorkspaceDb \<Rightarrow> namespace list \<Rightarrow> Shape list \<Rightarrow> string list \<Rightarrow> error + MarvaResourceTemplate list" where
  "export_templates db namespaces shapes [] = Inr []"
| "export_templates db namespaces shapes (rtId # rest) =
     (case find (\<lambda>s. shapeId s = rtId) shapes of
        None \<Rightarrow> export_templates db namespaces shapes rest
      | Some rtShape \<Rightarrow>
          (case rowService_list db rtId of
             Inl e \<Rightarrow> Inl e
           | Inr rtRows \<Rightarrow>
               (case export_templates db namespaces shapes rest of
                  Inl e \<Rightarrow> Inl e
                | Inr rts \<Rightarrow>
                    Inr (shape_template namespaces rtShape (map (rowToProperty namespaces) rtRows)
                         # rts))))"

fun export_profiles ::
  "WorkspaceDb \<Rightarrow> namespace list \<Rightarrow> Shape list \<Rightarrow> (Shape \<times> string list) list \<Rightarrow>
   error + MarvaProfileDocument list" where
  "export_profiles db namespaces shapes [] = Inr []"
| "export_profiles db namespaces shapes ((s, ids) # rest) =
     (case export_templates db namespaces shapes ids of
        Inl e \<Rightarrow> Inl e
      | Inr rts \<Rightarrow>
          (case export_profiles db namespaces shapes rest of
             Inl e \<Rightarrow> Inl e
           | Inr docs \<Rightarrow>
               Inr (\<lparr>doc_name = or_else (shapeLabel s) (shapeId s),
                     doc_profile = Some
                       \<lparr>prof_id = shapeId s, prof_title = or_else (shapeLabel s) (shapeId s),
                        prof_description = or_undefined (description s),
                        resourceTemplates = rts\<rparr>\<rparr> # docs)))"

fun export_all_shapes ::
  "WorkspaceDb \<Rightarrow> namespace list \<Rightarrow> Shape list \<Rightarrow> error + MarvaResourceTemplate list" where
  "export_all_shapes db namespaces [] = Inr []"
| "export_all_shapes db namespaces (s # rest) =
     (case rowService_list db (shapeId s) of
        Inl e \<Rightarrow> Inl e
      | Inr rs \<Rightarrow>
          (case export_all_shapes db namespaces rest of
             Inl e \<Rightarrow> Inl e
           | Inr rts \<Rightarrow>
               Inr (shape_template namespaces s (map (rowToPropertyFallback namespaces) rs) # rts)))"

definition exportMarvaProfiles :: "store \<Rightarrow> nat \<Rightarrow> error + MarvaProfileDocument list" where
  "exportMarvaProfiles st workspaceId =
     (case getWorkspaceDb st workspaceId of
        Inl e \<Rightarrow> Inl e
      | Inr db \<Rightarrow>
          (let namespaces = namespaceService_list db;
               shapes = filter (\<lambda>s. \<not> isStartingPointShape (shapeId s)
                                    \<and> \<not> isInStartingPointFolder db (folderId s))
                          (shapeService_list db)
           in case find_profiles db shapes of
                Inl e \<Rightarrow> Inl e
              | Inr profileShapes \<Rightarrow>
                  (case export_profiles db namespaces shapes profileShapes of
                     Inl e \<Rightarrow> Inl e
                   | Inr documents \<Rightarrow>
                       if length documents = 0 \<and> length shapes > 0 then
                         (case export_all_shapes db namespaces shapes of
                            Inl e \<Rightarrow> Inl e
                          | Inr rts \<Rightarrow>
                              Inr [\<lparr>doc_name = ws_name db,
                                    doc_profile = Some
                                      \<lparr>prof_id = ''lc:profile:'' @
                                         replace_space_runs False (toLowerCase (ws_name db)),
                                       prof_title = ws_name db, prof_description = None,
                                       resourceTemplates = rts\<rparr>\<rparr>])
                       else Inr documents)))"

subsection \<open>Example workspaces\<close>

definition blank_row :: StatementRow where
  "blank_row =
     \<lparr>propertyId = None, propertyLabel = None, mandatory = None, repeatable = None,
      valueNodeType = None, valueDataType = None, valueShape = None, valueConstraint = None,
      valueConstraintType = None, lcDefaultLiteral = None, lcDefaultURI = None, rowNote = None,
      lcDataTypeURI = None, lcRemark = None, rowOrder = 0\<rparr>"

definition plain_shape :: "string \<Rightarrow> Shape" where
  "plain_shape sid =
     \<lparr>shapeId = sid, shapeLabel = None, description = None, resourceURI = None, folderId = None\<rparr>"

text \<open>
  A workspace with one shape and no \<open>Has Shape\<close> rows; its only row has an IRI node type
  and a value shape. It is what importing the CSV
  \<open>shapeID,propertyID,valueNodeType,valueShape / Person,bf:agent,IRI,Agent\<close> creates.
\<close>

definition agent_row :: StatementRow where
  "agent_row = blank_row\<lparr>propertyId := Some ''bf:agent'', valueNodeType := Some ''IRI'',
                          valueShape := Some ''Agent''\<rparr>"

definition person_db :: WorkspaceDb where
  "person_db =
     (initializeWorkspaceDb ''Demo'')
       \<lparr>shapes_tbl := [plain_shape ''Person''],
        row_tables := [''shape_person'' \<mapsto> [agent_row]]\<rparr>"

text \<open>
  A workspace with a profile shape linking to one resource template, whose only row
  refers to four shapes with all three separators.
\<close>

definition refs_row :: StatementRow where
  "refs_row = blank_row\<lparr>propertyId := Some ''bf:title'', valueNodeType := Some ''bnode'',
                         valueShape := Some ''A,B|C\<newline>D''\<rparr>"

definition has_shape_row :: "string \<Rightarrow> StatementRow" where
  "has_shape_row sid =
     blank_row\<lparr>propertyId := Some ''dcterms:hasPart'', propertyLabel := Some ''Has Shape'',
                valueNodeType := Some ''bnode'', valueShape := Some sid\<rparr>"

definition profile_db :: WorkspaceDb where
  "profile_db =
     (initializeWorkspaceDb ''Demo'')
       \<lparr>shapes_tbl := [plain_shape ''Prof'', plain_shape ''RT1''],
        row_tables := [''shape_prof'' \<mapsto> [has_shape_row ''RT1''],
                       ''shape_rt1'' \<mapsto> [refs_row]]\<rparr>"

section \<open>Starting point converter (services/starting-point.ts)\<close>

record StartingPointMenuItem =
  label :: string
  item_type :: "string list"
  useResourceTemplates :: "string list"

record StartingPointMenuGroup =
  menuGroup :: string
  menuItems :: "StartingPointMenuItem list"

text \<open>
  One element of a starting-point file. The \<open>id\<close> (a fresh UUID on export, never read on
  import) is left out.
\<close>

record StartingPointConfig =
  config_name :: string
  configType :: string
  json :: "StartingPointMenuGroup list"

type_synonym StartingPointFile = "StartingPointConfig list"

record ImportStartingPointResult =
  sp_shapesCreated :: nat
  sp_rowsCreated :: nat
  sp_folderId :: nat

definition getOrCreateStartingPointFolder :: "WorkspaceDb \<Rightarrow> nat \<times> WorkspaceDb" where
  "getOrCreateStartingPointFolder db =
     (case find (\<lambda>f. folder_name f = STARTING_POINT_FOLDER_NAME) (folderService_list db) of
        Some existingFolder \<Rightarrow> (folder_id existingFolder, db)
      | None \<Rightarrow> folderService_create STARTING_POINT_FOLDER_NAME db)"

definition group_shape_id :: "StartingPointMenuGroup \<Rightarrow> string" where
  \<comment> \<open>the shape id of a menu group: the prefix and the name with white space replaced\<close>
  "group_shape_id g = STARTING_POINT_PREFIX @ replace_space_runs False (menuGroup g)"

definition first_or_empty :: "string list \<Rightarrow> string" where
  \<comment> \<open>\<open>xs[0] || ''\<close>\<close>
  "first_or_empty xs = or_else (nth_opt xs 0) []"

definition item_row :: "int \<Rightarrow> StartingPointMenuItem \<Rightarrow> CreateRowRequest" where
  "item_row rowOrd item =
     empty_row\<lparr>req_rowOrder := Some rowOrd, propertyId := Some ''dcterms:hasPart'',
               propertyLabel := Some (label item), valueNodeType := Some ''IRI'',
               valueShape := Some (first_or_empty (useResourceTemplates item)),
               valueConstraint := Some (first_or_empty (item_type item)),
               valueConstraintType := Some ''picklist''\<rparr>"

record sp_acc =
  spShapesCreated :: nat
  spRowsCreated :: nat
  createdShapeIds :: "(string \<times> string) list"

fun import_items ::
  "string \<Rightarrow> int \<Rightarrow> StartingPointMenuItem list \<Rightarrow> sp_acc \<times> WorkspaceDb \<Rightarrow> error + sp_acc \<times> WorkspaceDb" where
  "import_items sid rowOrd [] (acc, db) = Inr (acc, db)"
| "import_items sid rowOrd (item # rest) (acc, db) =
     (case rowService_create sid (item_row rowOrd item) db of
        Inl e \<Rightarrow> Inl e
      | Inr db1 \<Rightarrow>
          import_items sid (rowOrd + 1) rest (acc\<lparr>spRowsCreated := spRowsCreated acc + 1\<rparr>, db1))"

fun import_menu_groups ::
  "nat \<Rightarrow> StartingPointMenuGroup list \<Rightarrow> sp_acc \<times> WorkspaceDb \<Rightarrow> error + sp_acc \<times> WorkspaceDb" where
  "import_menu_groups fid [] (acc, db) = Inr (acc, db)"
| "import_menu_groups fid (g # rest) (acc, db) =
     (let sid = group_shape_id g;
          shapeLabel = menuGroup g;
          db0 = shapeService_delete sid db
      in case shapeService_create sid (Some shapeLabel) None (Some fid) None db0 of
           Inl e \<Rightarrow> Inl e
         | Inr db1 \<Rightarrow>
             (case import_items sid 0 (menuItems g)
                     (acc\<lparr>spShapesCreated := spShapesCreated acc + 1,
                          createdShapeIds := createdShapeIds acc @ [(sid, shapeLabel)]\<rparr>, db1) of
                Inl e \<Rightarrow> Inl e
              | Inr p \<Rightarrow> import_menu_groups fid rest p))"

definition index_row :: "int \<Rightarrow> string \<times> string \<Rightarrow> CreateRowRequest" where
  "index_row indexRowOrder p =
     empty_row\<lparr>req_rowOrder := Some indexRowOrder, propertyId := Some ''dcterms:hasPart'',
               propertyLabel := Some (snd p), valueShape := Some (fst p)\<rparr>"

fun import_index_rows ::
  "int \<Rightarrow> (string \<times> string) list \<Rightarrow> sp_acc \<times> WorkspaceDb \<Rightarrow> error + sp_acc \<times> WorkspaceDb" where
  "import_index_rows indexRowOrder [] (acc, db) = Inr (acc, db)"
| "import_index_rows indexRowOrder (p # rest) (acc, db) =
     (case rowService_create STARTING_POINT_INDEX_ID (index_row indexRowOrder p) db of
        Inl e \<Rightarrow> Inl e
      | Inr db1 \<Rightarrow>
          import_index_rows (indexRowOrder + 1) rest
            (acc\<lparr>spRowsCreated := spRowsCreated acc + 1\<rparr>, db1))"

definition importStartingPoints_db ::
  "StartingPointFile \<Rightarrow> WorkspaceDb \<Rightarrow> error + ImportStartingPointResult \<times> WorkspaceDb" where
  \<comment> \<open>\<open>importStartingPoints\<close> on the database of the workspace\<close>
  "importStartingPoints_db data db =
     (case find (\<lambda>item. configType item = ''startingPoints'') data of
        None \<Rightarrow> Inl NoStartingPointsConfig
      | Some config \<Rightarrow>
          (let menuGroups = json config in
           if length menuGroups = 0 then Inl NoMenuGroups
           else
             (let (fid, db1) = getOrCreateStartingPointFolder db in
              case import_menu_groups fid menuGroups
                     (\<lparr>spShapesCreated = 0, spRowsCreated = 0, createdShapeIds = []\<rparr>, db1) of
                Inl e \<Rightarrow> Inl e
              | Inr (acc, db2) \<Rightarrow>
                  (let db3 = shapeService_delete STARTING_POINT_INDEX_ID db2 in
                   case shapeService_create STARTING_POINT_INDEX_ID (Some ''Starting Point Index'')
                          None (Some fid) None db3 of
                     Inl e \<Rightarrow> Inl e
                   | Inr db4 \<Rightarrow>
                       (case import_index_rows 0 (createdShapeIds acc)
                               (acc\<lparr>spShapesCreated := spShapesCreated acc + 1\<rparr>, db4) of
                          Inl e \<Rightarrow> Inl e
                        | Inr (acc1, db5) \<Rightarrow>
                            Inr (\<lparr>sp_shapesCreated = spShapesCreated acc1,
                                  sp_rowsCreated = spRowsCreated acc1, sp_folderId = fid\<rparr>,
                                 db5))))))"

definition importStartingPoints ::
  "store \<Rightarrow> nat \<Rightarrow> StartingPointFile \<Rightarrow> error + ImportStartingPointResult \<times> store" where
  "importStartingPoints st workspaceId data =
     (case find (\<lambda>item. configType item = ''startingPoints'') data of
        None \<Rightarrow> Inl NoStartingPointsConfig
      | Some config \<Rightarrow>
          if length (json config) = 0 then Inl NoMenuGroups
          else
            (case getWorkspaceDb st workspaceId of
               Inl e \<Rightarrow> Inl e
             | Inr db \<Rightarrow>
                 (case importStartingPoints_db data db of
                    Inl e \<Rightarrow> Inl e
                  | Inr (r, db1) \<Rightarrow> Inr (r, st[workspaceId := db1]))))"

subsection \<open>exportStartingPoints\<close>

fun replace_first :: "string \<Rightarrow> string \<Rightarrow> string \<Rightarrow> string" where
  \<comment> \<open>\<open>s.replace(pat, r)\<close> for a string pattern: the first occurrence only\<close>
  "replace_first pat r [] = (if pat = [] then r else [])"
| "replace_first pat r (c # cs) =
     (if starts_with (c # cs) pat then r @ drop (length pat) (c # cs)
      else c # replace_first pat r cs)"

definition default_group_name :: "string \<Rightarrow> string" where
  \<comment> \<open>\<open>shapeId.replace(STARTING_POINT_PREFIX, '').replace(/_/g, ' ')\<close>\<close>
  "default_group_name sid =
     map (\<lambda>c. if c = CHR ''_'' then CHR '' '' else c) (replace_first STARTING_POINT_PREFIX [] sid)"

definition menu_item_of :: "StatementRow \<Rightarrow> StartingPointMenuItem" where
  "menu_item_of row =
     \<lparr>label = or_else (propertyLabel row) [],
      item_type = (if truthy (valueConstraint row) then [the (valueConstraint row)] else []),
      useResourceTemplates = (if truthy (valueShape row) then [the (valueShape row)] else [])\<rparr>"

definition menu_items_of :: "StatementRow list \<Rightarrow> StartingPointMenuItem list" where
  "menu_items_of rs = map menu_item_of (filter (\<lambda>row. propertyId row = Some ''dcterms:hasPart'') rs)"

fun export_menu_groups :: "WorkspaceDb \<Rightarrow> Shape list \<Rightarrow> error + StartingPointMenuGroup list" where
  "export_menu_groups db [] = Inr []"
| "export_menu_groups db (s # rest) =
     (case rowService_list db (shapeId s) of
        Inl e \<Rightarrow> Inl e
      | Inr rs \<Rightarrow>
          (case export_menu_groups db rest of
             Inl e \<Rightarrow> Inl e
           | Inr gs \<Rightarrow>
               Inr (if length (menu_items_of rs) > 0
                    then \<lparr>menuGroup = or_else (shapeLabel s) (default_group_name (shapeId s)),
                          menuItems = menu_items_of rs\<rparr> # gs
                    else gs)))"

definition startingPointShapes :: "WorkspaceDb \<Rightarrow> Shape list" where
  "startingPointShapes db =
     filter (\<lambda>s. isStartingPointShape (shapeId s) \<and> shapeId s \<noteq> STARTING_POINT_INDEX_ID)
       (shapeService_list db)"

definition orderedShapeIds :: "WorkspaceDb \<Rightarrow> error + string list" where
  \<comment> \<open>the value shapes of the index rows in row order; none when there is no index shape\<close>
  "orderedShapeIds db =
     (case find (\<lambda>s. shapeId s = STARTING_POINT_INDEX_ID) (shapeService_list db) of
        None \<Rightarrow> Inr []
      | Some indexShape \<Rightarrow>
          (case rowService_list db STARTING_POINT_INDEX_ID of
             Inl e \<Rightarrow> Inl e
           | Inr indexRows \<Rightarrow>
               Inr (map (\<lambda>row. the (valueShape row))
                      (filter (\<lambda>row. truthy (valueShape row)) indexRows))))"

definition orderedShapes :: "Shape list \<Rightarrow> string list \<Rightarrow> Shape list" where
  \<comment> \<open>\<open>shapeMap\<close> is the \<open>Map\<close> built from the shapes: a later shape of the same id
     would replace an earlier one\<close>
  "orderedShapes sps ids =
     (let shapeMap = map_of (rev (map (\<lambda>s. (shapeId s, s)) sps))
      in map (\<lambda>i. the (shapeMap i)) (filter (\<lambda>i. shapeMap i \<noteq> None) ids)
         @ filter (\<lambda>s. shapeId s \<notin> set ids) sps)"

definition exportStartingPoints_db :: "WorkspaceDb \<Rightarrow> error + StartingPointFile option" where
  \<comment> \<open>\<open>exportStartingPoints\<close> on the database of the workspace; \<open>None\<close> is \<open>null\<close>\<close>
  "exportStartingPoints_db db =
     (if length (startingPointShapes db) = 0 then Inr None
      else
        (case orderedShapeIds db of
           Inl e \<Rightarrow> Inl e
         | Inr ids \<Rightarrow>
             (case export_menu_groups db (orderedShapes (startingPointShapes db) ids) of
                Inl e \<Rightarrow> Inl e
              | Inr menuGroups \<Rightarrow>
                  if length menuGroups = 0 then Inr None
                  else Inr (Some [\<lparr>config_name = ''config'', configType = ''startingPoints'',
                                    json = menuGroups\<rparr>]))))"

definition exportStartingPoints :: "store \<Rightarrow> nat \<Rightarrow> error + StartingPointFile option" where
  "exportStartingPoints st workspaceId =
     (case getWorkspaceDb st workspaceId of
        Inl e \<Rightarrow> Inl e
      | Inr db \<Rightarrow> exportStartingPoints_db db)"

subsection \<open>The order of the exported menu groups, stated on the shapes\<close>

text \<open>
  The menu group a shape contributes: none when it has no \<open>dcterms:hasPart\<close> row.
\<close>

definition menu_group_of :: "WorkspaceDb \<Rightarrow> Shape \<Rightarrow> StartingPointMenuGroup option" where
  "menu_group_of db s =
     (case rowService_list db (shapeId s) of
        Inl e \<Rightarrow> None
      | Inr rs \<Rightarrow>
          if menu_items_of rs = [] then None
          else Some \<lparr>menuGroup = or_else (shapeLabel s) (default_group_name (shapeId s)),
                     menuItems = menu_items_of rs\<rparr>)"

text \<open>
  The shapes that the index names, in the order of the index, and the other shapes in the
  order of the listing.
\<close>

definition shapes_in_index_order :: "Shape list \<Rightarrow> string list \<Rightarrow> Shape list" where
  "shapes_in_index_order sps ids = concat (map (\<lambda>i. filter (\<lambda>s. shapeId s = i) sps) ids)"

definition shapes_not_in_index :: "Shape list \<Rightarrow> string list \<Rightarrow> Shape list" where
  "shapes_not_in_index sps ids = filter (\<lambda>s. shapeId s \<notin> set ids) sps"

text \<open>
  The value shapes of the rows of the index shape, in \<open>rowOrder\<close>.
\<close>

definition index_references :: "WorkspaceDb \<Rightarrow> string list" where
  "index_references db =
     (if STARTING_POINT_INDEX_ID \<in> shapeId ` set (shapes_tbl db)
      then (case row_tables db (tableName STARTING_POINT_INDEX_ID) of
              None \<Rightarrow> []
            | Some rs \<Rightarrow> map (\<lambda>row. the (valueShape row))
                          (filter (\<lambda>row. truthy (valueShape row)) (sort_key rowOrder rs)))
      else [])"

text \<open>
  The menu groups an export is expected to hold: those of the starting-point shapes that
  the index names, in the order of the index, then those of the other starting-point shapes
  in the order of the listing.
\<close>

definition expected_menu_groups :: "WorkspaceDb \<Rightarrow> StartingPointMenuGroup list" where
  "expected_menu_groups db =
     List.map_filter (menu_group_of db)
       (shapes_in_index_order (startingPointShapes db) (index_references db)
        @ shapes_not_in_index (startingPointShapes db) (index_references db))"

subsection \<open>Example workspaces with starting points\<close>

definition menu_row :: "int \<Rightarrow> string \<Rightarrow> string \<Rightarrow> StatementRow" where
  "menu_row k lbl tmpl =
     stored_row (item_row k \<lparr>label = lbl, item_type = [], useResourceTemplates = [tmpl]\<rparr>) k"

definition standalone_db :: WorkspaceDb where
  "standalone_db =
     (initializeWorkspaceDb ''w'')
       \<lparr>shapes_tbl :=
          [\<lparr>shapeId = ''startingpoint:B'', shapeLabel = Some ''B'', description = None,
            resourceURI = None, folderId = None\<rparr>,
           \<lparr>shapeId = ''startingpoint:index'', shapeLabel = None, description = None,
            resourceURI = None, folderId = None\<rparr>,
           \<lparr>shapeId = ''startingpoint:A'', shapeLabel = Some ''A'', description = None,
            resourceURI = None, folderId = None\<rparr>],
        row_tables :=
          [''shape_startingpoint_b'' \<mapsto> [menu_row 0 ''Work'' ''lc:Work''],
           ''shape_startingpoint_index'' \<mapsto> [],
           ''shape_startingpoint_a'' \<mapsto> [menu_row 0 ''Instance'' ''lc:Instance'']]\<rparr>"

definition ordered_db :: WorkspaceDb where
  \<comment> \<open>three menu groups; the index names \<open>C\<close> (row order 0) and \<open>A\<close> (row order 1)\<close>
  "ordered_db =
     (initializeWorkspaceDb ''w'')
       \<lparr>shapes_tbl :=
          [\<lparr>shapeId = ''startingpoint:C'', shapeLabel = Some ''C'', description = None,
            resourceURI = None, folderId = None\<rparr>,
           \<lparr>shapeId = ''startingpoint:index'', shapeLabel = None, description = None,
            resourceURI = None, folderId = None\<rparr>,
           \<lparr>shapeId = ''startingpoint:A'', shapeLabel = Some ''A'', description = None,
            resourceURI = None, folderId = None\<rparr>,
           \<lparr>shapeId = ''startingpoint:B'', shapeLabel = Some ''B'', description = None,
            resourceURI = None, folderId = None\<rparr>],
        row_tables :=
          [''shape_startingpoint_c'' \<mapsto> [menu_row 0 ''Item'' ''lc:Item''],
           ''shape_startingpoint_index'' \<mapsto>
             [stored_row (index_row 1 (''startingpoint:A'', ''A'')) 1,
              stored_row (index_row 0 (''startingpoint:C'', ''C'')) 0],
           ''shape_startingpoint_a'' \<mapsto> [menu_row 0 ''Instance'' ''lc:Instance''],
           ''shape_startingpoint_b'' \<mapsto> [menu_row 0 ''Work'' ''lc:Work'']]\<rparr>"

definition standalone_file :: StartingPointFile where
  "standalone_file =
     [\<lparr>config_name = ''config'', configType = ''startingPoints'',
       json = [\<lparr>menuGroup = ''A'',
                menuItems = [\<lparr>label = ''Instance'', item_type = [],
                              useResourceTemplates = [''lc:Instance'']\<rparr>]\<rparr>,
               \<lparr>menuGroup = ''B'',
                menuItems = [\<lparr>label = ''Work'', item_type = [],
                              useResourceTemplates = [''lc:Work'']\<rparr>]\<rparr>]\<rparr>]"

definition ordered_file :: StartingPointFile where
  "ordered_file =
     [\<lparr>config_name = ''config'', configType = ''startingPoints'',
       json = [\<lparr>menuGroup = ''C'',
                menuItems = [\<lparr>label = ''Item'', item_type = [],
                              useResourceTemplates = [''lc:Item'']\<rparr>]\<rparr>,
               \<lparr>menuGroup = ''A'',
                menuItems = [\<lparr>label = ''Instance'', item_type = [],
                              useResourceTemplates = [''lc:Instance'']\<rparr>]\<rparr>,
               \<lparr>menuGroup = ''B'',
                menuItems = [\<lparr>label = ''Work'', item_type = [],
                              useResourceTemplates = [''lc:Work'']\<rparr>]\<rparr>]\<rparr>]"

subsection \<open>The workspace after an import of starting points, stated on the file\<close>

text \<open>
  The shape and the rows that \<open>importStartingPoints\<close> stores for a menu group, the index
  shape and its rows.
\<close>

definition group_shape :: "nat \<Rightarrow> StartingPointMenuGroup \<Rightarrow> Shape" where
  "group_shape fid g =
     \<lparr>shapeId = group_shape_id g, shapeLabel = or_undefined (Some (menuGroup g)),
      description = None, resourceURI = None, folderId = Some fid\<rparr>"

definition index_shape :: "nat \<Rightarrow> Shape" where
  "index_shape fid =
     \<lparr>shapeId = STARTING_POINT_INDEX_ID, shapeLabel = Some ''Starting Point Index'',
      description = None, resourceURI = None, folderId = Some fid\<rparr>"

definition group_rows :: "StartingPointMenuGroup \<Rightarrow> StatementRow list" where
  "group_rows g =
     map (\<lambda>(k, item). stored_row (item_row (int k) item) (int k)) (List.enumerate 0 (menuItems g))"

definition index_rows :: "StartingPointMenuGroup list \<Rightarrow> StatementRow list" where
  "index_rows gs =
     map (\<lambda>(k, g). stored_row (index_row (int k) (group_shape_id g, menuGroup g)) (int k))
       (List.enumerate 0 gs)"

text \<open>
  Creating a shape anew: \<open>shapeService.delete\<close> drops the row table only when the shape
  exists, and \<open>CREATE TABLE IF NOT EXISTS\<close> keeps a table that is there. So the rows that
  the new shape starts with are those of a table of the same name that belongs to no shape
  of this id. \<open>put_group\<close> and \<open>put_index\<close> are one pass of the two loops of the import.
\<close>

definition kept_rows :: "string \<Rightarrow> WorkspaceDb \<Rightarrow> StatementRow list" where
  "kept_rows sid db =
     (if sid \<in> shapeId ` set (shapes_tbl db) then []
      else (case row_tables db (tableName sid) of None \<Rightarrow> [] | Some rs \<Rightarrow> rs))"

definition put_group :: "nat \<Rightarrow> StartingPointMenuGroup \<Rightarrow> WorkspaceDb \<Rightarrow> WorkspaceDb" where
  "put_group fid g db =
     db\<lparr>shapes_tbl := filter (\<lambda>s. shapeId s \<noteq> group_shape_id g) (shapes_tbl db)
                        @ [group_shape fid g],
        row_tables := (row_tables db)(tableName (group_shape_id g) \<mapsto>
                        kept_rows (group_shape_id g) db @ group_rows g)\<rparr>"

definition put_index :: "nat \<Rightarrow> StartingPointMenuGroup list \<Rightarrow> WorkspaceDb \<Rightarrow> WorkspaceDb" where
  "put_index fid gs db =
     db\<lparr>shapes_tbl := filter (\<lambda>s. shapeId s \<noteq> STARTING_POINT_INDEX_ID) (shapes_tbl db)
                        @ [index_shape fid],
        row_tables := (row_tables db)(tableName STARTING_POINT_INDEX_ID \<mapsto>
                        kept_rows STARTING_POINT_INDEX_ID db @ index_rows gs)\<rparr>"

definition imported_starting_points :: "StartingPointMenuGroup list \<Rightarrow> WorkspaceDb \<Rightarrow> WorkspaceDb" where
  "imported_starting_points gs db =
     (let (fid, db1) = getOrCreateStartingPointFolder db
      in put_index fid gs (fold (put_group fid) gs db1))"

text \<open>
  What an export gives back for a menu item: the label, and of the two lists the first
  element alone, or nothing when it is missing or empty.
\<close>

definition normal_item :: "StartingPointMenuItem \<Rightarrow> StartingPointMenuItem" where
  "normal_item item =
     \<lparr>label = label item,
      item_type = (if first_or_empty (item_type item) = [] then []
                   else [first_or_empty (item_type item)]),
      useResourceTemplates = (if first_or_empty (useResourceTemplates item) = [] then []
                              else [first_or_empty (useResourceTemplates item)])\<rparr>"

text \<open>
  The menu items that the rows of a shape stand for, and the menu group that the export
  writes for a shape id.
\<close>

definition menu_items_in :: "WorkspaceDb \<Rightarrow> string \<Rightarrow> StartingPointMenuItem list" where
  "menu_items_in db sid = (case rowService_list db sid of Inl e \<Rightarrow> [] | Inr rs \<Rightarrow> menu_items_of rs)"

definition exported_group :: "WorkspaceDb \<Rightarrow> string \<Rightarrow> StartingPointMenuGroup" where
  "exported_group db sid =
     \<lparr>menuGroup =
        (case find (\<lambda>s. shapeId s = sid) (startingPointShapes db) of
           None \<Rightarrow> []
         | Some s \<Rightarrow> or_else (shapeLabel s) (default_group_name sid)),
      menuItems = menu_items_in db sid\<rparr>"

subsection \<open>Example starting-point files\<close>

definition works_item :: StartingPointMenuItem where
  "works_item = \<lparr>label = ''Monograph'', item_type = [''bf:Work'', ''bf:Text''],
                  useResourceTemplates = [''lc:RT:bf2:Monograph:Work'']\<rparr>"

definition works_item_exported :: StartingPointMenuItem where
  "works_item_exported = \<lparr>label = ''Monograph'', item_type = [''bf:Work''],
                           useResourceTemplates = [''lc:RT:bf2:Monograph:Work'']\<rparr>"

definition instance_item :: StartingPointMenuItem where
  "instance_item = \<lparr>label = ''Instance'', item_type = [],
                     useResourceTemplates = [''lc:RT:bf2:Monograph:Instance'']\<rparr>"

text \<open>
  Two menu groups whose shapes have different ids and one row table, listed against the
  order of their ids.
\<close>

definition shared_table_file :: StartingPointFile where
  "shared_table_file =
     [\<lparr>config_name = ''config'', configType = ''startingPoints'',
       json = [\<lparr>menuGroup = ''A_B'', menuItems = [works_item]\<rparr>,
               \<lparr>menuGroup = ''A:B'', menuItems = [instance_item]\<rparr>]\<rparr>]"

definition shared_table_db :: WorkspaceDb where
  "shared_table_db =
     (initializeWorkspaceDb ''w'')
       \<lparr>shapes_tbl :=
          [\<lparr>shapeId = ''startingpoint:A_B'', shapeLabel = Some ''A_B'',
            description = None, resourceURI = None, folderId = Some 1\<rparr>,
           \<lparr>shapeId = ''startingpoint:A:B'', shapeLabel = Some ''A:B'',
            description = None, resourceURI = None, folderId = Some 1\<rparr>,
           \<lparr>shapeId = ''startingpoint:index'', shapeLabel = Some ''Starting Point Index'',
            description = None, resourceURI = None, folderId = Some 1\<rparr>],
        row_tables :=
          [''shape_startingpoint_a_b'' \<mapsto>
             [stored_row (item_row 0 works_item) 0, stored_row (item_row 0 instance_item) 0],
           ''shape_startingpoint_index'' \<mapsto>
             [stored_row (index_row 0 (''startingpoint:A_B'', ''A_B'')) 0,
              stored_row (index_row 1 (''startingpoint:A:B'', ''A:B'')) 1]],
        folders_tbl := [\<lparr>folder_id = 1, folder_name = ''Starting Points''\<rparr>],
        next_folder_id := 2\<rparr>"

definition shared_table_exported :: StartingPointFile where
  "shared_table_exported =
     [\<lparr>config_name = ''config'', configType = ''startingPoints'',
       json = [\<lparr>menuGroup = ''A_B'', menuItems = [works_item_exported, instance_item]\<rparr>,
               \<lparr>menuGroup = ''A:B'', menuItems = [works_item_exported, instance_item]\<rparr>]\<rparr>]"

text \<open>A file with a menu group that has no item, and the workspaces it leads to.\<close>

definition empty_group_file :: StartingPointFile where
  "empty_group_file =
     [\<lparr>config_name = ''config'', configType = ''startingPoints'',
       json = [\<lparr>menuGroup = ''Works  BF2'', menuItems = [works_item]\<rparr>,
               \<lparr>menuGroup = ''Empty'', menuItems = []\<rparr>]\<rparr>]"

definition empty_group_db :: WorkspaceDb where
  "empty_group_db =
     (initializeWorkspaceDb ''w'')
       \<lparr>shapes_tbl :=
          [\<lparr>shapeId = ''startingpoint:Works_BF2'', shapeLabel = Some ''Works  BF2'',
            description = None, resourceURI = None, folderId = Some 1\<rparr>,
           \<lparr>shapeId = ''startingpoint:Empty'', shapeLabel = Some ''Empty'',
            description = None, resourceURI = None, folderId = Some 1\<rparr>,
           \<lparr>shapeId = ''startingpoint:index'', shapeLabel = Some ''Starting Point Index'',
            description = None, resourceURI = None, folderId = Some 1\<rparr>],
        row_tables :=
          [''shape_startingpoint_works_bf2'' \<mapsto> [stored_row (item_row 0 works_item) 0],
           ''shape_startingpoint_empty'' \<mapsto> [],
           ''shape_startingpoint_index'' \<mapsto>
             [stored_row (index_row 0 (''startingpoint:Works_BF2'', ''Works  BF2'')) 0,
              stored_row (index_row 1 (''startingpoint:Empty'', ''Empty'')) 1]],
        folders_tbl := [\<lparr>folder_id = 1, folder_name = ''Starting Points''\<rparr>],
        next_folder_id := 2\<rparr>"

definition works_file_exported :: StartingPointFile where
  "works_file_exported =
     [\<lparr>config_name = ''config'', configType = ''startingPoints'',
       json = [\<lparr>menuGroup = ''Works  BF2'', menuItems = [works_item_exported]\<rparr>]\<rparr>]"

definition reimported_db :: WorkspaceDb where
  "reimported_db =
     empty_group_db
       \<lparr>shapes_tbl :=
          [\<lparr>shapeId = ''startingpoint:Empty'', shapeLabel = Some ''Empty'',
            description = None, resourceURI = None, folderId = Some 1\<rparr>,
           \<lparr>shapeId = ''startingpoint:Works_BF2'', shapeLabel = Some ''Works  BF2'',
            description = None, resourceURI = None, folderId = Some 1\<rparr>,
           \<lparr>shapeId = ''startingpoint:index'', shapeLabel = Some ''Starting Point Index'',
            description = None, resourceURI = None, folderId = Some 1\<rparr>],
        row_tables :=
          [''shape_startingpoint_works_bf2'' \<mapsto> [stored_row (item_row 0 works_item_exported) 0],
           ''shape_startingpoint_empty'' \<mapsto> [],
           ''shape_startingpoint_index'' \<mapsto>
             [stored_row (index_row 0 (''startingpoint:Works_BF2'', ''Works  BF2'')) 0]]\<rparr>"

text \<open>A file with a menu group named after the index, and the workspace it leads to.\<close>

definition index_group_file :: StartingPointFile where
  "index_group_file =
     [\<lparr>config_name = ''config'', configType = ''startingPoints'',
       json = [\<lparr>menuGroup = ''index'', menuItems = [works_item]\<rparr>]\<rparr>]"

definition index_group_db :: WorkspaceDb where
  "index_group_db =
     (initializeWorkspaceDb ''w'')
       \<lparr>shapes_tbl :=
          [\<lparr>shapeId = ''startingpoint:index'', shapeLabel = Some ''Starting Point Index'',
            description = None, resourceURI = None, folderId = Some 1\<rparr>],
        row_tables :=
          [''shape_startingpoint_index'' \<mapsto>
             [stored_row (index_row 0 (''startingpoint:index'', ''index'')) 0]],
        folders_tbl := [\<lparr>folder_id = 1, folder_name = ''Starting Points''\<rparr>],
        next_folder_id := 2\<rparr>"

section \<open>Namespace round trip\<close>

lemma index_of_first:
  "c \<notin> set p \<Longrightarrow> index_of c (p @ c # r) = Some (length p)"
  by (induction p) (auto simp: index_of_def)

lemma prefixUri_first_match:
  assumes "\<exists>ns \<in> set NS. starts_with uri (namespace ns)"
  shows "\<exists>ns \<in> set NS. starts_with uri (namespace ns) \<and>
           prefixUri uri NS = prefix ns @ '':'' @ drop (length (namespace ns)) uri"
  using assms by (induction NS) auto

lemma find_unique_prefix:
  "distinct (map prefix NS) \<Longrightarrow> ns \<in> set NS \<Longrightarrow> find (\<lambda>n. prefix n = prefix ns) NS = Some ns"
  by (induction NS) (auto simp: rev_image_eqI)

text \<open>
  C4 (as the code has it). \<open>expandUri\<close> returns any value containing \<open>://\<close> unchanged and
  splits at the first colon, so compress-then-expand gives the URI back when the compressed
  form contains no \<open>://\<close>, no namespace prefix contains a colon and the prefixes are
  distinct (as the store's UNIQUE constraint makes them). With an empty namespace list
  \<open>prefixUri\<close> returns its input.
\<close>

theorem namespace_roundtrip:
  assumes "\<exists>ns \<in> set NS. starts_with uri (namespace ns)"
    and "distinct (map prefix NS)"
    and "\<forall>ns \<in> set NS. CHR '':'' \<notin> set (prefix ns)"
    and "\<not> includes_str (prefixUri uri NS) ''://''"
  shows "expandUri (prefixUri uri NS) NS = uri \<and> prefixUri u [] = u"
proof -
  from prefixUri_first_match [OF assms(1)] obtain ns where ns: "ns \<in> set NS"
    and sw: "starts_with uri (namespace ns)"
    and eq: "prefixUri uri NS = prefix ns @ '':'' @ drop (length (namespace ns)) uri"
    by blast
  from assms(3) ns have nocolon: "CHR '':'' \<notin> set (prefix ns)" by blast
  have idx: "index_of (CHR '':'') (prefixUri uri NS) = Some (length (prefix ns))"
    using index_of_first [OF nocolon] eq by simp
  have fnd: "find (\<lambda>n. prefix n = prefix ns) NS = Some ns"
    by (rule find_unique_prefix [OF assms(2) ns])
  have glue: "namespace ns @ drop (length (namespace ns)) uri = uri"
    using sw by (metis append_take_drop_id starts_with_def)
  have "expandUri (prefixUri uri NS) NS = uri"
    using assms(4) unfolding expandUri_def idx
    by (simp add: eq fnd glue)
  then show ?thesis by simp
qed

theorem namespace_roundtrip_witness:
  "expandUri (prefixUri ''http://purl.org/dc/terms/title'' DEFAULT_NAMESPACES) DEFAULT_NAMESPACES
     = ''http://purl.org/dc/terms/title''
   \<and> prefixUri ''https://x/y'' [] = ''https://x/y''"
  using namespace_roundtrip [of DEFAULT_NAMESPACES "''http://purl.org/dc/terms/title''" "''https://x/y''"]
  by (simp add: DEFAULT_NAMESPACES_def starts_with_def)

text \<open>
  C4 as stated fails: the URI below has a matching namespace, but its local part contains
  \<open>://\<close>, so \<open>expandUri\<close> takes the compressed form for a full URI and returns it as it is.
\<close>

theorem namespace_roundtrip_counterexample:
  "starts_with ''http://example.org/go?to=http://other.org/x'' ''http://example.org/''
   \<and> expandUri
        (prefixUri ''http://example.org/go?to=http://other.org/x''
           [\<lparr>prefix = ''ex'', namespace = ''http://example.org/''\<rparr>])
        [\<lparr>prefix = ''ex'', namespace = ''http://example.org/''\<rparr>]
      = ''ex:go?to=http://other.org/x''
   \<and> expandUri
        (prefixUri ''http://example.org/go?to=http://other.org/x''
           [\<lparr>prefix = ''ex'', namespace = ''http://example.org/''\<rparr>])
        [\<lparr>prefix = ''ex'', namespace = ''http://example.org/''\<rparr>]
      \<noteq> ''http://example.org/go?to=http://other.org/x''"
  by (simp add: expandUri_def starts_with_def index_of_def)

section \<open>CSV import: store calls never fail\<close>

lemma header_indices_None:
  "header_indices i hs m c = None \<longleftrightarrow>
     m c = None \<and> (\<forall>h \<in> set hs. map_of COLUMN_MAPPINGS (normalize_header h) \<noteq> Some c)"
  by (induction hs arbitrary: i m) (auto split: option.splits)

lemma mapping_propertyid:
  "map_of COLUMN_MAPPINGS x = Some ColPropertyId \<longleftrightarrow> x = ''propertyid''"
  by (simp add: COLUMN_MAPPINGS_def)

lemma mapping_shapeid:
  "map_of COLUMN_MAPPINGS x = Some ColShapeID \<longleftrightarrow> x = ''shapeid''"
  by (simp add: COLUMN_MAPPINGS_def)

lemma check_prefix_ok: "acc_ok acc \<Longrightarrow> acc_ok (check_prefix sid i r acc)"
  by (auto simp: acc_ok_def check_prefix_def Let_def split: option.splits)

lemma stored_row_order [simp]: "stored_row (r\<lparr>req_rowOrder := x\<rparr>) k = stored_row r k"
  by (simp add: stored_row_def)

lemma import_rows_result:
  assumes "row_tables db (tableName sid) = Some old" and "acc_ok acc"
  shows "\<exists>acc'. import_rows sid i rs (acc, db) =
           Inr (acc', db\<lparr>row_tables := (row_tables db)(tableName sid \<mapsto>
                  old @ map (\<lambda>(k, r). stored_row r (int k)) (List.enumerate i rs))\<rparr>)
         \<and> acc_ok acc' \<and> totalRows acc' = totalRows acc + length rs"
  using assms
proof (induction rs arbitrary: i acc db old)
  case Nil
  then have "(row_tables db)(tableName sid \<mapsto> old) = row_tables db"
    by (simp add: map_upd_triv)
  then show ?case using Nil by simp
next
  case (Cons r rs)
  let ?db1 = "db\<lparr>row_tables := (row_tables db)(tableName sid \<mapsto> old @ [stored_row r (int i)])\<rparr>"
  let ?acc1 = "(check_prefix sid i r acc)\<lparr>totalRows := totalRows (check_prefix sid i r acc) + 1\<rparr>"
  have c: "rowService_create sid (r\<lparr>req_rowOrder := Some (int i)\<rparr>) db = Inr ?db1"
    using Cons.prems(1) by (simp add: rowService_create_def)
  have t: "row_tables ?db1 (tableName sid) = Some (old @ [stored_row r (int i)])" by simp
  have a: "acc_ok ?acc1" using check_prefix_ok [OF Cons.prems(2)] by (simp add: acc_ok_def)
  have tr: "totalRows (check_prefix sid i r acc) = totalRows acc"
    by (simp add: check_prefix_def Let_def split: option.splits)
  from Cons.IH [OF t a, of "Suc i"] obtain acc' where
    r: "import_rows sid (Suc i) rs (?acc1, ?db1) =
          Inr (acc', ?db1\<lparr>row_tables := (row_tables ?db1)(tableName sid \<mapsto>
                 (old @ [stored_row r (int i)]) @
                 map (\<lambda>(k, r). stored_row r (int k)) (List.enumerate (Suc i) rs))\<rparr>)"
    and ok: "acc_ok acc'" and n: "totalRows acc' = totalRows ?acc1 + length rs"
    by blast
  show ?case
    using r ok n tr by (simp add: c Let_def) (simp add: fun_upd_def)
qed


lemma or_undefined_idem [simp]: "or_undefined (or_undefined v) = or_undefined v"
  by (simp add: or_undefined_def truthy_def)

lemma import_groups_result:
  assumes "distinct (map fst gs)"
    and "fst ` set gs \<inter> shapeId ` set (shapes_tbl db) = {}"
    and "acc_ok acc"
  shows "\<exists>acc'. import_groups gs (acc, db) = Inr (acc', db_after_groups gs db) \<and> acc_ok acc'
           \<and> totalRows acc' = totalRows acc + sum_list (map (\<lambda>p. length (g_rows (snd p))) gs)"
  using assms
proof (induction gs arbitrary: acc db)
  case Nil
  then show ?case by simp
next
  case (Cons p gs)
  obtain sid g where p: "p = (sid, g)" by (cases p)
  let ?old = "case row_tables db (tableName sid) of None \<Rightarrow> [] | Some rs \<Rightarrow> rs"
  let ?db1 = "db\<lparr>shapes_tbl := shapes_tbl db @ [imported_shape p],
                 row_tables := (row_tables db)(tableName sid \<mapsto> ?old)\<rparr>"
  have fresh: "sid \<notin> shapeId ` set (shapes_tbl db)"
    using Cons.prems(2) p by auto
  have c: "shapeService_create sid (or_undefined (g_label g)) (or_undefined (g_resourceURI g))
             None None db = Inr ?db1"
    using fresh by (simp add: shapeService_create_def imported_shape_def p or_undefined_def truthy_def)
  have t: "row_tables ?db1 (tableName sid) = Some ?old" by simp
  from import_rows_result [where rs = "g_rows g" and i = 0, OF t Cons.prems(3)] obtain acc1 where
    r: "import_rows sid 0 (g_rows g) (acc, ?db1) =
          Inr (acc1, ?db1\<lparr>row_tables := (row_tables ?db1)(tableName sid \<mapsto>
                 ?old @ map (\<lambda>(k, r). stored_row r (int k)) (List.enumerate 0 (g_rows g)))\<rparr>)"
    and ok1: "acc_ok acc1" and n1: "totalRows acc1 = totalRows acc + length (g_rows g)"
    by blast
  let ?db2 = "?db1\<lparr>row_tables := (row_tables ?db1)(tableName sid \<mapsto>
                 ?old @ map (\<lambda>(k, r). stored_row r (int k)) (List.enumerate 0 (g_rows g)))\<rparr>"
  have d: "distinct (map fst gs)" using Cons.prems(1) by simp
  have disj: "fst ` set gs \<inter> shapeId ` set (shapes_tbl ?db2) = {}"
    using Cons.prems(1,2) p by (auto simp: imported_shape_def)
  from Cons.IH [OF d disj ok1] obtain acc' where
    i: "import_groups gs (acc1, ?db2) = Inr (acc', db_after_groups gs ?db2)"
    and ok: "acc_ok acc'"
    and n: "totalRows acc' = totalRows acc1 + sum_list (map (\<lambda>p. length (g_rows (snd p))) gs)"
    by blast
  have e: "db_after_groups (p # gs) db = db_after_groups gs ?db2"
    by (simp add: p)
  show ?case
    unfolding e using i ok n n1 r by (simp add: p c)
qed

lemma add_placeholders_result:
  assumes "distinct ps" and "set ps \<inter> prefix ` set (namespaces_tbl db) = {}"
  shows "add_placeholders ps (ws, db) =
           Inr (ws @ map (\<lambda>p. \<lparr>err_row = None, err_message = UnknownPrefix p,
                                err_severity = SevWarning\<rparr>) ps,
                db\<lparr>namespaces_tbl := namespaces_tbl db @
                      map (\<lambda>p. \<lparr>prefix = p, namespace = placeholder_uri p\<rparr>) ps\<rparr>)"
  using assms
proof (induction ps arbitrary: ws db)
  case Nil
  then show ?case by simp
next
  case (Cons p ps)
  let ?db1 = "db\<lparr>namespaces_tbl := namespaces_tbl db @
                  [\<lparr>prefix = p, namespace = placeholder_uri p\<rparr>]\<rparr>"
  have c: "namespaceService_create p (placeholder_uri p) db = Inr ?db1"
    using Cons.prems(2) by (auto simp: namespaceService_create_def)
  have "set ps \<inter> prefix ` set (namespaces_tbl ?db1) = {}"
    using Cons.prems by auto
  with Cons.IH [of ?db1] Cons.prems(1) show ?case
    by (simp add: c)
qed

lemma group_step_keys:
  "map fst (group_step row gs) =
     (if or_else (p_shapeID row) ''default'' \<in> fst ` set gs then map fst gs
      else map fst gs @ [or_else (p_shapeID row) ''default''])"
  by (auto simp: group_step_def Let_def map_of_eq_None_iff case_prod_unfold comp_def
           intro!: map_idI)

lemma fold_group_step_distinct:
  "distinct (map fst gs) \<Longrightarrow> distinct (map fst (fold group_step rs gs))"
  by (induction rs arbitrary: gs) (auto simp: group_step_keys)

lemma db_after_groups_namespaces [simp]:
  "namespaces_tbl (db_after_groups gs db) = namespaces_tbl db"
  by (induction gs arbitrary: db) auto


lemma parseCSV_no_lines:
  "csv_lines content = [] \<Longrightarrow> parseCSV content = parse_failure EmptyFile"
  by (simp add: parseCSV_def)

lemma parseCSV_missing_columns:
  assumes "csv_lines content = header # dataLines"
    and "\<forall>h \<in> set (parseCSVLine header (detectDelimiter content)).
           normalize_header h \<noteq> ''propertyid'' \<and> normalize_header h \<noteq> ''shapeid''"
  shows "parseCSV content = parse_failure MissingColumns"
  using assms
  by (simp add: parseCSV_def Let_def header_indices_None mapping_propertyid mapping_shapeid)

lemma parseCSV_header_ok:
  assumes "csv_lines content = header # dataLines"
    and "\<exists>h \<in> set (parseCSVLine header (detectDelimiter content)).
           normalize_header h = ''propertyid'' \<or> normalize_header h = ''shapeid''"
  shows "parseCSV content =
           (let delimiter = detectDelimiter content;
                st = parse_rows (header_indices 0 (parseCSVLine header delimiter) Map.empty)
                       delimiter 1 dataLines parse_init
            in \<lparr>success = True, rows = Some (st_rows st), errors = [],
                warnings = st_warnings st,
                detectedFormat = Some (if delimiter = CHR 0x09 then TSV else CSV)\<rparr>)"
proof -
  have "\<not> (header_indices 0 (parseCSVLine header (detectDelimiter content)) Map.empty ColPropertyId = None
          \<and> header_indices 0 (parseCSVLine header (detectDelimiter content)) Map.empty ColShapeID = None)"
    using assms(2) by (auto simp: header_indices_None mapping_propertyid mapping_shapeid)
  then show ?thesis
    using assms(1) by (auto simp: parseCSV_def Let_def)
qed

lemma importToWorkspace_failure:
  assumes "parseCSV content = parse_failure m"
  shows "importToWorkspace content workspaceName st =
           Inr (\<lparr>ir_success = False, ir_workspaceId = None, ir_shapesCreated = None,
                 ir_rowsImported = None,
                 ir_errors = Some [\<lparr>err_row = None, err_message = m, err_severity = SevError\<rparr>],
                 ir_warnings = None, ir_unknownNamespaces = None\<rparr>, st)"
  by (simp add: importToWorkspace_def assms parse_failure_def)

lemma importToWorkspace_success:
  assumes "success (parseCSV content)" and "rows (parseCSV content) = Some rs"
  shows "\<exists>r ps. importToWorkspace content workspaceName st =
           Inr (r, st @ [(db_after_groups (fold group_step rs []) (initializeWorkspaceDb workspaceName))
                           \<lparr>namespaces_tbl := DEFAULT_NAMESPACES @ placeholder_namespaces ps\<rparr>])
         \<and> ir_success r \<and> ir_errors r = None \<and> ir_workspaceId r = Some (length st)
         \<and> ir_shapesCreated r = Some (length (fold group_step rs []))"
proof -
  let ?gs = "fold group_step rs []"
  let ?db = "initializeWorkspaceDb workspaceName"
  let ?acc = "\<lparr>unknownNamespaces = [], allWarnings = warnings (parseCSV content), totalRows = 0\<rparr>"
  have d: "distinct (map fst ?gs)" by (rule fold_group_step_distinct) simp
  have e: "fst ` set ?gs \<inter> shapeId ` set (shapes_tbl ?db) = {}"
    by (simp add: initializeWorkspaceDb_def)
  have a: "acc_ok ?acc" by (simp add: acc_ok_def)
  from import_groups_result [OF d e a] obtain acc where
    g: "import_groups ?gs (?acc, ?db) = Inr (acc, db_after_groups ?gs ?db)" and ok: "acc_ok acc"
    by blast
  have ns: "set (unknownNamespaces acc) \<inter> prefix ` set (namespaces_tbl (db_after_groups ?gs ?db)) = {}"
    using ok by (simp add: acc_ok_def initializeWorkspaceDb_def)
  have dp: "distinct (unknownNamespaces acc)" using ok by (simp add: acc_ok_def)
  note p = add_placeholders_result [OF dp ns, of "allWarnings acc"]
  have w: "getWorkspaceDb (st @ [?db]) (length st) = Inr ?db"
    by (simp add: getWorkspaceDb_def)
  have n: "namespaces_tbl ?db = DEFAULT_NAMESPACES"
    by (simp add: initializeWorkspaceDb_def)
  have "importToWorkspace content workspaceName st =
          Inr (\<lparr>ir_success = True, ir_workspaceId = Some (length st),
                ir_shapesCreated = Some (length ?gs),
                ir_rowsImported = Some (totalRows acc), ir_errors = None,
                ir_warnings = non_empty (allWarnings acc @
                   map (\<lambda>p. \<lparr>err_row = None, err_message = UnknownPrefix p,
                               err_severity = SevWarning\<rparr>) (unknownNamespaces acc)),
                ir_unknownNamespaces = non_empty (unknownNamespaces acc)\<rparr>,
               st @ [(db_after_groups ?gs ?db)
                       \<lparr>namespaces_tbl := DEFAULT_NAMESPACES @
                          placeholder_namespaces (unknownNamespaces acc)\<rparr>])"
    using assms
    by (simp add: importToWorkspace_def workspaceService_create_def w g p Let_def
         placeholder_namespaces_def n)
  then show ?thesis by auto
qed


text \<open>
  C9. When the input has no non-blank line, or the header (the first non-blank line) has
  no cell that normalises to \<open>propertyid\<close> or \<open>shapeid\<close>, \<open>parseCSV\<close> fails with one
  structured error and no rows, and \<open>importToWorkspace\<close> returns that error and leaves the
  store as it was: no workspace, shape, row or namespace is created.
\<close>

theorem csv_import_fail_fast:
  assumes "csv_lines content = [] \<or>
           (\<forall>h \<in> set (parseCSVLine (hd (csv_lines content)) (detectDelimiter content)).
              normalize_header h \<noteq> ''propertyid'' \<and> normalize_header h \<noteq> ''shapeid'')"
  shows "\<not> success (parseCSV content) \<and> rows (parseCSV content) = None
       \<and> errors (parseCSV content) =
           [\<lparr>err_row = None,
             err_message = (if csv_lines content = [] then EmptyFile else MissingColumns),
             err_severity = SevError\<rparr>]
       \<and> importToWorkspace content workspaceName st =
           Inr (\<lparr>ir_success = False, ir_workspaceId = None, ir_shapesCreated = None,
                 ir_rowsImported = None, ir_errors = Some (errors (parseCSV content)),
                 ir_warnings = None, ir_unknownNamespaces = None\<rparr>, st)"
proof (cases "csv_lines content")
  case Nil
  then have "parseCSV content = parse_failure EmptyFile" by (rule parseCSV_no_lines)
  then show ?thesis
    using Nil importToWorkspace_failure [of content EmptyFile workspaceName st]
    by (simp add: parse_failure_def)
next
  case (Cons header dataLines)
  with assms have "parseCSV content = parse_failure MissingColumns"
    by (intro parseCSV_missing_columns [of content header dataLines]) auto
  then show ?thesis
    using Cons importToWorkspace_failure [of content MissingColumns workspaceName st]
    by (simp add: parse_failure_def)
qed

theorem csv_import_fail_fast_witness:
  "\<not> success (parseCSV ''name,value\<newline>a,b'')
   \<and> errors (parseCSV ''name,value\<newline>a,b'') =
       [\<lparr>err_row = None, err_message = MissingColumns, err_severity = SevError\<rparr>]
   \<and> importToWorkspace ''name,value\<newline>a,b'' ''w'' [] =
       Inr (\<lparr>ir_success = False, ir_workspaceId = None, ir_shapesCreated = None,
             ir_rowsImported = None,
             ir_errors = Some [\<lparr>err_row = None, err_message = MissingColumns,
                                err_severity = SevError\<rparr>],
             ir_warnings = None, ir_unknownNamespaces = None\<rparr>, [])"
proof -
  have l: "csv_lines ''name,value\<newline>a,b'' = [''name,value'', ''a,b'']"
    by (simp add: csv_lines_def trim_def is_space_def)
  have d: "detectDelimiter ''name,value\<newline>a,b'' = CHR '',''"
    by (simp add: detectDelimiter_def count_char_def)
  have h: "parseCSVLine ''name,value'' (CHR '','') = [''name'', ''value'']"
    by (simp add: parseCSVLine_def trim_def is_space_def)
  have n: "normalize_header ''name'' = ''name''" "normalize_header ''value'' = ''value''"
    by (simp_all add: normalize_header_def toLowerCase_def to_lower_def LATIN1_UPPER_def LATIN1_LOWER_def)
  show ?thesis
    using csv_import_fail_fast [of "''name,value\<newline>a,b''" "''w''" "[]"]
    by (simp add: l d h n)
qed

text \<open>
  C10. Once the input has a non-blank line and its header has a cell that normalises to
  \<open>propertyid\<close> or \<open>shapeid\<close>, \<open>parseCSV\<close> succeeds with an empty error list, whatever
  the data lines hold, and \<open>importToWorkspace\<close> returns \<open>success = true\<close>: no store call
  it makes can fail.
\<close>

theorem csv_header_ok_import_succeeds:
  assumes "csv_lines content = header # dataLines"
    and "\<exists>h \<in> set (parseCSVLine header (detectDelimiter content)).
           normalize_header h = ''propertyid'' \<or> normalize_header h = ''shapeid''"
  shows "success (parseCSV content) \<and> errors (parseCSV content) = []
       \<and> rows (parseCSV content) \<noteq> None
       \<and> (\<exists>r st'. importToWorkspace content workspaceName st = Inr (r, st')
                  \<and> ir_success r \<and> ir_errors r = None)"
proof -
  note p = parseCSV_header_ok [OF assms]
  have s: "success (parseCSV content)" and e: "errors (parseCSV content) = []"
    by (simp_all add: p Let_def)
  obtain rs where rs: "rows (parseCSV content) = Some rs"
    by (simp add: p Let_def)
  from importToWorkspace_success [OF s rs, of workspaceName st]
  show ?thesis using s e rs by auto
qed

theorem csv_header_ok_import_succeeds_witness:
  "success (parseCSV ''propertyID,foo\<newline>\"x,,\<newline>:::,y'')
   \<and> (\<exists>r st'. importToWorkspace ''propertyID,foo\<newline>\"x,,\<newline>:::,y'' ''w'' [] = Inr (r, st')
                \<and> ir_success r \<and> ir_errors r = None)"
proof -
  have l: "csv_lines ''propertyID,foo\<newline>\"x,,\<newline>:::,y'' = [''propertyID,foo'', ''\"x,,'', '':::,y'']"
    by (simp add: csv_lines_def trim_def is_space_def)
  have d: "detectDelimiter ''propertyID,foo\<newline>\"x,,\<newline>:::,y'' = CHR '',''"
    by (simp add: detectDelimiter_def count_char_def)
  have h: "parseCSVLine ''propertyID,foo'' (CHR '','') = [''propertyID'', ''foo'']"
    by (simp add: parseCSVLine_def trim_def is_space_def)
  have n: "normalize_header ''propertyID'' = ''propertyid''"
    by (simp add: normalize_header_def toLowerCase_def to_lower_def LATIN1_UPPER_def LATIN1_LOWER_def)
  show ?thesis
    using csv_header_ok_import_succeeds
          [of "''propertyID,foo\<newline>\"x,,\<newline>:::,y''" "''propertyID,foo''" "[''\"x,,'', '':::,y'']" "''w''" "[]"]
    by (simp add: l d h n)
qed

section \<open>CSV parsing: the shape context\<close>

lemma find_append:
  "find P (xs @ ys) = (case find P xs of None \<Rightarrow> find P ys | Some x \<Rightarrow> Some x)"
  by (induction xs) auto

lemma parse_rows_snoc:
  "parse_rows ci d i (ls @ [l]) st = parse_row ci d (i + length ls) l (parse_rows ci d i ls st)"
  by (induction ls arbitrary: i st) auto

lemma expected_rows_snoc:
  "expected_rows ci d (ls @ [l]) =
     expected_rows ci d ls @ (if line_skipped ci d l then [] else [expected_row ci d (ls @ [l])])"
proof -
  have h: "map (\<lambda>n. take (Suc n) (ls @ [l])) [0..<length ls] = map (\<lambda>n. take (Suc n) ls) [0..<length ls]"
    by (rule map_cong) auto
  have "map (\<lambda>n. take (Suc n) (ls @ [l])) [0..<length (ls @ [l])] =
          map (\<lambda>n. take (Suc n) ls) [0..<length ls] @ [ls @ [l]]"
    by (simp only: length_append_singleton upt_Suc_append [OF le0] map_append h list.map) simp
  then show ?thesis
    by (simp only: expected_rows_def) simp
qed

lemma nearest_snoc:
  "nearest_shape_line ci d (ls @ [l]) =
     (if truthy (line_shapeID ci d l) then Some l else nearest_shape_line ci d ls)"
  by (simp add: nearest_shape_line_def)

lemma lines_after_snoc:
  "lines_after_shape ci d (ls @ [l]) =
     (if truthy (line_shapeID ci d l) then [] else lines_after_shape ci d ls @ [l])"
  by (simp add: lines_after_shape_def)

lemma first_label_snoc:
  "first_label ci d (ls @ [l]) =
     (if truthy (first_label ci d ls) then first_label ci d ls
      else if truthy (line_shapeLabel ci d l) then line_shapeLabel ci d l else None)"
  by (induction ls) (auto simp: first_label_def truthy_def split: option.splits)

lemma first_label_truthy: "first_label ci d ls = None \<or> truthy (first_label ci d ls)"
  by (auto simp: first_label_def split: option.splits dest: find_Some_iff [THEN iffD1])

lemma nearest_None_after:
  "nearest_shape_line ci d ls = None \<Longrightarrow> lines_after_shape ci d ls = ls"
  by (auto simp: nearest_shape_line_def lines_after_shape_def find_None_iff rev_swap)

lemma expected_warnings_snoc:
  "expected_warnings ci d i (ls @ [l]) =
     (if \<exists>x \<in> set ls. \<not> line_skipped ci d x then expected_warnings ci d i ls
      else if line_skipped ci d l \<or> truthy (line_shapeID ci d l) then []
      else [\<lparr>err_row = Some (i + length ls + 1), err_message = NoShapeID,
             err_severity = SevWarning\<rparr>])"
proof (cases "\<exists>x \<in> set ls. \<not> line_skipped ci d x")
  case True
  then obtain y where y: "find (\<lambda>l. \<not> line_skipped ci d l) ls = Some y"
    by (cases "find (\<lambda>l. \<not> line_skipped ci d l) ls") (auto simp: find_None_iff)
  have "takeWhile (line_skipped ci d) (ls @ [l]) = takeWhile (line_skipped ci d) ls"
    using True by (metis takeWhile_append1)
  then show ?thesis using True y
    by (simp add: expected_warnings_def find_append)
next
  case False
  then have n: "find (\<lambda>l. \<not> line_skipped ci d l) ls = None"
    by (simp add: find_None_iff)
  have "takeWhile (line_skipped ci d) ls = ls" using False by simp
  then show ?thesis using False n
    by (auto simp: expected_warnings_def find_append)
qed


lemma parse_row_lines:
  "parse_row ci d i line st =
     (let st1 = (if truthy (line_shapeID ci d line)
                 then st\<lparr>currentShapeID := line_shapeID ci d line,
                         currentShapeLabel := line_shapeLabel ci d line,
                         currentResourceURI := line_resourceURI ci d line\<rparr>
                 else if truthy (line_shapeLabel ci d line) \<and> \<not> truthy (currentShapeLabel st)
                 then st\<lparr>currentShapeLabel := line_shapeLabel ci d line\<rparr>
                 else st)
      in if line_skipped ci d line then st1
         else
           (let st2 = (if \<not> truthy (currentShapeID st1)
                       then st1\<lparr>st_warnings := st_warnings st1 @
                                  [\<lparr>err_row = Some (i + 1), err_message = NoShapeID,
                                    err_severity = SevWarning\<rparr>],
                                currentShapeID := Some ''default''\<rparr>
                       else st1)
            in st2\<lparr>st_rows := st_rows st2 @
                      [\<lparr>p_shapeID = currentShapeID st2, p_shapeLabel = currentShapeLabel st2,
                        p_resourceURI = currentResourceURI st2,
                        p_data = line_data ci d line\<rparr>]\<rparr>))"
  by (simp add: parse_row_def line_shapeID_def line_shapeLabel_def line_resourceURI_def
        line_data_def line_skipped_def Let_def)

lemma find_Some_set: "find P xs = Some x \<Longrightarrow> P x \<and> x \<in> set xs"
  by (induction xs) (auto split: if_splits)

lemma nearest_Some_truthy:
  "nearest_shape_line ci d ls = Some l \<Longrightarrow> truthy (line_shapeID ci d l)"
  by (auto simp: nearest_shape_line_def find_Some_iff)

lemma nearest_Some_not_skipped:
  "nearest_shape_line ci d ls = Some l \<Longrightarrow> \<exists>x \<in> set ls. \<not> line_skipped ci d x"
  by (auto simp: nearest_shape_line_def line_skipped_def dest!: find_Some_set)

lemma truthy_label: "line_shapeLabel ci d l = None \<or> truthy (line_shapeLabel ci d l)"
  by (auto simp: line_shapeLabel_def cell_def or_undefined_def split: option.splits)

lemma expected_warnings_shape:
  "nearest_shape_line ci d ls = Some x \<Longrightarrow> expected_warnings ci d i (ls @ [l]) = expected_warnings ci d i ls"
  using nearest_Some_not_skipped [of ci d ls x] by (simp add: expected_warnings_snoc)

lemma parse_row_step:
  "parse_row ci d (i + length ls) l (state_after ci d i ls) = state_after ci d i (ls @ [l])"
proof (cases "truthy (line_shapeID ci d l)")
  case True
  then have ns: "\<not> line_skipped ci d l" by (simp add: line_skipped_def)
  have w: "expected_warnings ci d i (ls @ [l]) = expected_warnings ci d i ls"
  proof (cases "\<exists>x \<in> set ls. \<not> line_skipped ci d x")
    case True
    then show ?thesis by (simp add: expected_warnings_snoc)
  next
    case False
    then have "expected_warnings ci d i ls = []"
      by (simp add: expected_warnings_def find_None_iff [THEN iffD2])
    with False \<open>truthy (line_shapeID ci d l)\<close> show ?thesis
      by (simp add: expected_warnings_snoc)
  qed
  show ?thesis
    using True ns w truthy_label [of ci d l]
    by (auto simp: parse_row_lines state_after_def Let_def expected_rows_snoc nearest_snoc
          lines_after_snoc expected_row_def inherited_shapeID_def inherited_shapeLabel_def
          inherited_resourceURI_def first_label_def truthy_def)
next
  case False
  have lab: "inherited_shapeLabel ci d (ls @ [l]) =
               (if truthy (line_shapeLabel ci d l) \<and> \<not> truthy (inherited_shapeLabel ci d ls)
                then line_shapeLabel ci d l else inherited_shapeLabel ci d ls)"
    using False first_label_truthy [of ci d ls] first_label_truthy [of ci d "lines_after_shape ci d ls"]
    by (auto simp: inherited_shapeLabel_def nearest_snoc lines_after_snoc first_label_snoc
          split: option.splits)
  have uri: "inherited_resourceURI ci d (ls @ [l]) = inherited_resourceURI ci d ls"
    using False by (simp add: inherited_resourceURI_def nearest_snoc)
  have sid: "inherited_shapeID ci d (ls @ [l]) = inherited_shapeID ci d ls"
    using False by (simp add: inherited_shapeID_def nearest_snoc)
  have ew: "\<not> (\<exists>x \<in> set ls. \<not> line_skipped ci d x) \<Longrightarrow> expected_warnings ci d i ls = []"
    by (simp add: expected_warnings_def find_None_iff [THEN iffD2])
  show ?thesis
  proof (cases "nearest_shape_line ci d ls")
    case None
    show ?thesis
      using False None lab uri sid ew
      by (auto simp: parse_row_lines state_after_def Let_def expected_rows_snoc nearest_snoc
            expected_warnings_snoc expected_row_def inherited_shapeID_def truthy_def)
  next
    case (Some x)
    show ?thesis
      using False Some lab uri sid nearest_Some_truthy [OF Some] nearest_Some_not_skipped [OF Some]
      by (auto simp: parse_row_lines state_after_def Let_def expected_rows_snoc nearest_snoc
            expected_warnings_snoc expected_row_def inherited_shapeID_def)
  qed
qed

lemma parse_rows_state_after:
  "parse_rows ci d i ls parse_init = state_after ci d i ls"
proof (induction ls rule: rev_induct)
  case Nil
  show ?case
    by (simp add: parse_init_def state_after_def nearest_shape_line_def inherited_shapeLabel_def
          inherited_resourceURI_def first_label_def expected_rows_def expected_warnings_def)
next
  case (snoc l ls)
  then show ?case by (simp add: parse_rows_snoc parse_row_step)
qed



lemmas line_defs = line_shapeID_def line_shapeLabel_def line_resourceURI_def line_data_def
  line_skipped_def cell_def nth_opt_def or_undefined_def truthy_def row_data_def hasData_def
  field_values_def


text \<open>
  C6 (as the code has it). Every data line that holds data or an explicit shapeID gives one
  parsed row, in order, with the line's own statement cells. The row's shapeID is that of
  the nearest line, at or before it, with an explicit shapeID; its resourceURI is that
  line's resourceURI cell; its shapeLabel is that line's label cell or, when that is blank,
  the first non-blank label cell after it. An explicit shapeID so resets label and
  resourceURI. Rows before any shapeID get shape \<open>default\<close>, and one warning is
  recorded, for the first of them.
\<close>

theorem csv_shape_context:
  assumes "csv_lines content = header # dataLines"
    and "\<exists>h \<in> set (parseCSVLine header (detectDelimiter content)).
           normalize_header h = ''propertyid'' \<or> normalize_header h = ''shapeid''"
  shows "rows (parseCSV content) =
           Some (expected_rows
                   (header_indices 0 (parseCSVLine header (detectDelimiter content)) Map.empty)
                   (detectDelimiter content) dataLines)
       \<and> warnings (parseCSV content) =
           expected_warnings
             (header_indices 0 (parseCSVLine header (detectDelimiter content)) Map.empty)
             (detectDelimiter content) 1 dataLines"
  by (simp add: parseCSV_header_ok [OF assms] Let_def parse_rows_state_after state_after_def)


theorem csv_shape_context_witness:
  "map p_shapeID (the (rows (parseCSV
      ''shapeID,propertyID,propertyLabel\<newline>Person,dcterms:title,Title\<newline>,dcterms:description,Description'')))
     = [Some ''Person'', Some ''Person'']
   \<and> warnings (parseCSV
      ''shapeID,propertyID,propertyLabel\<newline>Person,dcterms:title,Title\<newline>,dcterms:description,Description'')
     = []"
proof -
  let ?c = "''shapeID,propertyID,propertyLabel\<newline>Person,dcterms:title,Title\<newline>,dcterms:description,Description''"
  have l: "csv_lines ?c = [''shapeID,propertyID,propertyLabel'', ''Person,dcterms:title,Title'',
             '',dcterms:description,Description'']"
    by (simp add: csv_lines_def trim_def is_space_def)
  have d: "detectDelimiter ?c = CHR '',''"
    by (simp add: detectDelimiter_def count_char_def)
  have h: "parseCSVLine ''shapeID,propertyID,propertyLabel'' (CHR '','') =
             [''shapeID'', ''propertyID'', ''propertyLabel'']"
    by (simp add: parseCSVLine_def trim_def is_space_def)
  have n: "normalize_header ''shapeID'' = ''shapeid''"
    "normalize_header ''propertyID'' = ''propertyid''"
    "normalize_header ''propertyLabel'' = ''propertylabel''"
    by (simp_all add: normalize_header_def toLowerCase_def to_lower_def LATIN1_UPPER_def LATIN1_LOWER_def)
  have c: "header_indices 0 [''shapeID'', ''propertyID'', ''propertyLabel''] Map.empty =
             [ColShapeID \<mapsto> 0, ColPropertyId \<mapsto> 1, ColPropertyLabel \<mapsto> 2]"
    by (simp add: n COLUMN_MAPPINGS_def numeral_2_eq_2)
  have v: "parseCSVLine ''Person,dcterms:title,Title'' (CHR '','') =
             [''Person'', ''dcterms:title'', ''Title'']"
    "parseCSVLine '',dcterms:description,Description'' (CHR '','') =
             [[], ''dcterms:description'', ''Description'']"
    by (simp_all add: parseCSVLine_def trim_def is_space_def)
  have e: "\<exists>h \<in> set (parseCSVLine ''shapeID,propertyID,propertyLabel'' (detectDelimiter ?c)).
             normalize_header h = ''propertyid'' \<or> normalize_header h = ''shapeid''"
    by (simp add: d h n)
  from csv_shape_context [OF l e] show ?thesis
    by (simp add: d h c v expected_rows_def expected_row_def inherited_shapeID_def
          nearest_shape_line_def expected_warnings_def line_defs upt_rec_numeral
          del: header_indices.simps)
qed

text \<open>
  C6 as stated fails. In the input below the last data line has blank shape cells. The
  nearest non-blank shapeLabel cell before it is \<open>Second\<close> and the nearest non-blank
  resourceURI cell is \<open>ex:R\<close>, but the parsed row carries the label \<open>First\<close> (the first
  label after the shapeID wins, a later one is ignored) and no resourceURI (a resourceURI
  cell on a line without shapeID is never read).
\<close>

lemma cex6_parsed:
  "parseCSV ''shapeID,shapeLabel,resourceURI,propertyID\<newline>A,,,p1\<newline>,First,ex:R,p2\<newline>,Second,,p3\<newline>,,,p4'' =
     (let ci = [ColShapeID \<mapsto> 0, ColShapeLabel \<mapsto> 1, ColResourceURI \<mapsto> 2, ColPropertyId \<mapsto> 3];
          ls = [''A,,,p1'', '',First,ex:R,p2'', '',Second,,p3'', '',,,p4'']
      in \<lparr>success = True, rows = Some (expected_rows ci (CHR '','') ls), errors = [],
          warnings = expected_warnings ci (CHR '','') 1 ls, detectedFormat = Some CSV\<rparr>)"
proof -
  have l: "csv_lines ''shapeID,shapeLabel,resourceURI,propertyID\<newline>A,,,p1\<newline>,First,ex:R,p2\<newline>,Second,,p3\<newline>,,,p4'' = [''shapeID,shapeLabel,resourceURI,propertyID'', ''A,,,p1'',
             '',First,ex:R,p2'', '',Second,,p3'', '',,,p4'']"
    by (simp add: csv_lines_def trim_def is_space_def)
  have d: "detectDelimiter ''shapeID,shapeLabel,resourceURI,propertyID\<newline>A,,,p1\<newline>,First,ex:R,p2\<newline>,Second,,p3\<newline>,,,p4'' = CHR '',''"
    by (simp add: detectDelimiter_def count_char_def)
  have h: "parseCSVLine ''shapeID,shapeLabel,resourceURI,propertyID'' (CHR '','') =
             [''shapeID'', ''shapeLabel'', ''resourceURI'', ''propertyID'']"
    by (simp add: parseCSVLine_def trim_def is_space_def)
  have n: "normalize_header ''shapeID'' = ''shapeid''"
    "normalize_header ''shapeLabel'' = ''shapelabel''"
    "normalize_header ''resourceURI'' = ''resourceuri''"
    "normalize_header ''propertyID'' = ''propertyid''"
    by (simp_all add: normalize_header_def toLowerCase_def to_lower_def LATIN1_UPPER_def LATIN1_LOWER_def)
  have c: "header_indices 0 [''shapeID'', ''shapeLabel'', ''resourceURI'', ''propertyID''] Map.empty =
             [ColShapeID \<mapsto> 0, ColShapeLabel \<mapsto> 1, ColResourceURI \<mapsto> 2, ColPropertyId \<mapsto> 3]"
    by (simp add: n COLUMN_MAPPINGS_def numeral_2_eq_2 numeral_3_eq_3)
  have "\<exists>h \<in> set (parseCSVLine ''shapeID,shapeLabel,resourceURI,propertyID'' (detectDelimiter ''shapeID,shapeLabel,resourceURI,propertyID\<newline>A,,,p1\<newline>,First,ex:R,p2\<newline>,Second,,p3\<newline>,,,p4'')).
          normalize_header h = ''propertyid'' \<or> normalize_header h = ''shapeid''"
    by (simp add: d h n)
  from parseCSV_header_ok [OF l this] show ?thesis
    by (simp add: d h c Let_def parse_rows_state_after state_after_def
          del: header_indices.simps)
qed

lemma cex6_values:
  "parseCSVLine ''A,,,p1'' (CHR '','') = [''A'', [], [], ''p1'']"
  "parseCSVLine '',First,ex:R,p2'' (CHR '','') = [[], ''First'', ''ex:R'', ''p2'']"
  "parseCSVLine '',Second,,p3'' (CHR '','') = [[], ''Second'', [], ''p3'']"
  "parseCSVLine '',,,p4'' (CHR '','') = [[], [], [], ''p4'']"
  by (simp_all add: parseCSVLine_def trim_def is_space_def)

theorem csv_shape_context_counterexample:
  "p_shapeID (the (rows (parseCSV ''shapeID,shapeLabel,resourceURI,propertyID\<newline>A,,,p1\<newline>,First,ex:R,p2\<newline>,Second,,p3\<newline>,,,p4'')) ! 3) = Some ''A''
   \<and> p_shapeLabel (the (rows (parseCSV ''shapeID,shapeLabel,resourceURI,propertyID\<newline>A,,,p1\<newline>,First,ex:R,p2\<newline>,Second,,p3\<newline>,,,p4'')) ! 3) = Some ''First''
   \<and> nearest_nonempty
        (line_shapeLabel
           [ColShapeID \<mapsto> 0, ColShapeLabel \<mapsto> 1, ColResourceURI \<mapsto> 2, ColPropertyId \<mapsto> 3]
           (CHR '',''))
        [''A,,,p1'', '',First,ex:R,p2'', '',Second,,p3'', '',,,p4''] = Some ''Second''
   \<and> p_resourceURI (the (rows (parseCSV ''shapeID,shapeLabel,resourceURI,propertyID\<newline>A,,,p1\<newline>,First,ex:R,p2\<newline>,Second,,p3\<newline>,,,p4'')) ! 3) = None
   \<and> nearest_nonempty
        (line_resourceURI
           [ColShapeID \<mapsto> 0, ColShapeLabel \<mapsto> 1, ColResourceURI \<mapsto> 2, ColPropertyId \<mapsto> 3]
           (CHR '',''))
        [''A,,,p1'', '',First,ex:R,p2'', '',Second,,p3'', '',,,p4''] = Some ''ex:R''"
  by (simp add: cex6_parsed Let_def expected_rows_def expected_row_def inherited_shapeID_def
        inherited_shapeLabel_def inherited_resourceURI_def nearest_shape_line_def
        lines_after_shape_def first_label_def line_defs cex6_values upt_rec_numeral
        nearest_nonempty_def)

section \<open>Marva import: counts\<close>

lemma rowService_create_ok:
  assumes "tableName sid \<in> dom (row_tables db)"
  shows "\<exists>db'. rowService_create sid d db = Inr db' \<and> shapes_tbl db' = shapes_tbl db
           \<and> dom (row_tables db') = dom (row_tables db)"
  using assms by (auto simp: rowService_create_def Let_def split: option.splits)

lemma import_props_ok:
  assumes "tableName rtId \<in> dom (row_tables db)"
  shows "\<exists>acc' db'. import_props rtId ns k pts (acc, db) = Inr (acc', db')
           \<and> shapes_tbl db' = shapes_tbl db \<and> dom (row_tables db') = dom (row_tables db)
           \<and> shapesCreated acc' = shapesCreated acc
           \<and> rowsCreated acc' = rowsCreated acc + length pts"
  using assms
proof (induction pts arbitrary: k acc db)
  case Nil
  then show ?case by simp
next
  case (Cons pt pts)
  from rowService_create_ok [OF Cons.prems, where d = "propertyTemplateToRow pt k ns"]
  obtain db1 where c: "rowService_create rtId (propertyTemplateToRow pt k ns) db = Inr db1"
    and s: "shapes_tbl db1 = shapes_tbl db" and t: "dom (row_tables db1) = dom (row_tables db)"
    by blast
  have "tableName rtId \<in> dom (row_tables db1)" using Cons.prems t by simp
  from Cons.IH [OF this, where k = "k + 1" and acc = "acc\<lparr>rowsCreated := rowsCreated acc + 1\<rparr>"]
  show ?case using c s t by auto
qed

lemma import_links_ok:
  assumes "tableName pid \<in> dom (row_tables db)"
  shows "\<exists>acc' db'. import_links pid k ids (acc, db) = Inr (acc', db')
           \<and> shapes_tbl db' = shapes_tbl db \<and> dom (row_tables db') = dom (row_tables db)
           \<and> shapesCreated acc' = shapesCreated acc
           \<and> rowsCreated acc' = rowsCreated acc + length ids"
  using assms
proof (induction ids arbitrary: k acc db)
  case Nil
  then show ?case by simp
next
  case (Cons i ids)
  from rowService_create_ok [OF Cons.prems, where d = "link_row k i"]
  obtain db1 where c: "rowService_create pid (link_row k i) db = Inr db1"
    and s: "shapes_tbl db1 = shapes_tbl db" and t: "dom (row_tables db1) = dom (row_tables db)"
    by blast
  have "tableName pid \<in> dom (row_tables db1)" using Cons.prems t by simp
  from Cons.IH [OF this, where k = "k + 1" and acc = "acc\<lparr>rowsCreated := rowsCreated acc + 1\<rparr>"]
  show ?case using c s t by auto
qed

lemma folder_for_frame:
  "folder_for sid (acc, db) = (fid, acc', db') \<Longrightarrow>
     shapes_tbl db' = shapes_tbl db \<and> row_tables db' = row_tables db
     \<and> shapesCreated acc' = shapesCreated acc \<and> rowsCreated acc' = rowsCreated acc"
  by (auto simp: folder_for_def getOrCreateFolder_def folderService_create_def Let_def
           split: option.splits if_splits)

lemma shapeService_create_ok:
  assumes "sid \<notin> shapeId ` set (shapes_tbl db)"
  shows "\<exists>db'. shapeService_create sid lbl uri fid descr db = Inr db'
           \<and> shapeId ` set (shapes_tbl db') = insert sid (shapeId ` set (shapes_tbl db))
           \<and> dom (row_tables db') = insert (tableName sid) (dom (row_tables db))"
  using assms by (auto simp: shapeService_create_def)

lemma import_rts_ok:
  assumes "distinct (map rt_id rts)"
    and "set (map rt_id rts) \<inter> shapeId ` set (shapes_tbl db) = {}"
  shows "\<exists>acc' db'. import_rts ns rts (acc, db) = Inr (acc', db')
           \<and> shapeId ` set (shapes_tbl db') = shapeId ` set (shapes_tbl db) \<union> set (map rt_id rts)
           \<and> dom (row_tables db) \<subseteq> dom (row_tables db')
           \<and> shapesCreated acc' = shapesCreated acc + length rts
           \<and> rowsCreated acc' = rowsCreated acc
                + sum_list (map (\<lambda>rt. length (propertyTemplates rt)) rts)"
  using assms
proof (induction rts arbitrary: acc db)
  case Nil
  then show ?case by simp
next
  case (Cons rt rts)
  obtain fid acc0 db0 where f: "folder_for (rt_id rt) (acc, db) = (fid, acc0, db0)"
    by (cases "folder_for (rt_id rt) (acc, db)") auto
  note fr = folder_for_frame [OF f]
  let ?uri = "if truthy (rt_resourceURI rt) then Some (prefixUri (the (rt_resourceURI rt)) ns) else None"
  have fresh: "rt_id rt \<notin> shapeId ` set (shapes_tbl db0)"
    using Cons.prems(2) fr by auto
  from shapeService_create_ok [OF fresh, where lbl = "or_undefined (rt_resourceLabel rt)"
         and uri = ?uri and fid = fid and descr = "or_undefined (rt_remark rt)"]
  obtain db1 where c: "shapeService_create (rt_id rt) (or_undefined (rt_resourceLabel rt)) ?uri fid
                         (or_undefined (rt_remark rt)) db0 = Inr db1"
    and s1: "shapeId ` set (shapes_tbl db1) = insert (rt_id rt) (shapeId ` set (shapes_tbl db0))"
    and t1: "dom (row_tables db1) = insert (tableName (rt_id rt)) (dom (row_tables db0))"
    by blast
  have "tableName (rt_id rt) \<in> dom (row_tables db1)" using t1 by simp
  from import_props_ok [OF this, where ns = ns and k = 0 and pts = "propertyTemplates rt"
         and acc = "acc0\<lparr>shapesCreated := shapesCreated acc0 + 1\<rparr>"]
  obtain acc2 db2 where p: "import_props (rt_id rt) ns 0 (propertyTemplates rt)
                              (acc0\<lparr>shapesCreated := shapesCreated acc0 + 1\<rparr>, db1) = Inr (acc2, db2)"
    and s2: "shapes_tbl db2 = shapes_tbl db1" and t2: "dom (row_tables db2) = dom (row_tables db1)"
    and n2: "shapesCreated acc2 = shapesCreated acc0 + 1"
    and r2: "rowsCreated acc2 = rowsCreated acc0 + length (propertyTemplates rt)"
    by auto
  have d: "distinct (map rt_id rts)" using Cons.prems(1) by simp
  have e: "set (map rt_id rts) \<inter> shapeId ` set (shapes_tbl db2) = {}"
    using Cons.prems s1 s2 fr by auto
  from Cons.IH [OF d e, where acc = acc2] obtain acc' db' where
    i: "import_rts ns rts (acc2, db2) = Inr (acc', db')"
    and s: "shapeId ` set (shapes_tbl db') = shapeId ` set (shapes_tbl db2) \<union> set (map rt_id rts)"
    and t: "dom (row_tables db2) \<subseteq> dom (row_tables db')"
    and n: "shapesCreated acc' = shapesCreated acc2 + length rts"
    and r: "rowsCreated acc' = rowsCreated acc2 + sum_list (map (\<lambda>rt. length (propertyTemplates rt)) rts)"
    by blast
  have "import_rts ns (rt # rts) (acc, db) = Inr (acc', db')"
    using p i by (simp add: f c)
  then show ?case
    using s t n r s1 s2 t1 t2 n2 r2 fr by auto
qed


lemma import_docs_ok:
  assumes "distinct (concat (map profile_shape_ids (profiles_of docs)))"
    and "set (concat (map profile_shape_ids (profiles_of docs))) \<inter> shapeId ` set (shapes_tbl db) = {}"
  shows "\<exists>acc' db'. import_docs ns docs (acc, db) = Inr (acc', db')
           \<and> shapesCreated acc' = shapesCreated acc + length (profiles_of docs)
                + sum_list (map (\<lambda>p. length (resourceTemplates p)) (profiles_of docs))
           \<and> rowsCreated acc' = rowsCreated acc
                + sum_list (map count_props (profiles_of docs))
                + sum_list (map (\<lambda>p. length (resourceTemplates p)) (profiles_of docs))"
  using assms
proof (induction docs arbitrary: acc db)
  case Nil
  then show ?case by (simp add: profiles_of_def map_filter_simps)
next
  case (Cons doc docs)
  show ?case
  proof (cases "doc_profile doc")
    case None
    then have e: "profiles_of (doc # docs) = profiles_of docs"
      by (simp add: profiles_of_def map_filter_simps)
    from Cons.IH [of db acc] Cons.prems show ?thesis
      unfolding e using None by simp
  next
    case (Some pf)
    then have e: "profiles_of (doc # docs) = pf # profiles_of docs"
      by (simp add: profiles_of_def map_filter_simps)
    note pr = Cons.prems [unfolded e]
    obtain fid acc0 db0 where f: "folder_for (prof_id pf) (acc, db) = (fid, acc0, db0)"
      by (cases "folder_for (prof_id pf) (acc, db)") auto
    note fr = folder_for_frame [OF f]
    have fresh: "prof_id pf \<notin> shapeId ` set (shapes_tbl db0)"
      using pr(2) fr by (auto simp: profile_shape_ids_def)
    from shapeService_create_ok [OF fresh, where lbl = "Some (prof_title pf)" and uri = None
           and fid = fid and descr = "or_undefined (prof_description pf)"]
    obtain db1 where c: "shapeService_create (prof_id pf) (Some (prof_title pf)) None fid
                           (or_undefined (prof_description pf)) db0 = Inr db1"
      and s1: "shapeId ` set (shapes_tbl db1) = insert (prof_id pf) (shapeId ` set (shapes_tbl db0))"
      and t1: "dom (row_tables db1) = insert (tableName (prof_id pf)) (dom (row_tables db0))"
      by blast
    have d1: "distinct (map rt_id (resourceTemplates pf))"
      using pr(1) by (simp add: profile_shape_ids_def)
    have e1: "set (map rt_id (resourceTemplates pf)) \<inter> shapeId ` set (shapes_tbl db1) = {}"
      using pr s1 fr by (auto simp: profile_shape_ids_def)
    from import_rts_ok [OF d1 e1, where ns = ns and acc = "acc0\<lparr>shapesCreated := shapesCreated acc0 + 1\<rparr>"]
    obtain acc2 db2 where r: "import_rts ns (resourceTemplates pf)
                                (acc0\<lparr>shapesCreated := shapesCreated acc0 + 1\<rparr>, db1) = Inr (acc2, db2)"
      and s2: "shapeId ` set (shapes_tbl db2) = shapeId ` set (shapes_tbl db1) \<union> set (map rt_id (resourceTemplates pf))"
      and t2: "dom (row_tables db1) \<subseteq> dom (row_tables db2)"
      and n2: "shapesCreated acc2 = shapesCreated acc0 + 1 + length (resourceTemplates pf)"
      and r2: "rowsCreated acc2 = rowsCreated acc0 + count_props pf"
      by (auto simp: count_props_def)
    have "tableName (prof_id pf) \<in> dom (row_tables db2)" using t1 t2 by auto
    from import_links_ok [OF this, where k = 0 and ids = "map rt_id (resourceTemplates pf)" and acc = acc2]
    obtain acc3 db3 where l: "import_links (prof_id pf) 0 (map rt_id (resourceTemplates pf)) (acc2, db2)
                                = Inr (acc3, db3)"
      and s3: "shapes_tbl db3 = shapes_tbl db2"
      and n3: "shapesCreated acc3 = shapesCreated acc2"
      and r3: "rowsCreated acc3 = rowsCreated acc2 + length (resourceTemplates pf)"
      by auto
    have d: "distinct (concat (map profile_shape_ids (profiles_of docs)))"
      using pr(1) by simp
    have ab: "set (profile_shape_ids pf) \<inter> set (concat (map profile_shape_ids (profiles_of docs))) = {}"
      using pr(1) by simp
    have s3': "shapeId ` set (shapes_tbl db3) = shapeId ` set (shapes_tbl db) \<union> set (profile_shape_ids pf)"
      using s1 s2 s3 fr by (auto simp: profile_shape_ids_def)
    have bs: "set (concat (map profile_shape_ids (profiles_of docs))) \<inter> shapeId ` set (shapes_tbl db) = {}"
      using pr(2) by (simp add: Int_Un_distrib2)
    have ee: "set (concat (map profile_shape_ids (profiles_of docs))) \<inter> shapeId ` set (shapes_tbl db3) = {}"
      using ab s3' bs by blast
    from Cons.IH [OF d ee, where acc = acc3] obtain acc' db' where
      i: "import_docs ns docs (acc3, db3) = Inr (acc', db')"
      and n: "shapesCreated acc' = shapesCreated acc3 + length (profiles_of docs)
                + sum_list (map (\<lambda>p. length (resourceTemplates p)) (profiles_of docs))"
      and rr: "rowsCreated acc' = rowsCreated acc3
                + sum_list (map count_props (profiles_of docs))
                + sum_list (map (\<lambda>p. length (resourceTemplates p)) (profiles_of docs))"
      by blast
    have "import_docs ns (doc # docs) (acc, db) = Inr (acc', db')"
      using r l i by (simp add: Some f c)
    then show ?thesis
      unfolding e using n rr n2 r2 n3 r3 fr by simp
  qed
qed


lemma shapeService_create_taken:
  "sid \<in> shapeId ` set (shapes_tbl db) \<Longrightarrow>
     shapeService_create sid lbl uri fid descr db = Inl ConstraintFailed"
  by (simp add: shapeService_create_def)

lemma import_rts_fail:
  assumes "\<not> (distinct (map rt_id rts) \<and> set (map rt_id rts) \<inter> shapeId ` set (shapes_tbl db) = {})"
  shows "import_rts ns rts (acc, db) = Inl ConstraintFailed"
  using assms
proof (induction rts arbitrary: acc db)
  case Nil
  then show ?case by simp
next
  case (Cons rt rts)
  obtain fid acc0 db0 where f: "folder_for (rt_id rt) (acc, db) = (fid, acc0, db0)"
    by (cases "folder_for (rt_id rt) (acc, db)") auto
  note fr = folder_for_frame [OF f]
  let ?uri = "if truthy (rt_resourceURI rt) then Some (prefixUri (the (rt_resourceURI rt)) ns) else None"
  show ?case
  proof (cases "rt_id rt \<in> shapeId ` set (shapes_tbl db)")
    case True
    then have "rt_id rt \<in> shapeId ` set (shapes_tbl db0)" using fr by simp
    then show ?thesis
      by (simp add: f shapeService_create_taken)
  next
    case False
    then have fresh: "rt_id rt \<notin> shapeId ` set (shapes_tbl db0)" using fr by simp
    from shapeService_create_ok [OF fresh, where lbl = "or_undefined (rt_resourceLabel rt)"
           and uri = ?uri and fid = fid and descr = "or_undefined (rt_remark rt)"]
    obtain db1 where c: "shapeService_create (rt_id rt) (or_undefined (rt_resourceLabel rt)) ?uri fid
                           (or_undefined (rt_remark rt)) db0 = Inr db1"
      and s1: "shapeId ` set (shapes_tbl db1) = insert (rt_id rt) (shapeId ` set (shapes_tbl db0))"
      and t1: "dom (row_tables db1) = insert (tableName (rt_id rt)) (dom (row_tables db0))"
      by blast
    have "tableName (rt_id rt) \<in> dom (row_tables db1)" using t1 by simp
    from import_props_ok [OF this, where ns = ns and k = 0 and pts = "propertyTemplates rt"
           and acc = "acc0\<lparr>shapesCreated := shapesCreated acc0 + 1\<rparr>"]
    obtain acc2 db2 where p: "import_props (rt_id rt) ns 0 (propertyTemplates rt)
                                (acc0\<lparr>shapesCreated := shapesCreated acc0 + 1\<rparr>, db1) = Inr (acc2, db2)"
      and s2: "shapes_tbl db2 = shapes_tbl db1"
      by auto
    have ids: "shapeId ` set (shapes_tbl db2) = insert (rt_id rt) (shapeId ` set (shapes_tbl db))"
      using s1 s2 fr by simp
    have "\<not> (distinct (map rt_id rts) \<and> set (map rt_id rts) \<inter> shapeId ` set (shapes_tbl db2) = {})"
      using Cons.prems False unfolding ids by auto
    from Cons.IH [OF this, of acc2] show ?thesis
      using p by (simp add: f c)
  qed
qed

lemma import_docs_fail:
  assumes "\<not> (distinct (concat (map profile_shape_ids (profiles_of docs)))
             \<and> set (concat (map profile_shape_ids (profiles_of docs))) \<inter> shapeId ` set (shapes_tbl db) = {})"
  shows "import_docs ns docs (acc, db) = Inl ConstraintFailed"
  using assms
proof (induction docs arbitrary: acc db)
  case Nil
  then show ?case by (simp add: profiles_of_def map_filter_simps)
next
  case (Cons doc docs)
  show ?case
  proof (cases "doc_profile doc")
    case None
    then have e: "profiles_of (doc # docs) = profiles_of docs"
      by (simp add: profiles_of_def map_filter_simps)
    from Cons.IH [of db acc] Cons.prems show ?thesis
      unfolding e using None by simp
  next
    case (Some pf)
    then have e: "profiles_of (doc # docs) = pf # profiles_of docs"
      by (simp add: profiles_of_def map_filter_simps)
    note pr = Cons.prems [unfolded e]
    let ?rest = "concat (map profile_shape_ids (profiles_of docs))"
    obtain fid acc0 db0 where f: "folder_for (prof_id pf) (acc, db) = (fid, acc0, db0)"
      by (cases "folder_for (prof_id pf) (acc, db)") auto
    note fr = folder_for_frame [OF f]
    show ?thesis
    proof (cases "prof_id pf \<in> shapeId ` set (shapes_tbl db)")
      case True
      then have "prof_id pf \<in> shapeId ` set (shapes_tbl db0)" using fr by simp
      then show ?thesis
        by (simp add: Some f shapeService_create_taken)
    next
      case False
      then have fresh: "prof_id pf \<notin> shapeId ` set (shapes_tbl db0)" using fr by simp
      from shapeService_create_ok [OF fresh, where lbl = "Some (prof_title pf)" and uri = None
             and fid = fid and descr = "or_undefined (prof_description pf)"]
      obtain db1 where c: "shapeService_create (prof_id pf) (Some (prof_title pf)) None fid
                             (or_undefined (prof_description pf)) db0 = Inr db1"
        and s1: "shapeId ` set (shapes_tbl db1) = insert (prof_id pf) (shapeId ` set (shapes_tbl db0))"
        and t1: "dom (row_tables db1) = insert (tableName (prof_id pf)) (dom (row_tables db0))"
        by blast
      show ?thesis
      proof (cases "distinct (map rt_id (resourceTemplates pf))
                    \<and> set (map rt_id (resourceTemplates pf)) \<inter> shapeId ` set (shapes_tbl db1) = {}")
        case bad: False
        from import_rts_fail [OF bad] show ?thesis
          by (simp add: Some f c)
      next
        case good: True
        then have d1: "distinct (map rt_id (resourceTemplates pf))"
          and e1: "set (map rt_id (resourceTemplates pf)) \<inter> shapeId ` set (shapes_tbl db1) = {}"
          by simp_all
        from import_rts_ok [OF d1 e1, where ns = ns and acc = "acc0\<lparr>shapesCreated := shapesCreated acc0 + 1\<rparr>"]
        obtain acc2 db2 where r: "import_rts ns (resourceTemplates pf)
                                    (acc0\<lparr>shapesCreated := shapesCreated acc0 + 1\<rparr>, db1) = Inr (acc2, db2)"
          and s2: "shapeId ` set (shapes_tbl db2) = shapeId ` set (shapes_tbl db1) \<union> set (map rt_id (resourceTemplates pf))"
          and t2: "dom (row_tables db1) \<subseteq> dom (row_tables db2)"
          by auto
        have "tableName (prof_id pf) \<in> dom (row_tables db2)" using t1 t2 by auto
        from import_links_ok [OF this, where k = 0 and ids = "map rt_id (resourceTemplates pf)" and acc = acc2]
        obtain acc3 db3 where l: "import_links (prof_id pf) 0 (map rt_id (resourceTemplates pf)) (acc2, db2)
                                    = Inr (acc3, db3)"
          and s3: "shapes_tbl db3 = shapes_tbl db2"
          by auto
        have s3': "shapeId ` set (shapes_tbl db3) = shapeId ` set (shapes_tbl db) \<union> set (profile_shape_ids pf)"
          using s1 s2 s3 fr by (auto simp: profile_shape_ids_def)
        have own: "distinct (profile_shape_ids pf)"
          "set (profile_shape_ids pf) \<inter> shapeId ` set (shapes_tbl db) = {}"
          using d1 e1 False s1 fr by (auto simp: profile_shape_ids_def)
        have "\<not> (distinct ?rest \<and> set ?rest \<inter> shapeId ` set (shapes_tbl db3) = {})"
        proof
          assume a: "distinct ?rest \<and> set ?rest \<inter> shapeId ` set (shapes_tbl db3) = {}"
          then have "set ?rest \<inter> set (profile_shape_ids pf) = {}"
            and "set ?rest \<inter> shapeId ` set (shapes_tbl db) = {}"
            unfolding s3' by blast+
          then have "distinct (profile_shape_ids pf @ ?rest)
                     \<and> set (profile_shape_ids pf @ ?rest) \<inter> shapeId ` set (shapes_tbl db) = {}"
            using a own by auto
          then show False using pr by simp
        qed
        from Cons.IH [OF this, of acc3] show ?thesis
          using r l by (simp add: Some f c)
      qed
    qed
  qed
qed


text \<open>
  C7 (as the code has it). \<open>shape_id\<close> is UNIQUE in the \<open>_shapes\<close> table, so creating a
  shape whose id is taken throws. When the ids of all profiles and resource templates of
  the documents are pairwise distinct, the import returns: shapes created = documents with
  a profile + all their resource templates; rows created = all property templates + one
  linking row per resource template. When an id repeats among them, the import throws on
  the constraint and returns nothing.
\<close>

theorem marva_import_counts:
  "(distinct (concat (map profile_shape_ids (profiles_of docs))) \<longrightarrow>
      (\<exists>st'. importMarvaProfiles workspaceName docs st =
         Inr (\<lparr>res_workspaceId = length st, res_workspaceName = workspaceName,
               res_shapesCreated = length (profiles_of docs)
                  + sum_list (map (\<lambda>p. length (resourceTemplates p)) (profiles_of docs)),
               res_rowsCreated = sum_list (map count_props (profiles_of docs))
                  + sum_list (map (\<lambda>p. length (resourceTemplates p)) (profiles_of docs))\<rparr>, st')))
   \<and> (\<not> distinct (concat (map profile_shape_ids (profiles_of docs))) \<longrightarrow>
        importMarvaProfiles workspaceName docs st = Inl ConstraintFailed)"
proof (intro conjI impI)
  assume d: "distinct (concat (map profile_shape_ids (profiles_of docs)))"
  let ?db = "optionsService_update True (initializeWorkspaceDb workspaceName)"
  have e: "set (concat (map profile_shape_ids (profiles_of docs))) \<inter> shapeId ` set (shapes_tbl ?db) = {}"
    by (simp add: optionsService_update_def initializeWorkspaceDb_def)
  from import_docs_ok [OF d e, where ns = "namespaceService_list ?db"
         and acc = "\<lparr>folderMap = [], shapesCreated = 0, rowsCreated = 0\<rparr>"]
  obtain acc' db' where i: "import_docs (namespaceService_list ?db) docs
                              (\<lparr>folderMap = [], shapesCreated = 0, rowsCreated = 0\<rparr>, ?db) = Inr (acc', db')"
    and n: "shapesCreated acc' = length (profiles_of docs)
              + sum_list (map (\<lambda>p. length (resourceTemplates p)) (profiles_of docs))"
    and r: "rowsCreated acc' = sum_list (map count_props (profiles_of docs))
              + sum_list (map (\<lambda>p. length (resourceTemplates p)) (profiles_of docs))"
    by auto
  have w: "getWorkspaceDb (st @ [initializeWorkspaceDb workspaceName]) (length st) =
             Inr (initializeWorkspaceDb workspaceName)"
    by (simp add: getWorkspaceDb_def)
  show "\<exists>st'. importMarvaProfiles workspaceName docs st =
         Inr (\<lparr>res_workspaceId = length st, res_workspaceName = workspaceName,
               res_shapesCreated = length (profiles_of docs)
                  + sum_list (map (\<lambda>p. length (resourceTemplates p)) (profiles_of docs)),
               res_rowsCreated = sum_list (map count_props (profiles_of docs))
                  + sum_list (map (\<lambda>p. length (resourceTemplates p)) (profiles_of docs))\<rparr>, st')"
    using i n r by (simp add: importMarvaProfiles_def workspaceService_create_def w Let_def)
next
  assume d: "\<not> distinct (concat (map profile_shape_ids (profiles_of docs)))"
  let ?db = "optionsService_update True (initializeWorkspaceDb workspaceName)"
  have w: "getWorkspaceDb (st @ [initializeWorkspaceDb workspaceName]) (length st) =
             Inr (initializeWorkspaceDb workspaceName)"
    by (simp add: getWorkspaceDb_def)
  have "\<not> (distinct (concat (map profile_shape_ids (profiles_of docs)))
          \<and> set (concat (map profile_shape_ids (profiles_of docs))) \<inter> shapeId ` set (shapes_tbl ?db) = {})"
    using d by simp
  from import_docs_fail [OF this, of "namespaceService_list ?db"
      "\<lparr>folderMap = [], shapesCreated = 0, rowsCreated = 0\<rparr>"]
  show "importMarvaProfiles workspaceName docs st = Inl ConstraintFailed"
    by (simp add: importMarvaProfiles_def workspaceService_create_def w Let_def)
qed

theorem marva_import_counts_witness:
  "(\<exists>st'. importMarvaProfiles ''w'' [title_document] [] =
           Inr (\<lparr>res_workspaceId = 0, res_workspaceName = ''w'', res_shapesCreated = 2,
                 res_rowsCreated = 2\<rparr>, st'))
   \<and> importMarvaProfiles ''w'' [title_document, title_document] [] = Inl ConstraintFailed"
proof -
  have a: "distinct (concat (map profile_shape_ids (profiles_of [title_document])))"
    by (simp add: profiles_of_def map_filter_simps profile_shape_ids_def title_document_def)
  have b: "\<not> distinct (concat (map profile_shape_ids (profiles_of [title_document, title_document])))"
    by (simp add: profiles_of_def map_filter_simps profile_shape_ids_def title_document_def)
  show ?thesis
    using marva_import_counts [of "[title_document]" "''w''" "[]"] a
      marva_import_counts [of "[title_document, title_document]" "''w''" "[]"] b
    by (simp add: profiles_of_def map_filter_simps count_props_def
          title_document_def numeral_2_eq_2)
qed

text \<open>
  C7 as stated fails: two documents with the same profile id are a list of profile
  documents, each with a profile, and the import throws on the second instead of
  returning counts.
\<close>

theorem marva_import_counts_counterexample:
  "importMarvaProfiles ''w'' [bare_document, bare_document] [] = Inl ConstraintFailed"
  by (simp add: importMarvaProfiles_def workspaceService_create_def getWorkspaceDb_def
        initializeWorkspaceDb_def optionsService_update_def bare_document_def Let_def
        folder_for_def extractFolderName_def shapeService_create_def)

section \<open>Marva export: type inference and decoding of multi-valued cells\<close>

lemma default_namespaces_sorted:
  "sort_key prefix DEFAULT_NAMESPACES =
    [\<lparr>prefix = ''bf'', namespace = ''http://id.loc.gov/ontologies/bibframe/''\<rparr>,
     \<lparr>prefix = ''bflc'', namespace = ''http://id.loc.gov/ontologies/bflc/''\<rparr>,
     \<lparr>prefix = ''bfsimple'', namespace = ''http://id.loc.gov/ontologies/bfsimple/''\<rparr>,
     \<lparr>prefix = ''cc'', namespace = ''http://creativecommons.org/ns#''\<rparr>,
     \<lparr>prefix = ''dcterms'', namespace = ''http://purl.org/dc/terms/''\<rparr>,
     \<lparr>prefix = ''foaf'', namespace = ''http://xmlns.com/foaf/0.1/''\<rparr>,
     \<lparr>prefix = ''mads'', namespace = ''http://www.loc.gov/mads/rdf/v1#''\<rparr>,
     \<lparr>prefix = ''owl'', namespace = ''http://www.w3.org/2002/07/owl#''\<rparr>,
     \<lparr>prefix = ''pom'', namespace = ''http://performedmusicontology.org/ontology/''\<rparr>,
     \<lparr>prefix = ''rdf'', namespace = ''http://www.w3.org/1999/02/22-rdf-syntax-ns#''\<rparr>,
     \<lparr>prefix = ''rdfs'', namespace = ''http://www.w3.org/2000/01/rdf-schema#''\<rparr>,
     \<lparr>prefix = ''skos'', namespace = ''http://www.w3.org/2004/02/skos/core#''\<rparr>,
     \<lparr>prefix = ''sp'', namespace = ''http://id.loc.gov/ontologies/sp/''\<rparr>,
     \<lparr>prefix = ''xsd'', namespace = ''http://www.w3.org/2001/XMLSchema#''\<rparr>]"
  by (simp add: DEFAULT_NAMESPACES_def)

lemma expand_bf:
  "expandUri (''bf:'' @ l) (sort_key prefix DEFAULT_NAMESPACES) =
     (if includes_str (''bf:'' @ l) ''://'' then ''bf:'' @ l
      else ''http://id.loc.gov/ontologies/bibframe/'' @ l)"
  by (simp add: default_namespaces_sorted expandUri_def index_of_def)

lemma table_names:
  "tableName ''Person'' = ''shape_person''"
  "tableName ''Prof'' = ''shape_prof''"
  "tableName ''RT1'' = ''shape_rt1''"
  by (simp_all add: tableName_def sanitizeTableName_def sanitize_char_def to_lower_def LATIN1_UPPER_def LATIN1_LOWER_def)

lemma not_starting_point:
  "\<not> isStartingPointShape ''Person''"
  "\<not> isStartingPointShape ''Prof''"
  "\<not> isStartingPointShape ''RT1''"
  by (simp_all add: isStartingPointShape_def STARTING_POINT_PREFIX_def toLowerCase_def
        to_lower_def LATIN1_UPPER_def LATIN1_LOWER_def starts_with_def)

lemma agent_row_fallback:
  "rowToPropertyFallback (sort_key prefix DEFAULT_NAMESPACES) agent_row =
     \<lparr>propertyURI = ''http://id.loc.gov/ontologies/bibframe/agent'',
      pt_propertyLabel = [], pt_mandatory = ''false'', pt_repeatable = ''false'',
      pt_type = TLiteral, pt_remark = None, pt_valueConstraint = empty_constraint\<rparr>"
  using expand_bf [of "''agent''"]
  by (simp add: rowToPropertyFallback_def finish_property_def infer_type_fallback_def
        base_property_def agent_row_def blank_row_def or_else_def truthy_def
        pair_defaults_def split_defaults_def map_filter_simps empty_constraint_def
        starts_with_def)

lemma agent_row_main:
  "rowToProperty (sort_key prefix DEFAULT_NAMESPACES) agent_row =
     \<lparr>propertyURI = ''http://id.loc.gov/ontologies/bibframe/agent'',
      pt_propertyLabel = [], pt_mandatory = ''false'', pt_repeatable = ''false'',
      pt_type = TResource, pt_remark = None,
      pt_valueConstraint = empty_constraint\<lparr>valueTemplateRefs := [''Agent'']\<rparr>\<rparr>"
  using expand_bf [of "''agent''"]
  by (simp add: rowToProperty_def finish_property_def infer_type_def
        base_property_def agent_row_def blank_row_def or_else_def truthy_def
        pair_defaults_def split_defaults_def map_filter_simps empty_constraint_def
        starts_with_def decode_newlines_def trim_def is_space_def)

lemma export_type_precedence:
  "pt_type (rowToProperty namespaces row) =
     (if valueNodeType row = Some ''literal'' then TLiteral
      else if valueNodeType row = Some ''bnode'' \<and> truthy (valueShape row) then TResource
      else if valueConstraintType row = Some ''IRIstem'' \<and> truthy (valueConstraint row) then TLookup
      else if truthy (valueShape row) then TResource
      else TLiteral)"
  by (simp add: rowToProperty_def finish_property_def infer_type_def base_property_def Let_def)

lemma export_type_precedence_fallback:
  "pt_type (rowToPropertyFallback namespaces row) =
     (if valueNodeType row = Some ''literal'' then TLiteral
      else if valueNodeType row = Some ''bnode'' \<and> truthy (valueShape row) then TResource
      else if valueConstraintType row = Some ''IRIstem'' \<and> truthy (valueConstraint row) then TLookup
      else TLiteral)"
  by (simp add: rowToPropertyFallback_def finish_property_def infer_type_fallback_def
        base_property_def Let_def)


text \<open>
  C3. The loop over the profile shapes infers the property type in the order literal,
  bnode with value shape, IRIstem with value constraint, bare value shape, literal
  (\<open>export_type_precedence\<close>). The fallback loop, which wraps all shapes in one document,
  has no branch for a bare value shape (\<open>export_type_precedence_fallback\<close>): exporting the
  workspace \<open>person_db\<close>, whose shape has no \<open>Has Shape\<close> rows, turns the row with node
  type IRI and value shape \<open>Agent\<close> into a literal property with no template refs, where the
  loop over profile shapes makes it a resource with the ref \<open>Agent\<close>.
\<close>

theorem marva_export_fallback_type:
  "exportMarvaProfiles [person_db] 0 =
     Inr [\<lparr>doc_name = ''Demo'',
           doc_profile = Some
             \<lparr>prof_id = ''lc:profile:demo'', prof_title = ''Demo'', prof_description = None,
              resourceTemplates =
                [\<lparr>rt_id = ''Person'', rt_resourceURI = None, rt_resourceLabel = None,
                  rt_remark = None,
                  propertyTemplates =
                    [\<lparr>propertyURI = ''http://id.loc.gov/ontologies/bibframe/agent'',
                      pt_propertyLabel = [], pt_mandatory = ''false'',
                      pt_repeatable = ''false'', pt_type = TLiteral, pt_remark = None,
                      pt_valueConstraint = empty_constraint\<rparr>]\<rparr>]\<rparr>\<rparr>]
   \<and> pt_type (rowToProperty (namespaceService_list person_db) agent_row) = TResource
   \<and> valueTemplateRefs (pt_valueConstraint (rowToProperty (namespaceService_list person_db) agent_row))
       = [''Agent'']"
proof -
  have ns: "namespaceService_list person_db = sort_key prefix DEFAULT_NAMESPACES"
    by (simp add: namespaceService_list_def person_db_def initializeWorkspaceDb_def)
  have sh: "shapeService_list person_db = [plain_shape ''Person'']"
    by (simp add: shapeService_list_def person_db_def)
  have rs: "rowService_list person_db ''Person'' = Inr [agent_row]"
    by (simp add: rowService_list_def person_db_def table_names)
  have li: "linked_ids [agent_row] = []"
    by (simp add: linked_ids_def agent_row_def blank_row_def)
  have nm: "ws_name person_db = ''Demo''"
    by (simp add: person_db_def initializeWorkspaceDb_def)
  have lc: "replace_space_runs False (toLowerCase ''Demo'') = ''demo''"
    by (simp add: toLowerCase_def to_lower_def LATIN1_UPPER_def LATIN1_LOWER_def is_space_def)
  have fl: "isInStartingPointFolder person_db None = False"
    by (simp add: isInStartingPointFolder_def)
  have "exportMarvaProfiles [person_db] 0 =
          Inr [\<lparr>doc_name = ''Demo'',
                doc_profile = Some
                  \<lparr>prof_id = ''lc:profile:'' @ ''demo'', prof_title = ''Demo'', prof_description = None,
                   resourceTemplates =
                     [shape_template (sort_key prefix DEFAULT_NAMESPACES) (plain_shape ''Person'')
                        [rowToPropertyFallback (sort_key prefix DEFAULT_NAMESPACES) agent_row]]\<rparr>\<rparr>]"
    by (simp add: exportMarvaProfiles_def getWorkspaceDb_def ns sh rs li nm lc fl
          not_starting_point plain_shape_def Let_def)
  then show ?thesis
    by (simp add: agent_row_fallback agent_row_main ns shape_template_def plain_shape_def
          or_undefined_def truthy_def empty_constraint_def)
qed



text \<open>
  C5. The Marva exporter decodes \<open>valueShape\<close> (and \<open>valueConstraint\<close>) by splitting on
  newline only: the cell \<open>A,B|C\nD\<close> of a row of \<open>profile_db\<close> is exported as the two
  template refs \<open>A,B|C\<close> and \<open>D\<close>, while the spreadsheet's decoder (and the validator's)
  reads the same cell as \<open>A\<close>, \<open>B\<close>, \<open>C\<close>, \<open>D\<close>.
\<close>

lemma refs_row_main:
  "rowToProperty (sort_key prefix DEFAULT_NAMESPACES) refs_row =
     \<lparr>propertyURI = ''http://id.loc.gov/ontologies/bibframe/title'',
      pt_propertyLabel = [], pt_mandatory = ''false'', pt_repeatable = ''false'',
      pt_type = TResource, pt_remark = None,
      pt_valueConstraint = empty_constraint\<lparr>valueTemplateRefs := [''A,B|C'', ''D'']\<rparr>\<rparr>"
  using expand_bf [of "''title''"]
  by (simp add: rowToProperty_def finish_property_def infer_type_def
        base_property_def refs_row_def blank_row_def or_else_def truthy_def
        pair_defaults_def split_defaults_def map_filter_simps empty_constraint_def
        starts_with_def decode_newlines_def trim_def is_space_def)

theorem marva_export_splits_on_newline_only:
  "exportMarvaProfiles [profile_db] 0 =
     Inr [\<lparr>doc_name = ''Prof'',
           doc_profile = Some
             \<lparr>prof_id = ''Prof'', prof_title = ''Prof'', prof_description = None,
              resourceTemplates =
                [\<lparr>rt_id = ''RT1'', rt_resourceURI = None, rt_resourceLabel = None,
                  rt_remark = None,
                  propertyTemplates =
                    [\<lparr>propertyURI = ''http://id.loc.gov/ontologies/bibframe/title'',
                      pt_propertyLabel = [], pt_mandatory = ''false'',
                      pt_repeatable = ''false'', pt_type = TResource, pt_remark = None,
                      pt_valueConstraint =
                        \<lparr>valueTemplateRefs = [''A,B|C'', ''D''], useValuesFrom = [],
                         defaults = [], dataTypeURI = None, vc_repeatable = None\<rparr>\<rparr>]\<rparr>]\<rparr>\<rparr>]
   \<and> getMultilineValues (valueShape refs_row) = [''A'', ''B'', ''C'', ''D'']"
proof -
  have ns: "namespaceService_list profile_db = sort_key prefix DEFAULT_NAMESPACES"
    by (simp add: namespaceService_list_def profile_db_def initializeWorkspaceDb_def)
  have sh: "shapeService_list profile_db = [plain_shape ''Prof'', plain_shape ''RT1'']"
    by (simp add: shapeService_list_def profile_db_def plain_shape_def)
  have rs: "rowService_list profile_db ''Prof'' = Inr [has_shape_row ''RT1'']"
    "rowService_list profile_db ''RT1'' = Inr [refs_row]"
    by (simp_all add: rowService_list_def profile_db_def table_names)
  have li: "linked_ids [has_shape_row ''RT1''] = [''RT1'']" "linked_ids [refs_row] = []"
    by (simp_all add: linked_ids_def has_shape_row_def refs_row_def blank_row_def truthy_def
          decode_newlines_def trim_def is_space_def not_starting_point)
  have fl: "isInStartingPointFolder profile_db None = False"
    by (simp add: isInStartingPointFolder_def)
  have "exportMarvaProfiles [profile_db] 0 =
          Inr [\<lparr>doc_name = ''Prof'',
                doc_profile = Some
                  \<lparr>prof_id = ''Prof'', prof_title = ''Prof'', prof_description = None,
                   resourceTemplates =
                     [shape_template (sort_key prefix DEFAULT_NAMESPACES) (plain_shape ''RT1'')
                        [rowToProperty (sort_key prefix DEFAULT_NAMESPACES) refs_row]]\<rparr>\<rparr>]"
    by (simp add: exportMarvaProfiles_def getWorkspaceDb_def ns sh rs li fl
          not_starting_point plain_shape_def Let_def or_else_def or_undefined_def truthy_def)
  moreover have "getMultilineValues (valueShape refs_row) = [''A'', ''B'', ''C'', ''D'']"
    by (simp add: getMultilineValues_def refs_row_def blank_row_def truthy_def trim_def is_space_def)
  ultimately show ?thesis
    by (simp add: refs_row_main shape_template_def plain_shape_def
          or_undefined_def truthy_def empty_constraint_def)
qed

section \<open>Starting-point export: the order of the menu groups\<close>

lemma export_menu_groups_total:
  assumes "\<forall>s\<in>set ss. tableName (shapeId s) \<in> dom (row_tables db)"
  shows "export_menu_groups db ss = Inr (List.map_filter (menu_group_of db) ss)"
  using assms
proof (induction ss)
  case Nil
  then show ?case by (simp add: map_filter_simps)
next
  case (Cons s ss)
  then obtain rs where "row_tables db (tableName (shapeId s)) = Some rs" by auto
  then have r: "rowService_list db (shapeId s) = Inr (sort_key rowOrder rs)"
    by (simp add: rowService_list_def)
  show ?case
    using Cons by (simp add: r map_filter_simps menu_group_of_def)
qed

lemma map_of_rev_distinct:
  assumes "distinct (map shapeId sps)"
  shows "map_of (rev (map (\<lambda>s. (shapeId s, s)) sps)) i = find (\<lambda>s. shapeId s = i) sps"
proof -
  have d: "distinct (map fst (map (\<lambda>s. (shapeId s, s)) sps))"
    using assms by (simp add: comp_def)
  have "map_of (rev (map (\<lambda>s. (shapeId s, s)) sps)) = map_of (map (\<lambda>s. (shapeId s, s)) sps)"
    by (rule map_of_inject_set [THEN iffD2]) (use d in \<open>simp_all add: rev_map [symmetric]\<close>)
  moreover have "map_of (map (\<lambda>s. (shapeId s, s)) sps) i = find (\<lambda>s. shapeId s = i) sps"
    by (induction sps) auto
  ultimately show ?thesis by simp
qed

lemma filter_find_distinct:
  assumes "distinct (map shapeId sps)"
  shows "filter (\<lambda>s. shapeId s = i) sps =
           (case find (\<lambda>s. shapeId s = i) sps of None \<Rightarrow> [] | Some s \<Rightarrow> [s])"
  using assms
proof (induction sps)
  case Nil
  then show ?case by simp
next
  case (Cons a sps)
  then show ?case
    by (auto simp: image_iff split: option.splits dest!: find_Some_set)
qed

lemma orderedShapes_spec:
  assumes "distinct (map shapeId sps)"
  shows "orderedShapes sps ids = shapes_in_index_order sps ids @ shapes_not_in_index sps ids"
proof -
  have "map (\<lambda>i. the (find (\<lambda>s. shapeId s = i) sps))
          (filter (\<lambda>i. find (\<lambda>s. shapeId s = i) sps \<noteq> None) ids)
        = concat (map (\<lambda>i. filter (\<lambda>s. shapeId s = i) sps) ids)"
    by (induction ids) (auto simp: filter_find_distinct [OF assms])
  then show ?thesis
    by (simp add: orderedShapes_def map_of_rev_distinct [OF assms] shapes_in_index_order_def
          shapes_not_in_index_def)
qed

lemma distinct_startingPointShapes:
  assumes "distinct (map shapeId (shapes_tbl db))"
  shows "distinct (map shapeId (startingPointShapes db))"
proof -
  have "distinct (map shapeId (sort_key shapeId (shapes_tbl db)))"
    using assms by (simp add: distinct_map)
  then show ?thesis
    by (simp add: startingPointShapes_def shapeService_list_def distinct_map_filter)
qed

lemma orderedShapeIds_references:
  "orderedShapeIds db = Inr ids \<Longrightarrow> ids = index_references db"
proof (cases "find (\<lambda>s. shapeId s = STARTING_POINT_INDEX_ID) (shapeService_list db)")
  case None
  then have "STARTING_POINT_INDEX_ID \<notin> shapeId ` set (shapes_tbl db)"
    by (auto simp: find_None_iff shapeService_list_def)
  moreover assume "orderedShapeIds db = Inr ids"
  ultimately show ?thesis
    using None by (simp add: orderedShapeIds_def index_references_def)
next
  case (Some s)
  then have m: "s \<in> set (shapes_tbl db)" and k: "shapeId s = STARTING_POINT_INDEX_ID"
    by (auto simp: shapeService_list_def dest!: find_Some_set)
  from m have "shapeId s \<in> shapeId ` set (shapes_tbl db)" by (rule imageI)
  then have "STARTING_POINT_INDEX_ID \<in> shapeId ` set (shapes_tbl db)"
    unfolding k .
  moreover assume "orderedShapeIds db = Inr ids"
  ultimately show ?thesis
    using Some
    by (auto simp: orderedShapeIds_def index_references_def rowService_list_def
          split: option.splits)
qed

lemma orderedShapeIds_total:
  assumes "STARTING_POINT_INDEX_ID \<in> shapeId ` set (shapes_tbl db) \<longrightarrow>
             tableName STARTING_POINT_INDEX_ID \<in> dom (row_tables db)"
  shows "orderedShapeIds db = Inr (index_references db)"
proof (cases "find (\<lambda>s. shapeId s = STARTING_POINT_INDEX_ID) (shapeService_list db)")
  case None
  then have "orderedShapeIds db = Inr []" by (simp add: orderedShapeIds_def)
  then show ?thesis using orderedShapeIds_references by fastforce
next
  case (Some s)
  then have m: "s \<in> set (shapes_tbl db)" and k: "shapeId s = STARTING_POINT_INDEX_ID"
    by (auto simp: shapeService_list_def dest!: find_Some_set)
  from m have "shapeId s \<in> shapeId ` set (shapes_tbl db)" by (rule imageI)
  then have "STARTING_POINT_INDEX_ID \<in> shapeId ` set (shapes_tbl db)"
    unfolding k .
  then obtain rs where "row_tables db (tableName STARTING_POINT_INDEX_ID) = Some rs"
    using assms by auto
  then have "\<exists>ids. orderedShapeIds db = Inr ids"
    using Some by (simp add: orderedShapeIds_def rowService_list_def)
  then show ?thesis using orderedShapeIds_references by fastforce
qed

lemma exportStartingPoints_db_groups:
  assumes d: "distinct (map shapeId (startingPointShapes db))"
    and t: "\<forall>s\<in>set (startingPointShapes db). tableName (shapeId s) \<in> dom (row_tables db)"
    and o: "orderedShapeIds db = Inr refs"
  shows "exportStartingPoints_db db =
           Inr (if expected_menu_groups db = [] then None
                else Some [\<lparr>config_name = ''config'', configType = ''startingPoints'',
                            json = expected_menu_groups db\<rparr>])"
proof -
  note r = orderedShapeIds_references [OF o]
  let ?sps = "startingPointShapes db"
  have os: "orderedShapes ?sps refs = shapes_in_index_order ?sps refs @ shapes_not_in_index ?sps refs"
    by (rule orderedShapes_spec [OF d])
  have "set (orderedShapes ?sps refs) \<subseteq> set ?sps"
    unfolding os by (auto simp: shapes_in_index_order_def shapes_not_in_index_def)
  then have "\<forall>s\<in>set (orderedShapes ?sps refs). tableName (shapeId s) \<in> dom (row_tables db)"
    using t by blast
  from export_menu_groups_total [OF this]
  have g: "export_menu_groups db (orderedShapes ?sps refs) = Inr (expected_menu_groups db)"
    unfolding os by (simp add: expected_menu_groups_def r)
  have c: "concat (map (\<lambda>i. []) xs) = ([] :: Shape list)" for xs :: "string list"
    by (induction xs) simp_all
  have e: "?sps = [] \<Longrightarrow> expected_menu_groups db = []"
    by (simp add: expected_menu_groups_def shapes_in_index_order_def shapes_not_in_index_def
          map_filter_simps c)
  show ?thesis
    using e by (auto simp: exportStartingPoints_db_def o g)
qed

lemma sp_table_names:
  "tableName ''startingpoint:A'' = ''shape_startingpoint_a''"
  "tableName ''startingpoint:B'' = ''shape_startingpoint_b''"
  "tableName ''startingpoint:C'' = ''shape_startingpoint_c''"
  "tableName ''startingpoint:index'' = ''shape_startingpoint_index''"
  by (simp_all add: tableName_def sanitizeTableName_def sanitize_char_def to_lower_def
        LATIN1_UPPER_def LATIN1_LOWER_def)

lemma sp_is_starting_point:
  "isStartingPointShape ''startingpoint:A''"
  "isStartingPointShape ''startingpoint:B''"
  "isStartingPointShape ''startingpoint:C''"
  "isStartingPointShape ''startingpoint:index''"
  by (simp_all add: isStartingPointShape_def STARTING_POINT_PREFIX_def toLowerCase_def
        to_lower_def LATIN1_UPPER_def LATIN1_LOWER_def starts_with_def)

lemma menu_row_item:
  "menu_items_of [menu_row 0 lbl (c # cs)] =
     [\<lparr>label = lbl, item_type = [], useResourceTemplates = [c # cs]\<rparr>]"
  by (simp add: menu_items_of_def menu_item_of_def menu_row_def stored_row_def item_row_def
        empty_row_def or_undefined_def or_else_def truthy_def first_or_empty_def nth_opt_def)

text \<open>
  Claim C8. Let the shape ids of the store be distinct (they are \<open>UNIQUE\<close> in the table of
  shapes) and let every starting-point shape have its row table. Then
  \<open>exportStartingPoints\<close> returns the menu groups of the starting-point shapes that the rows
  of the index shape name, in the order of these rows (\<open>rowOrder\<close>), followed by those of
  the starting-point shapes that the index does not name, in the order of the listing; a
  shape without \<open>dcterms:hasPart\<close> rows has no group, and with no group at all the result
  is \<open>null\<close>. The index shape is not among the shapes that contribute. When the index
  names none of the starting-point shapes, the groups are in the order of the listing.
\<close>

theorem starting_point_export_order:
  assumes "distinct (map shapeId (shapes_tbl db))"
    and "\<forall>s\<in>set (shapes_tbl db). isStartingPointShape (shapeId s) \<longrightarrow>
           tableName (shapeId s) \<in> dom (row_tables db)"
  shows "exportStartingPoints_db db =
           Inr (if expected_menu_groups db = [] then None
                else Some [\<lparr>config_name = ''config'', configType = ''startingPoints'',
                            json = expected_menu_groups db\<rparr>])
         \<and> STARTING_POINT_INDEX_ID \<notin> shapeId ` set (startingPointShapes db)
         \<and> (set (index_references db) \<inter> shapeId ` set (startingPointShapes db) = {} \<longrightarrow>
              expected_menu_groups db = List.map_filter (menu_group_of db) (startingPointShapes db))"
proof -
  note d = distinct_startingPointShapes [OF assms(1)]
  have t: "\<forall>s\<in>set (startingPointShapes db). tableName (shapeId s) \<in> dom (row_tables db)"
    using assms(2) by (auto simp: startingPointShapes_def shapeService_list_def)
  have "isStartingPointShape STARTING_POINT_INDEX_ID"
    by (simp add: STARTING_POINT_INDEX_ID_def sp_is_starting_point)
  then have "STARTING_POINT_INDEX_ID \<in> shapeId ` set (shapes_tbl db) \<longrightarrow>
               tableName STARTING_POINT_INDEX_ID \<in> dom (row_tables db)"
    using assms(2) by (metis (no_types, lifting) image_iff)
  note o = orderedShapeIds_total [OF this]
  have n: "STARTING_POINT_INDEX_ID \<notin> shapeId ` set (startingPointShapes db)"
    by (auto simp: startingPointShapes_def)
  have z: "set (index_references db) \<inter> shapeId ` set (startingPointShapes db) = {} \<Longrightarrow>
             shapes_in_index_order (startingPointShapes db) (index_references db) = []
             \<and> shapes_not_in_index (startingPointShapes db) (index_references db)
                 = startingPointShapes db"
    by (auto simp: shapes_in_index_order_def shapes_not_in_index_def filter_empty_conv
          intro!: filter_True)
  show ?thesis
    using exportStartingPoints_db_groups [OF d t o] n z
    by (simp add: expected_menu_groups_def)
qed

lemma standalone_groups:
  "expected_menu_groups standalone_db = json (hd standalone_file)"
proof -
  have s: "startingPointShapes standalone_db =
     [\<lparr>shapeId = ''startingpoint:A'', shapeLabel = Some ''A'', description = None,
       resourceURI = None, folderId = None\<rparr>,
      \<lparr>shapeId = ''startingpoint:B'', shapeLabel = Some ''B'', description = None,
       resourceURI = None, folderId = None\<rparr>]"
    by (simp add: startingPointShapes_def shapeService_list_def standalone_db_def
        sp_is_starting_point STARTING_POINT_INDEX_ID_def)
  have i: "index_references standalone_db = []"
    by (simp add: index_references_def standalone_db_def STARTING_POINT_INDEX_ID_def
          sp_table_names)
  have r: "rowService_list standalone_db ''startingpoint:A'' = Inr [menu_row 0 ''Instance'' ''lc:Instance'']"
    "rowService_list standalone_db ''startingpoint:B'' = Inr [menu_row 0 ''Work'' ''lc:Work'']"
    by (simp_all add: rowService_list_def sp_table_names standalone_db_def)
  show ?thesis
    by (simp add: expected_menu_groups_def s i shapes_in_index_order_def shapes_not_in_index_def
          map_filter_simps menu_group_of_def r menu_row_item or_else_def truthy_def
          standalone_file_def)
qed

lemma ordered_references:
  "index_references ordered_db = [''startingpoint:C'', ''startingpoint:A'']"
  by (simp add: index_references_def ordered_db_def STARTING_POINT_INDEX_ID_def
        sp_table_names stored_row_def index_row_def empty_row_def or_undefined_def truthy_def)

lemma ordered_groups:
  "expected_menu_groups ordered_db = json (hd ordered_file)"
proof -
  have s: "startingPointShapes ordered_db =
     [\<lparr>shapeId = ''startingpoint:A'', shapeLabel = Some ''A'', description = None,
       resourceURI = None, folderId = None\<rparr>,
      \<lparr>shapeId = ''startingpoint:B'', shapeLabel = Some ''B'', description = None,
       resourceURI = None, folderId = None\<rparr>,
      \<lparr>shapeId = ''startingpoint:C'', shapeLabel = Some ''C'', description = None,
       resourceURI = None, folderId = None\<rparr>]"
    by (simp add: startingPointShapes_def shapeService_list_def ordered_db_def
        sp_is_starting_point STARTING_POINT_INDEX_ID_def)
  have r: "rowService_list ordered_db ''startingpoint:A'' = Inr [menu_row 0 ''Instance'' ''lc:Instance'']"
    "rowService_list ordered_db ''startingpoint:B'' = Inr [menu_row 0 ''Work'' ''lc:Work'']"
    "rowService_list ordered_db ''startingpoint:C'' = Inr [menu_row 0 ''Item'' ''lc:Item'']"
    by (simp_all add: rowService_list_def sp_table_names ordered_db_def)
  show ?thesis
    by (simp add: expected_menu_groups_def s ordered_references shapes_in_index_order_def
          shapes_not_in_index_def map_filter_simps menu_group_of_def r menu_row_item
          or_else_def truthy_def ordered_file_def)
qed

theorem starting_point_export_order_witness:
  "exportStartingPoints_db ordered_db = Inr (Some ordered_file)
   \<and> index_references ordered_db = [''startingpoint:C'', ''startingpoint:A'']
   \<and> map menuGroup (json (hd ordered_file)) = [''C'', ''A'', ''B'']
   \<and> exportStartingPoints_db standalone_db = Inr (Some standalone_file)
   \<and> index_references standalone_db = []
   \<and> map menuGroup (json (hd standalone_file)) = [''A'', ''B'']"
proof -
  have d1: "distinct (map shapeId (shapes_tbl ordered_db))"
    by (simp add: ordered_db_def)
  have t1: "\<forall>s\<in>set (shapes_tbl ordered_db). isStartingPointShape (shapeId s) \<longrightarrow>
              tableName (shapeId s) \<in> dom (row_tables ordered_db)"
    by (simp add: ordered_db_def sp_table_names)
  have d2: "distinct (map shapeId (shapes_tbl standalone_db))"
    by (simp add: standalone_db_def)
  have t2: "\<forall>s\<in>set (shapes_tbl standalone_db). isStartingPointShape (shapeId s) \<longrightarrow>
              tableName (shapeId s) \<in> dom (row_tables standalone_db)"
    by (simp add: standalone_db_def sp_table_names)
  have f1: "[\<lparr>config_name = ''config'', configType = ''startingPoints'',
              json = json (hd ordered_file)\<rparr>] = ordered_file"
    and n1: "json (hd ordered_file) \<noteq> []"
    and m1: "map menuGroup (json (hd ordered_file)) = [''C'', ''A'', ''B'']"
    by (simp_all add: ordered_file_def)
  have f2: "[\<lparr>config_name = ''config'', configType = ''startingPoints'',
              json = json (hd standalone_file)\<rparr>] = standalone_file"
    and n2: "json (hd standalone_file) \<noteq> []"
    and m2: "map menuGroup (json (hd standalone_file)) = [''A'', ''B'']"
    by (simp_all add: standalone_file_def)
  have i2: "index_references standalone_db = []"
    by (simp add: index_references_def standalone_db_def STARTING_POINT_INDEX_ID_def
          sp_table_names)
  have e1: "exportStartingPoints_db ordered_db = Inr (Some ordered_file)"
    using starting_point_export_order [OF d1 t1] n1
    unfolding ordered_groups by (simp add: f1)
  have e2: "exportStartingPoints_db standalone_db = Inr (Some standalone_file)"
    using starting_point_export_order [OF d2 t2] n2
    unfolding standalone_groups by (simp add: f2)
  show ?thesis
    using e1 e2 ordered_references i2 m1 m2 by simp
qed

section \<open>Starting points: import, export and import again\<close>

lemma stored_row_order2 [simp]: "rowOrder (stored_row d k) = k"
  by (simp add: stored_row_def)

lemma import_items_result:
  assumes "row_tables db (tableName sid) = Some old"
  shows "\<exists>acc'. import_items sid (int i) items (acc, db) =
           Inr (acc', db\<lparr>row_tables := (row_tables db)(tableName sid \<mapsto>
                  old @ map (\<lambda>(k, item). stored_row (item_row (int k) item) (int k))
                          (List.enumerate i items))\<rparr>)
         \<and> spShapesCreated acc' = spShapesCreated acc
         \<and> createdShapeIds acc' = createdShapeIds acc
         \<and> spRowsCreated acc' = spRowsCreated acc + length items"
  using assms
proof (induction items arbitrary: i acc db old)
  case Nil
  then have "(row_tables db)(tableName sid \<mapsto> old) = row_tables db"
    by (simp add: map_upd_triv)
  then show ?case by simp
next
  case (Cons item items)
  let ?db1 = "db\<lparr>row_tables := (row_tables db)(tableName sid \<mapsto>
                 old @ [stored_row (item_row (int i) item) (int i)])\<rparr>"
  have c: "rowService_create sid (item_row (int i) item) db = Inr ?db1"
    using Cons.prems by (simp add: rowService_create_def item_row_def)
  have t: "row_tables ?db1 (tableName sid) = Some (old @ [stored_row (item_row (int i) item) (int i)])"
    by simp
  from Cons.IH [OF t, where i = "Suc i" and acc = "acc\<lparr>spRowsCreated := spRowsCreated acc + 1\<rparr>"]
  obtain acc' where
    r: "import_items sid (int (Suc i)) items (acc\<lparr>spRowsCreated := spRowsCreated acc + 1\<rparr>, ?db1) =
          Inr (acc', ?db1\<lparr>row_tables := (row_tables ?db1)(tableName sid \<mapsto>
                 (old @ [stored_row (item_row (int i) item) (int i)]) @
                 map (\<lambda>(k, item). stored_row (item_row (int k) item) (int k))
                   (List.enumerate (Suc i) items))\<rparr>)"
    and n: "spShapesCreated acc' = spShapesCreated (acc\<lparr>spRowsCreated := spRowsCreated acc + 1\<rparr>)"
      "createdShapeIds acc' = createdShapeIds (acc\<lparr>spRowsCreated := spRowsCreated acc + 1\<rparr>)"
      "spRowsCreated acc' = spRowsCreated (acc\<lparr>spRowsCreated := spRowsCreated acc + 1\<rparr>) + length items"
    by blast
  have "int i + 1 = int (Suc i)" by simp
  then show ?case
    using r n by (simp add: c add.commute) (simp add: fun_upd_def)
qed

lemma import_index_rows_result:
  assumes "row_tables db (tableName STARTING_POINT_INDEX_ID) = Some old"
  shows "\<exists>acc'. import_index_rows (int i) ps (acc, db) =
           Inr (acc', db\<lparr>row_tables := (row_tables db)(tableName STARTING_POINT_INDEX_ID \<mapsto>
                  old @ map (\<lambda>(k, p). stored_row (index_row (int k) p) (int k))
                          (List.enumerate i ps))\<rparr>)
         \<and> spShapesCreated acc' = spShapesCreated acc
         \<and> spRowsCreated acc' = spRowsCreated acc + length ps"
  using assms
proof (induction ps arbitrary: i acc db old)
  case Nil
  then have "(row_tables db)(tableName STARTING_POINT_INDEX_ID \<mapsto> old) = row_tables db"
    by (simp add: map_upd_triv)
  then show ?case by simp
next
  case (Cons p ps)
  let ?db1 = "db\<lparr>row_tables := (row_tables db)(tableName STARTING_POINT_INDEX_ID \<mapsto>
                 old @ [stored_row (index_row (int i) p) (int i)])\<rparr>"
  have c: "rowService_create STARTING_POINT_INDEX_ID (index_row (int i) p) db = Inr ?db1"
    using Cons.prems by (simp add: rowService_create_def index_row_def)
  have t: "row_tables ?db1 (tableName STARTING_POINT_INDEX_ID) =
             Some (old @ [stored_row (index_row (int i) p) (int i)])"
    by simp
  from Cons.IH [OF t, where i = "Suc i" and acc = "acc\<lparr>spRowsCreated := spRowsCreated acc + 1\<rparr>"]
  obtain acc' where
    r: "import_index_rows (int (Suc i)) ps (acc\<lparr>spRowsCreated := spRowsCreated acc + 1\<rparr>, ?db1) =
          Inr (acc', ?db1\<lparr>row_tables := (row_tables ?db1)(tableName STARTING_POINT_INDEX_ID \<mapsto>
                 (old @ [stored_row (index_row (int i) p) (int i)]) @
                 map (\<lambda>(k, p). stored_row (index_row (int k) p) (int k))
                   (List.enumerate (Suc i) ps))\<rparr>)"
    and n: "spShapesCreated acc' = spShapesCreated (acc\<lparr>spRowsCreated := spRowsCreated acc + 1\<rparr>)"
      "spRowsCreated acc' = spRowsCreated (acc\<lparr>spRowsCreated := spRowsCreated acc + 1\<rparr>) + length ps"
    by blast
  show ?case
    using r n by (simp add: c add.commute) (simp add: fun_upd_def)
qed

lemma delete_create:
  "shapeService_create sid lbl None (Some fid) None (shapeService_delete sid db) =
     Inr (db\<lparr>shapes_tbl := filter (\<lambda>s. shapeId s \<noteq> sid) (shapes_tbl db) @
               [\<lparr>shapeId = sid, shapeLabel = or_undefined lbl, description = None,
                 resourceURI = None, folderId = Some fid\<rparr>],
             row_tables := (row_tables db)(tableName sid \<mapsto> kept_rows sid db)\<rparr>)"
proof (cases "find (\<lambda>s. shapeId s = sid) (shapes_tbl db)")
  case None
  then have n: "sid \<notin> shapeId ` set (shapes_tbl db)"
    by (auto simp: find_None_iff)
  have f: "filter (\<lambda>s. shapeId s \<noteq> sid) (shapes_tbl db) = shapes_tbl db"
    using n by (auto intro!: filter_True)
  show ?thesis
    using None n
    by (simp add: shapeService_delete_def shapeService_get_def shapeService_create_def f
          or_undefined_def truthy_def kept_rows_def)
next
  case (Some s)
  then have m: "s \<in> set (shapes_tbl db)" and k: "shapeId s = sid"
    by (auto dest!: find_Some_set)
  from m have "shapeId s \<in> shapeId ` set (shapes_tbl db)" by (rule imageI)
  then have i: "sid \<in> shapeId ` set (shapes_tbl db)" unfolding k .
  have n: "sid \<notin> shapeId ` set (filter (\<lambda>s. shapeId s \<noteq> sid) (shapes_tbl db))"
    by auto
  show ?thesis
    using Some n i
    by (simp add: shapeService_delete_def shapeService_get_def shapeService_create_def
          or_undefined_def truthy_def kept_rows_def)
qed

lemma import_menu_groups_fold:
  "\<exists>acc'. import_menu_groups fid gs (acc, db) = Inr (acc', fold (put_group fid) gs db)
         \<and> createdShapeIds acc' = createdShapeIds acc @ map (\<lambda>g. (group_shape_id g, menuGroup g)) gs
         \<and> spShapesCreated acc' = spShapesCreated acc + length gs
         \<and> spRowsCreated acc' = spRowsCreated acc + sum_list (map (\<lambda>g. length (menuItems g)) gs)"
proof (induction gs arbitrary: acc db)
  case Nil
  then show ?case by simp
next
  case (Cons g gs)
  let ?sid = "group_shape_id g"
  define db1 where
    "db1 = db\<lparr>shapes_tbl := filter (\<lambda>s. shapeId s \<noteq> ?sid) (shapes_tbl db) @ [group_shape fid g],
              row_tables := (row_tables db)(tableName ?sid \<mapsto> kept_rows ?sid db)\<rparr>"
  define acc1 where
    "acc1 = acc\<lparr>spShapesCreated := spShapesCreated acc + 1,
                createdShapeIds := createdShapeIds acc @ [(?sid, menuGroup g)]\<rparr>"
  have c: "shapeService_create ?sid (Some (menuGroup g)) None (Some fid) None
             (shapeService_delete ?sid db) = Inr db1"
    using delete_create [of ?sid "Some (menuGroup g)" fid db] by (simp add: group_shape_def db1_def)
  have t: "row_tables db1 (tableName ?sid) = Some (kept_rows ?sid db)" by (simp add: db1_def)
  from import_items_result [OF t, where i = 0 and items = "menuItems g" and acc = acc1]
  obtain acc2 where
    r: "import_items ?sid 0 (menuItems g) (acc1, db1) =
          Inr (acc2, db1\<lparr>row_tables := (row_tables db1)(tableName ?sid \<mapsto>
                 kept_rows ?sid db @ group_rows g)\<rparr>)"
    and n2: "spShapesCreated acc2 = spShapesCreated acc1" "createdShapeIds acc2 = createdShapeIds acc1"
      "spRowsCreated acc2 = spRowsCreated acc1 + length (menuItems g)"
    unfolding group_rows_def by auto
  have p: "db1\<lparr>row_tables := (row_tables db1)(tableName ?sid \<mapsto> kept_rows ?sid db @ group_rows g)\<rparr>
           = put_group fid g db"
    by (simp add: db1_def put_group_def)
  from Cons.IH [of acc2 "put_group fid g db"] obtain acc' where
    i: "import_menu_groups fid gs (acc2, put_group fid g db) =
          Inr (acc', fold (put_group fid) gs (put_group fid g db))"
    and n: "createdShapeIds acc' = createdShapeIds acc2 @ map (\<lambda>g. (group_shape_id g, menuGroup g)) gs"
      "spShapesCreated acc' = spShapesCreated acc2 + length gs"
      "spRowsCreated acc' = spRowsCreated acc2 + sum_list (map (\<lambda>g. length (menuItems g)) gs)"
    by blast
  have "import_menu_groups fid (g # gs) (acc, db) =
          Inr (acc', fold (put_group fid) gs (put_group fid g db))"
    using r [unfolded p acc1_def] i by (simp add: Let_def c)
  then show ?case
    using n n2 by (simp add: acc1_def)
qed

lemma folder_frame:
  "shapes_tbl (snd (getOrCreateStartingPointFolder db)) = shapes_tbl db"
  "row_tables (snd (getOrCreateStartingPointFolder db)) = row_tables db"
  by (simp_all add: getOrCreateStartingPointFolder_def folderService_create_def split: option.splits)

lemma enumerate_map:
  "List.enumerate n (map f xs) = map (\<lambda>(k, x). (k, f x)) (List.enumerate n xs)"
  by (simp add: enumerate_eq_zip zip_map2)

lemma index_rows_created:
  "map (\<lambda>(k, p). stored_row (index_row (int k) p) (int k))
     (List.enumerate 0 (map (\<lambda>g. (group_shape_id g, menuGroup g)) gs)) = index_rows gs"
  by (simp add: index_rows_def enumerate_map split_def)

lemma importStartingPoints_db_result:
  assumes cfg: "find (\<lambda>item. configType item = ''startingPoints'') data = Some cfg"
    and ne: "json cfg \<noteq> []"
  shows "importStartingPoints_db data db =
           Inr (\<lparr>sp_shapesCreated = length (json cfg) + 1,
                 sp_rowsCreated = sum_list (map (\<lambda>g. length (menuItems g)) (json cfg)) + length (json cfg),
                 sp_folderId = fst (getOrCreateStartingPointFolder db)\<rparr>,
                imported_starting_points (json cfg) db)"
proof -
  let ?gs = "json cfg"
  obtain fid db1 where fo: "getOrCreateStartingPointFolder db = (fid, db1)"
    by (cases "getOrCreateStartingPointFolder db")
  define acc0 where "acc0 = \<lparr>spShapesCreated = 0, spRowsCreated = 0, createdShapeIds = []\<rparr>"
  define db2 where "db2 = fold (put_group fid) ?gs db1"
  from import_menu_groups_fold [of fid ?gs acc0 db1]
  obtain acc where
    g: "import_menu_groups fid ?gs (acc0, db1) = Inr (acc, db2)"
    and n: "createdShapeIds acc = map (\<lambda>g. (group_shape_id g, menuGroup g)) ?gs"
      "spShapesCreated acc = length ?gs"
      "spRowsCreated acc = sum_list (map (\<lambda>g. length (menuItems g)) ?gs)"
    unfolding db2_def acc0_def by auto
  define db4 where
    "db4 = db2\<lparr>shapes_tbl := filter (\<lambda>s. shapeId s \<noteq> STARTING_POINT_INDEX_ID) (shapes_tbl db2) @
                       [index_shape fid],
                    row_tables := (row_tables db2)(tableName STARTING_POINT_INDEX_ID \<mapsto>
                       kept_rows STARTING_POINT_INDEX_ID db2)\<rparr>"
  have c: "shapeService_create STARTING_POINT_INDEX_ID (Some ''Starting Point Index'') None (Some fid) None
             (shapeService_delete STARTING_POINT_INDEX_ID db2) = Inr db4"
    using delete_create [of STARTING_POINT_INDEX_ID "Some ''Starting Point Index''" fid db2]
    by (simp add: index_shape_def or_undefined_def truthy_def db4_def)
  have t: "row_tables db4 (tableName STARTING_POINT_INDEX_ID) = Some (kept_rows STARTING_POINT_INDEX_ID db2)"
    by (simp add: db4_def)
  define db5 where
    "db5 = db4\<lparr>row_tables := (row_tables db4)(tableName STARTING_POINT_INDEX_ID \<mapsto>
                 kept_rows STARTING_POINT_INDEX_ID db2 @ index_rows ?gs)\<rparr>"
  define acc' where "acc' = acc\<lparr>spShapesCreated := spShapesCreated acc + 1\<rparr>"
  from import_index_rows_result [OF t, where i = 0 and ps = "createdShapeIds acc" and acc = acc']
  obtain acc1 where
    r: "import_index_rows 0 (createdShapeIds acc) (acc', db4) = Inr (acc1, db5)"
    and n1: "spShapesCreated acc1 = spShapesCreated acc'"
      "spRowsCreated acc1 = spRowsCreated acc' + length (createdShapeIds acc)"
    unfolding n(1) index_rows_created db5_def by auto
  have "importStartingPoints_db data db =
          Inr (\<lparr>sp_shapesCreated = spShapesCreated acc1, sp_rowsCreated = spRowsCreated acc1,
                sp_folderId = fid\<rparr>, db5)"
    using ne g [unfolded acc0_def] r [unfolded acc'_def]
    by (simp add: importStartingPoints_db_def cfg fo c Let_def)
  moreover have "db5 = imported_starting_points ?gs db"
    unfolding db5_def db4_def
    by (simp add: imported_starting_points_def fo db2_def put_index_def)
  ultimately show ?thesis
    using n n1 fo by (simp add: acc'_def)
qed

lemma prefix_is_starting_point: "isStartingPointShape (STARTING_POINT_PREFIX @ x)"
  by (simp add: isStartingPointShape_def STARTING_POINT_PREFIX_def toLowerCase_def
        to_lower_def LATIN1_UPPER_def LATIN1_LOWER_def starts_with_def)

lemma group_shape_id_is_starting_point: "isStartingPointShape (group_shape_id g)"
  by (simp add: group_shape_id_def prefix_is_starting_point)

lemma group_shape_id_nonempty: "group_shape_id g \<noteq> []"
  by (simp add: group_shape_id_def STARTING_POINT_PREFIX_def)

lemma exported_group_name:
  "or_else (shapeLabel (group_shape fid g)) (default_group_name (shapeId (group_shape fid g)))
     = menuGroup g"
  by (cases "menuGroup g")
     (simp_all add: group_shape_def or_else_def or_undefined_def truthy_def
        default_group_name_def group_shape_id_def STARTING_POINT_PREFIX_def starts_with_def)

lemma menu_item_of_stored:
  "menu_item_of (stored_row (item_row k item) k') = normal_item item"
  by (simp add: menu_item_of_def stored_row_def item_row_def empty_row_def normal_item_def
        or_undefined_def or_else_def truthy_def)

lemma stored_item_hasPart:
  "propertyId (stored_row (item_row k item) k') = Some ''dcterms:hasPart''"
  by (simp add: stored_row_def item_row_def empty_row_def or_undefined_def truthy_def)

lemma menu_items_of_enumerate:
  "map menu_item_of (map (\<lambda>(k, item). stored_row (item_row (int k) item) (int k))
     (List.enumerate n items)) = map normal_item items"
  by (induction items arbitrary: n) (simp_all add: menu_item_of_stored)

lemma menu_items_of_group_rows:
  "menu_items_of (group_rows g) = map normal_item (menuItems g)"
proof -
  have "filter (\<lambda>row. propertyId row = Some ''dcterms:hasPart'') (group_rows g) = group_rows g"
    by (rule filter_True) (auto simp: group_rows_def stored_item_hasPart)
  then show ?thesis
    using menu_items_of_enumerate [of 0 "menuItems g"]
    by (simp add: menu_items_of_def group_rows_def)
qed

lemma sorted_enumerate_rows:
  "sorted (map rowOrder (map (\<lambda>(k, x). stored_row (f k x) (int k)) (List.enumerate n xs)))"
  by (simp add: enumerate_eq_zip comp_def split_def sorted_map sorted_wrt_iff_nth_less)

lemma sort_group_rows: "sort_key rowOrder (group_rows g) = group_rows g"
  unfolding group_rows_def
  by (rule sort_key_id_if_sorted) (rule sorted_enumerate_rows)

lemma sort_index_rows: "sort_key rowOrder (index_rows gs) = index_rows gs"
  unfolding index_rows_def
  by (rule sort_key_id_if_sorted)
     (use sorted_enumerate_rows [of "\<lambda>k g. index_row (int k) (group_shape_id g, menuGroup g)" 0 gs]
      in \<open>simp add: split_def\<close>)

lemma index_rows_value_shapes:
  "map (\<lambda>row. the (valueShape row)) (filter (\<lambda>row. truthy (valueShape row)) (index_rows gs))
     = map group_shape_id gs"
proof -
  have v: "valueShape (stored_row (index_row k (group_shape_id g, m)) k') = Some (group_shape_id g)"
    for k k' g m
    by (simp add: stored_row_def index_row_def empty_row_def or_undefined_def truthy_def
          group_shape_id_nonempty)
  have "filter (\<lambda>row. truthy (valueShape row)) (index_rows gs) = index_rows gs"
    by (rule filter_True) (auto simp: index_rows_def v truthy_def group_shape_id_nonempty)
  moreover have "map (\<lambda>row. the (valueShape row))
                   (map (\<lambda>(k, g). stored_row (index_row (int k) (group_shape_id g, menuGroup g)) (int k))
                      (List.enumerate n gs)) = map group_shape_id gs" for n
    by (induction gs arbitrary: n) (simp_all add: v)
  ultimately show ?thesis by (simp add: index_rows_def)
qed

lemma filter_key_distinct:
  "distinct (map f xs) \<Longrightarrow> x \<in> set xs \<Longrightarrow> filter (\<lambda>y. f y = f x) xs = [x]"
proof (induction xs)
  case Nil
  then show ?case by simp
next
  case (Cons a xs)
  show ?case
  proof (cases "x = a")
    case True
    have "filter (\<lambda>y. f y = f a) xs = []"
      using Cons.prems(1) by (auto simp: filter_empty_conv image_iff)
    then show ?thesis using True by simp
  next
    case False
    then have "x \<in> set xs" using Cons.prems by simp
    moreover from this have "f a \<noteq> f x" using Cons.prems(1) by (auto simp: image_iff)
    ultimately show ?thesis using Cons by simp
  qed
qed

lemma shapeId_group_shape [simp]: "shapeId (group_shape fid g) = group_shape_id g"
  by (simp add: group_shape_def)

lemma distinct_map_sort_key:
  "distinct (map f xs) \<Longrightarrow> distinct (map f (sort_key k xs))"
  by (simp add: distinct_map)

lemma find_filter_hd:
  "find P xs = (case filter P xs of [] \<Rightarrow> None | x # _ \<Rightarrow> Some x)"
  by (induction xs) auto

lemma put_group_ids:
  "shapeId ` set (shapes_tbl (put_group fid g db)) =
     insert (group_shape_id g) (shapeId ` set (shapes_tbl db))"
  by (auto simp: put_group_def)

lemma put_group_shapes:
  "shapes_tbl (put_group fid g db) =
     filter (\<lambda>s. shapeId s \<noteq> group_shape_id g) (shapes_tbl db) @ [group_shape fid g]"
  by (simp add: put_group_def)

lemma put_group_table_other:
  "t \<noteq> tableName (group_shape_id g) \<Longrightarrow> row_tables (put_group fid g db) t = row_tables db t"
  by (simp add: put_group_def)

lemma put_group_table_own:
  "row_tables (put_group fid g db) (tableName (group_shape_id g)) =
     Some (kept_rows (group_shape_id g) db @ group_rows g)"
  by (simp add: put_group_def)

lemma fold_put_ids:
  "shapeId ` set (shapes_tbl (fold (put_group fid) gs db)) =
     shapeId ` set (shapes_tbl db) \<union> group_shape_id ` set gs"
  by (induction gs rule: rev_induct) (auto simp: put_group_ids)

lemma fold_put_tables_other:
  "t \<notin> (\<lambda>g. tableName (group_shape_id g)) ` set gs \<Longrightarrow>
     row_tables (fold (put_group fid) gs db) t = row_tables db t"
  by (induction gs rule: rev_induct) (auto simp: put_group_table_other)

lemma fold_put_tables_exist:
  "g \<in> set gs \<Longrightarrow> row_tables (fold (put_group fid) gs db) (tableName (group_shape_id g)) \<noteq> None"
proof (induction gs rule: rev_induct)
  case Nil
  then show ?case by simp
next
  case (snoc x gs)
  show ?case
  proof (cases "tableName (group_shape_id g) = tableName (group_shape_id x)")
    case True
    then show ?thesis by (simp add: put_group_table_own)
  next
    case False
    then have "g \<in> set gs" using snoc.prems by auto
    then show ?thesis using snoc.IH False by (simp add: put_group_table_other)
  qed
qed

lemma fold_put_reset:
  assumes "group_shape_id ` set gs \<subseteq> shapeId ` set (shapes_tbl db)" and "g \<in> set gs"
  shows "\<exists>g'\<in>set gs. tableName (group_shape_id g') = tableName (group_shape_id g)
           \<and> row_tables (fold (put_group fid) gs db) (tableName (group_shape_id g))
               = Some (group_rows g')"
  using assms
proof (induction gs rule: rev_induct)
  case Nil
  then show ?case by simp
next
  case (snoc x gs)
  have sub: "group_shape_id ` set gs \<subseteq> shapeId ` set (shapes_tbl db)"
    using snoc.prems(1) by auto
  show ?case
  proof (cases "tableName (group_shape_id g) = tableName (group_shape_id x)")
    case True
    have "group_shape_id x \<in> shapeId ` set (shapes_tbl (fold (put_group fid) gs db))"
      using snoc.prems(1) unfolding fold_put_ids by auto
    then have "kept_rows (group_shape_id x) (fold (put_group fid) gs db) = []"
      by (simp add: kept_rows_def)
    then have "row_tables (fold (put_group fid) (gs @ [x]) db) (tableName (group_shape_id g))
                 = Some (group_rows x)"
      using True by (simp add: put_group_table_own)
    then show ?thesis using True by auto
  next
    case False
    then have "g \<in> set gs" using snoc.prems by auto
    from snoc.IH [OF sub this] obtain g' where
      "g' \<in> set gs" "tableName (group_shape_id g') = tableName (group_shape_id g)"
      "row_tables (fold (put_group fid) gs db) (tableName (group_shape_id g)) = Some (group_rows g')"
      by blast
    then show ?thesis using False by (auto simp: put_group_table_other)
  qed
qed

lemma fold_put_group_shapes:
  "s \<in> set (shapes_tbl (fold (put_group fid) gs db)) \<Longrightarrow> shapeId s \<in> group_shape_id ` set gs \<Longrightarrow>
     \<exists>g\<in>set gs. s = group_shape fid g"
proof (induction gs arbitrary: s rule: rev_induct)
  case Nil
  then show ?case by simp
next
  case (snoc x gs)
  from snoc.prems(1) have "s = group_shape fid x
      \<or> (s \<in> set (shapes_tbl (fold (put_group fid) gs db)) \<and> shapeId s \<noteq> group_shape_id x)"
    by (auto simp: put_group_shapes)
  then show ?case
  proof
    assume "s = group_shape fid x"
    then show ?thesis by simp
  next
    assume a: "s \<in> set (shapes_tbl (fold (put_group fid) gs db)) \<and> shapeId s \<noteq> group_shape_id x"
    then have "shapeId s \<in> group_shape_id ` set gs" using snoc.prems(2) by auto
    from snoc.IH [OF _ this] a show ?thesis by auto
  qed
qed

lemma fold_put_old_shapes:
  "s \<in> set (shapes_tbl (fold (put_group fid) gs db)) \<Longrightarrow> shapeId s \<notin> group_shape_id ` set gs \<Longrightarrow>
     s \<in> set (shapes_tbl db)"
proof (induction gs arbitrary: s rule: rev_induct)
  case Nil
  then show ?case by simp
next
  case (snoc x gs)
  from snoc.prems have "s \<in> set (shapes_tbl (fold (put_group fid) gs db))"
    by (auto simp: put_group_shapes)
  moreover have "shapeId s \<notin> group_shape_id ` set gs" using snoc.prems(2) by auto
  ultimately show ?case by (rule snoc.IH)
qed

lemma fold_put_distinct:
  "distinct (map shapeId (filter (\<lambda>s. shapeId s \<in> group_shape_id ` set gs)
                                (shapes_tbl (fold (put_group fid) gs db))))"
proof (induction gs rule: rev_induct)
  case Nil
  then show ?case by simp
next
  case (snoc x gs)
  let ?S = "shapes_tbl (fold (put_group fid) gs db)"
  have e: "filter (\<lambda>s. shapeId s \<in> group_shape_id ` set (gs @ [x]))
             (filter (\<lambda>s. shapeId s \<noteq> group_shape_id x) ?S)
           = filter (\<lambda>s. shapeId s \<noteq> group_shape_id x)
               (filter (\<lambda>s. shapeId s \<in> group_shape_id ` set gs) ?S)"
    by (auto intro: filter_cong)
  have "distinct (map shapeId (filter (\<lambda>s. shapeId s \<noteq> group_shape_id x)
                                 (filter (\<lambda>s. shapeId s \<in> group_shape_id ` set gs) ?S)))"
    using snoc.IH by (rule distinct_map_filter)
  moreover have "group_shape_id x \<notin> shapeId ` set (filter (\<lambda>s. shapeId s \<noteq> group_shape_id x)
                                 (filter (\<lambda>s. shapeId s \<in> group_shape_id ` set gs) ?S))"
    by auto
  moreover have sh: "shapes_tbl (fold (put_group fid) (gs @ [x]) db) =
                       filter (\<lambda>s. shapeId s \<noteq> group_shape_id x) ?S @ [group_shape fid x]"
    by (simp add: put_group_shapes)
  have "filter (\<lambda>s. shapeId s \<in> group_shape_id ` set (gs @ [x]))
          (shapes_tbl (fold (put_group fid) (gs @ [x]) db))
        = filter (\<lambda>s. shapeId s \<noteq> group_shape_id x)
               (filter (\<lambda>s. shapeId s \<in> group_shape_id ` set gs) ?S) @ [group_shape fid x]"
    unfolding sh filter_append e by simp
  ultimately show ?case
    by (simp del: filter_filter fold_append)
qed

lemma put_index_shapes:
  "shapes_tbl (put_index fid gs db) =
     filter (\<lambda>s. shapeId s \<noteq> STARTING_POINT_INDEX_ID) (shapes_tbl db) @ [index_shape fid]"
  by (simp add: put_index_def)

lemma put_index_table_other:
  "t \<noteq> tableName STARTING_POINT_INDEX_ID \<Longrightarrow> row_tables (put_index fid gs db) t = row_tables db t"
  by (simp add: put_index_def)

lemma put_index_table_own:
  "row_tables (put_index fid gs db) (tableName STARTING_POINT_INDEX_ID) =
     Some (kept_rows STARTING_POINT_INDEX_ID db @ index_rows gs)"
  by (simp add: put_index_def)

lemma shapeId_index_shape [simp]: "shapeId (index_shape fid) = STARTING_POINT_INDEX_ID"
  by (simp add: index_shape_def)

lemma orderedShapeIds_indexed:
  assumes "index_shape fid \<in> set (shapes_tbl W)"
    and "row_tables W (tableName STARTING_POINT_INDEX_ID) = Some (index_rows gs)"
  shows "orderedShapeIds W = Inr (map group_shape_id gs)"
proof -
  have "index_shape fid \<in> set (shapeService_list W)"
    using assms(1) by (simp add: shapeService_list_def)
  then have "find (\<lambda>s. shapeId s = STARTING_POINT_INDEX_ID) (shapeService_list W) \<noteq> None"
    unfolding find_None_iff by (auto intro!: bexI [of _ "index_shape fid"])
  then obtain s where "find (\<lambda>s. shapeId s = STARTING_POINT_INDEX_ID) (shapeService_list W) = Some s"
    by auto
  moreover have "rowService_list W STARTING_POINT_INDEX_ID = Inr (index_rows gs)"
    by (simp add: rowService_list_def assms(2) sort_index_rows)
  ultimately show ?thesis
    by (simp add: orderedShapeIds_def index_rows_value_shapes)
qed

lemma imported_props:
  fixes fid gs db
  defines "D \<equiv> fold (put_group fid) gs db"
  defines "W \<equiv> put_index fid gs D"
  assumes noclash: "\<forall>g\<in>set gs. tableName (group_shape_id g) \<noteq> tableName STARTING_POINT_INDEX_ID"
    and base: "STARTING_POINT_INDEX_ID \<in> shapeId ` set (shapes_tbl db)
               \<or> row_tables db (tableName STARTING_POINT_INDEX_ID) = None"
    and spsub: "\<forall>s\<in>set (shapes_tbl db). isStartingPointShape (shapeId s) \<longrightarrow>
                  shapeId s \<in> insert STARTING_POINT_INDEX_ID (group_shape_id ` set gs)"
  shows imported_refs: "orderedShapeIds W = Inr (map group_shape_id gs)"
    and imported_sps: "startingPointShapes W =
           sort_key shapeId (filter (\<lambda>s. shapeId s \<in> group_shape_id ` set gs) (shapes_tbl D))"
    and imported_tables: "\<forall>g\<in>set gs. row_tables W (tableName (group_shape_id g))
                             = row_tables D (tableName (group_shape_id g))"
    and imported_spsub: "\<forall>s\<in>set (shapes_tbl W). isStartingPointShape (shapeId s) \<longrightarrow>
                  shapeId s \<in> insert STARTING_POINT_INDEX_ID (group_shape_id ` set gs)"
    and imported_ids: "insert STARTING_POINT_INDEX_ID (group_shape_id ` set gs)
                         \<subseteq> shapeId ` set (shapes_tbl W)"
proof -
  have ni: "\<forall>g\<in>set gs. group_shape_id g \<noteq> STARTING_POINT_INDEX_ID"
    using noclash by metis
  have nt: "tableName STARTING_POINT_INDEX_ID \<notin> (\<lambda>g. tableName (group_shape_id g)) ` set gs"
    using noclash by (metis (no_types, lifting) image_iff)
  have k: "kept_rows STARTING_POINT_INDEX_ID D = []"
  proof (cases "STARTING_POINT_INDEX_ID \<in> shapeId ` set (shapes_tbl D)")
    case True
    then show ?thesis by (simp add: kept_rows_def)
  next
    case False
    then have "STARTING_POINT_INDEX_ID \<notin> shapeId ` set (shapes_tbl db)"
      unfolding D_def fold_put_ids by simp
    then have "row_tables db (tableName STARTING_POINT_INDEX_ID) = None" using base by simp
    then have "row_tables D (tableName STARTING_POINT_INDEX_ID) = None"
      unfolding D_def using fold_put_tables_other [OF nt] by simp
    then show ?thesis by (simp add: kept_rows_def)
  qed
  have it: "row_tables W (tableName STARTING_POINT_INDEX_ID) = Some (index_rows gs)"
    unfolding W_def by (simp add: put_index_table_own k)
  have ii: "index_shape fid \<in> set (shapes_tbl W)"
    unfolding W_def by (simp add: put_index_shapes)
  show "orderedShapeIds W = Inr (map group_shape_id gs)"
    by (rule orderedShapeIds_indexed [OF ii it])
  have c: "(isStartingPointShape (shapeId s) \<and> shapeId s \<noteq> STARTING_POINT_INDEX_ID)
             = (shapeId s \<in> group_shape_id ` set gs)" if "s \<in> set (shapes_tbl D)" for s
  proof (cases "shapeId s \<in> group_shape_id ` set gs")
    case True
    then obtain g where "g \<in> set gs" "shapeId s = group_shape_id g" by auto
    then show ?thesis using ni by (simp add: group_shape_id_is_starting_point)
  next
    case False
    then have "s \<in> set (shapes_tbl db)"
      using that unfolding D_def by (rule fold_put_old_shapes [rotated])
    then show ?thesis using spsub False by auto
  qed
  have "filter (\<lambda>s. shapeId s \<noteq> STARTING_POINT_INDEX_ID \<and>
                     isStartingPointShape (shapeId s) \<and> shapeId s \<noteq> STARTING_POINT_INDEX_ID)
          (shapes_tbl D)
        = filter (\<lambda>s. shapeId s \<in> group_shape_id ` set gs) (shapes_tbl D)"
    by (rule filter_cong [OF refl]) (use c in blast)
  then have "filter (\<lambda>s. isStartingPointShape (shapeId s) \<and> shapeId s \<noteq> STARTING_POINT_INDEX_ID)
          (shapes_tbl W)
        = filter (\<lambda>s. shapeId s \<in> group_shape_id ` set gs) (shapes_tbl D)"
    unfolding W_def put_index_shapes by simp
  then show "startingPointShapes W =
           sort_key shapeId (filter (\<lambda>s. shapeId s \<in> group_shape_id ` set gs) (shapes_tbl D))"
    by (simp add: startingPointShapes_def shapeService_list_def filter_sort)
  show "\<forall>g\<in>set gs. row_tables W (tableName (group_shape_id g))
                             = row_tables D (tableName (group_shape_id g))"
    unfolding W_def using noclash by (simp add: put_index_table_other)
  show "\<forall>s\<in>set (shapes_tbl W). isStartingPointShape (shapeId s) \<longrightarrow>
                  shapeId s \<in> insert STARTING_POINT_INDEX_ID (group_shape_id ` set gs)"
  proof (intro ballI impI)
    fix s assume s: "s \<in> set (shapes_tbl W)" and p: "isStartingPointShape (shapeId s)"
    then have "s = index_shape fid \<or> s \<in> set (shapes_tbl D)"
      unfolding W_def put_index_shapes by auto
    then show "shapeId s \<in> insert STARTING_POINT_INDEX_ID (group_shape_id ` set gs)"
    proof
      assume "s = index_shape fid"
      then show ?thesis by simp
    next
      assume "s \<in> set (shapes_tbl D)"
      from c [OF this] p show ?thesis by auto
    qed
  qed
  have "group_shape_id ` set gs \<subseteq> shapeId ` set (shapes_tbl D)"
    unfolding D_def fold_put_ids by simp
  moreover have "shapeId ` set (shapes_tbl D) - {STARTING_POINT_INDEX_ID} \<subseteq> shapeId ` set (shapes_tbl W)"
    unfolding W_def put_index_shapes by auto
  moreover have "STARTING_POINT_INDEX_ID \<in> shapeId ` set (shapes_tbl W)"
    using ii by (metis imageI shapeId_index_shape)
  ultimately show "insert STARTING_POINT_INDEX_ID (group_shape_id ` set gs)
                         \<subseteq> shapeId ` set (shapes_tbl W)"
    using ni by blast
qed

lemma imported_sps_props:
  fixes fid gs db
  defines "W \<equiv> put_index fid gs (fold (put_group fid) gs db)"
  assumes noclash: "\<forall>g\<in>set gs. tableName (group_shape_id g) \<noteq> tableName STARTING_POINT_INDEX_ID"
    and base: "STARTING_POINT_INDEX_ID \<in> shapeId ` set (shapes_tbl db)
               \<or> row_tables db (tableName STARTING_POINT_INDEX_ID) = None"
    and spsub: "\<forall>s\<in>set (shapes_tbl db). isStartingPointShape (shapeId s) \<longrightarrow>
                  shapeId s \<in> insert STARTING_POINT_INDEX_ID (group_shape_id ` set gs)"
  shows sps_distinct: "distinct (map shapeId (startingPointShapes W))"
    and sps_single: "\<forall>g\<in>set gs. \<exists>g'\<in>set gs. group_shape_id g' = group_shape_id g
           \<and> filter (\<lambda>s. shapeId s = group_shape_id g) (startingPointShapes W) = [group_shape fid g']"
    and sps_ids: "shapeId ` set (startingPointShapes W) \<subseteq> group_shape_id ` set gs"
    and sps_tables: "\<forall>s\<in>set (startingPointShapes W). tableName (shapeId s) \<in> dom (row_tables W)"
proof -
  let ?D = "fold (put_group fid) gs db"
  let ?GS = "filter (\<lambda>s. shapeId s \<in> group_shape_id ` set gs) (shapes_tbl ?D)"
  have sps: "startingPointShapes W = sort_key shapeId ?GS"
    unfolding W_def by (rule imported_sps [OF noclash base spsub, where fid = fid])
  show d: "distinct (map shapeId (startingPointShapes W))"
    unfolding sps by (rule distinct_map_sort_key) (rule fold_put_distinct)
  show "shapeId ` set (startingPointShapes W) \<subseteq> group_shape_id ` set gs"
    unfolding sps by auto
  show "\<forall>g\<in>set gs. \<exists>g'\<in>set gs. group_shape_id g' = group_shape_id g
           \<and> filter (\<lambda>s. shapeId s = group_shape_id g) (startingPointShapes W) = [group_shape fid g']"
  proof
    fix g assume g: "g \<in> set gs"
    then have "group_shape_id g \<in> shapeId ` set (shapes_tbl ?D)"
      unfolding fold_put_ids by simp
    then obtain s where s: "s \<in> set (shapes_tbl ?D)" "shapeId s = group_shape_id g"
      by auto
    then have i: "shapeId s \<in> group_shape_id ` set gs" using g by simp
    then have m: "s \<in> set (startingPointShapes W)" using s unfolding sps by simp
    from fold_put_group_shapes [OF s(1) i] obtain g' where
      g': "g' \<in> set gs" "s = group_shape fid g'" by blast
    have "filter (\<lambda>y. shapeId y = shapeId s) (startingPointShapes W) = [s]"
      by (rule filter_key_distinct [OF d m])
    then show "\<exists>g'\<in>set gs. group_shape_id g' = group_shape_id g
           \<and> filter (\<lambda>s. shapeId s = group_shape_id g) (startingPointShapes W) = [group_shape fid g']"
      using g' s(2) by auto
  qed
  show "\<forall>s\<in>set (startingPointShapes W). tableName (shapeId s) \<in> dom (row_tables W)"
  proof
    fix s assume "s \<in> set (startingPointShapes W)"
    then have "shapeId s \<in> group_shape_id ` set gs" unfolding sps by simp
    then obtain g where g: "g \<in> set gs" "shapeId s = group_shape_id g" by auto
    have "row_tables W (tableName (group_shape_id g)) = row_tables ?D (tableName (group_shape_id g))"
      unfolding W_def using imported_tables [OF noclash base spsub, where fid = fid] g(1) by blast
    then show "tableName (shapeId s) \<in> dom (row_tables W)"
      using fold_put_tables_exist [OF g(1), of fid db] g(2) by auto
  qed
qed

lemma menu_group_of_alt:
  "menu_group_of db s =
     (if menu_items_in db (shapeId s) = [] then None
      else Some \<lparr>menuGroup = or_else (shapeLabel s) (default_group_name (shapeId s)),
                 menuItems = menu_items_in db (shapeId s)\<rparr>)"
  by (simp add: menu_group_of_def menu_items_in_def split: sum.splits)

lemma map_filter_append:
  "List.map_filter f (xs @ ys) = List.map_filter f xs @ List.map_filter f ys"
  by (simp add: List.map_filter_def)

lemma expected_groups_imported:
  fixes fid gs db
  defines "W \<equiv> put_index fid gs (fold (put_group fid) gs db)"
  assumes noclash: "\<forall>g\<in>set gs. tableName (group_shape_id g) \<noteq> tableName STARTING_POINT_INDEX_ID"
    and base: "STARTING_POINT_INDEX_ID \<in> shapeId ` set (shapes_tbl db)
               \<or> row_tables db (tableName STARTING_POINT_INDEX_ID) = None"
    and spsub: "\<forall>s\<in>set (shapes_tbl db). isStartingPointShape (shapeId s) \<longrightarrow>
                  shapeId s \<in> insert STARTING_POINT_INDEX_ID (group_shape_id ` set gs)"
    and items: "\<forall>g\<in>set gs. menu_items_in W (group_shape_id g) \<noteq> []"
  shows imported_groups: "expected_menu_groups W = map (exported_group W) (map group_shape_id gs)"
    and imported_names: "\<forall>g\<in>set gs. \<exists>g'\<in>set gs. group_shape_id g' = group_shape_id g
           \<and> menuGroup (exported_group W (group_shape_id g)) = menuGroup g'"
proof -
  let ?sps = "startingPointShapes W"
  note single = sps_single [OF noclash base spsub, where fid = fid, folded W_def]
  note ids = sps_ids [OF noclash base spsub, where fid = fid, folded W_def]
  have refs: "index_references W = map group_shape_id gs"
    using orderedShapeIds_references [OF imported_refs [OF noclash base spsub, where fid = fid]]
    unfolding W_def by simp
  have each: "\<exists>g'\<in>set gs. group_shape_id g' = group_shape_id g
        \<and> menuGroup (exported_group W (group_shape_id g)) = menuGroup g'
        \<and> List.map_filter (menu_group_of W) (filter (\<lambda>s. shapeId s = group_shape_id g) ?sps)
            = [exported_group W (group_shape_id g)]" if g: "g \<in> set gs" for g
  proof -
    from single g obtain g' where
      g': "g' \<in> set gs" "group_shape_id g' = group_shape_id g"
      and f: "filter (\<lambda>s. shapeId s = group_shape_id g) ?sps = [group_shape fid g']"
      by blast
    have fi: "find (\<lambda>s. shapeId s = group_shape_id g) ?sps = Some (group_shape fid g')"
      by (simp add: find_filter_hd f)
    have n: "or_else (shapeLabel (group_shape fid g')) (default_group_name (group_shape_id g))
               = menuGroup g'"
      using exported_group_name [of fid g'] g'(2) by simp
    have e: "exported_group W (group_shape_id g) =
               \<lparr>menuGroup = menuGroup g', menuItems = menu_items_in W (group_shape_id g)\<rparr>"
      by (simp add: exported_group_def fi n)
    have "menu_group_of W (group_shape fid g') = Some (exported_group W (group_shape_id g))"
      using items g n by (simp add: menu_group_of_alt g'(2) e)
    then show ?thesis
      using g' e by (auto simp: f map_filter_simps)
  qed
  show "\<forall>g\<in>set gs. \<exists>g'\<in>set gs. group_shape_id g' = group_shape_id g
           \<and> menuGroup (exported_group W (group_shape_id g)) = menuGroup g'"
    using each by blast
  have "List.map_filter (menu_group_of W)
          (concat (map (\<lambda>i. filter (\<lambda>s. shapeId s = i) ?sps) (map group_shape_id gs')))
        = map (exported_group W) (map group_shape_id gs')" if "set gs' \<subseteq> set gs" for gs'
    using that
  proof (induction gs')
    case Nil
    then show ?case by (simp add: map_filter_simps)
  next
    case (Cons g gs')
    then have "g \<in> set gs" by simp
    from each [OF this] Cons show ?case
      by (auto simp: map_filter_append)
  qed
  then have a: "List.map_filter (menu_group_of W) (shapes_in_index_order ?sps (map group_shape_id gs))
                  = map (exported_group W) (map group_shape_id gs)"
    by (simp add: shapes_in_index_order_def)
  have b: "shapes_not_in_index ?sps (map group_shape_id gs) = []"
    using ids by (auto simp: shapes_not_in_index_def filter_empty_conv)
  show "expected_menu_groups W = map (exported_group W) (map group_shape_id gs)"
    by (simp add: expected_menu_groups_def refs map_filter_append a b map_filter_simps)
qed

lemma index_rows_mem:
  assumes "g \<in> set gs"
  shows "\<exists>r\<in>set (index_rows gs). valueShape r = Some (group_shape_id g)"
proof -
  have v: "valueShape (stored_row (index_row k (group_shape_id g, m)) k') = Some (group_shape_id g)"
    for k k' g m
    by (simp add: stored_row_def index_row_def empty_row_def or_undefined_def truthy_def
          group_shape_id_nonempty)
  have "\<exists>r\<in>set (map (\<lambda>(k, g). stored_row (index_row (int k) (group_shape_id g, menuGroup g)) (int k))
                     (List.enumerate n gs)). valueShape r = Some (group_shape_id g)" for n
    using assms by (induction gs arbitrary: n) (auto simp: v)
  then show ?thesis by (simp add: index_rows_def)
qed

lemma group_shape_id_cong:
  "menuGroup a = menuGroup b \<Longrightarrow> group_shape_id a = group_shape_id b"
  by (simp add: group_shape_id_def)

lemma menu_items_in_same_table:
  "tableName a = tableName b \<Longrightarrow> menu_items_in db a = menu_items_in db b"
  by (simp add: menu_items_in_def rowService_list_def)

lemma normal_menu_item_of: "normal_item (menu_item_of row) = menu_item_of row"
  by (simp add: normal_item_def menu_item_of_def first_or_empty_def nth_opt_def or_else_def
        truthy_def split: option.splits)

lemma normal_menu_items_in: "map normal_item (menu_items_in db sid) = menu_items_in db sid"
  by (simp add: menu_items_in_def menu_items_of_def normal_menu_item_of split: sum.splits)

lemma menu_group_eq:
  "menuGroup (a :: StartingPointMenuGroup) = menuGroup b \<Longrightarrow> menuItems a = menuItems b \<Longrightarrow> a = b"
  by simp

text \<open>
  Claim C2, with the conditions under which it holds. Let \<open>W\<close> be the workspace after one
  import of starting points into a workspace that has no starting-point shape and no row
  table of the index. Let no shape that the index of \<open>W\<close> names share the row table of the
  index, and let each of them have at least one \<open>dcterms:hasPart\<close> row. Then the export of
  \<open>W\<close> is a file with one configuration, whose menu groups are the shapes of the index in
  the order of the index; importing this file into \<open>W\<close> succeeds; and afterwards the index
  names the same shapes in the same order and the export is the same file: the same groups
  with the same item labels, types and templates.
\<close>

theorem starting_point_roundtrip:
  assumes imp: "importStartingPoints_db data W0 = Inr (r, W)"
    and plain: "\<forall>s\<in>set (shapes_tbl W0). \<not> isStartingPointShape (shapeId s)"
    and noindex: "row_tables W0 (tableName STARTING_POINT_INDEX_ID) = None"
    and noclash: "\<forall>i\<in>set (index_references W). tableName i \<noteq> tableName STARTING_POINT_INDEX_ID"
    and items: "\<forall>i\<in>set (index_references W). \<forall>rows.
                  rowService_list W i = Inr rows \<longrightarrow> menu_items_of rows \<noteq> []"
  shows "\<exists>groups r' W'.
           exportStartingPoints_db W =
             Inr (Some [\<lparr>config_name = ''config'', configType = ''startingPoints'', json = groups\<rparr>])
         \<and> map group_shape_id groups = index_references W
         \<and> importStartingPoints_db
             [\<lparr>config_name = ''config'', configType = ''startingPoints'', json = groups\<rparr>] W
             = Inr (r', W')
         \<and> index_references W' = index_references W
         \<and> exportStartingPoints_db W' = exportStartingPoints_db W"
proof -
  from imp obtain cfg where c: "find (\<lambda>item. configType item = ''startingPoints'') data = Some cfg"
    and ne: "json cfg \<noteq> []"
    by (auto simp: importStartingPoints_db_def Let_def split: option.splits if_splits)
  define gs where "gs = json cfg"
  have W: "W = imported_starting_points gs W0"
    using importStartingPoints_db_result [OF c ne, of W0] imp by (simp add: gs_def)
  obtain fid db1 where fo: "getOrCreateStartingPointFolder W0 = (fid, db1)"
    by (cases "getOrCreateStartingPointFolder W0")
  have fr: "shapes_tbl db1 = shapes_tbl W0" "row_tables db1 = row_tables W0"
    using folder_frame [of W0] fo by simp_all
  define D where "D = fold (put_group fid) gs db1"
  have WD: "W = put_index fid gs D"
    by (simp add: W imported_starting_points_def fo D_def)
  \<comment> \<open>the index of \<open>W\<close> names every group of the file\<close>
  have named: "group_shape_id g \<in> set (index_references W)" if "g \<in> set gs" for g
  proof -
    from index_rows_mem [OF that] obtain row where
      row: "row \<in> set (index_rows gs)" "valueShape row = Some (group_shape_id g)" by blast
    have "STARTING_POINT_INDEX_ID \<in> shapeId ` set (shapes_tbl W)"
      unfolding WD put_index_shapes by (simp add: image_iff)
    moreover have "row \<in> set (kept_rows STARTING_POINT_INDEX_ID D @ index_rows gs)"
      using row(1) by simp
    moreover have "truthy (valueShape row)"
      using row(2) by (simp add: truthy_def group_shape_id_nonempty)
    ultimately show ?thesis
      unfolding WD index_references_def put_index_table_own
      using row(2) by (auto simp: image_iff intro!: bexI [of _ row])
  qed
  have nc: "\<forall>g\<in>set gs. tableName (group_shape_id g) \<noteq> tableName STARTING_POINT_INDEX_ID"
    using named noclash by blast
  have base: "STARTING_POINT_INDEX_ID \<in> shapeId ` set (shapes_tbl db1)
               \<or> row_tables db1 (tableName STARTING_POINT_INDEX_ID) = None"
    using noindex fr by simp
  have spsub: "\<forall>s\<in>set (shapes_tbl db1). isStartingPointShape (shapeId s) \<longrightarrow>
                  shapeId s \<in> insert STARTING_POINT_INDEX_ID (group_shape_id ` set gs)"
    using plain fr by simp
  note o = imported_refs [OF nc base spsub, where fid = fid, folded D_def, folded WD]
  have refs: "index_references W = map group_shape_id gs"
    using orderedShapeIds_references [OF o] by simp
  note sd = sps_distinct [OF nc base spsub, where fid = fid, folded D_def, folded WD]
  note st = sps_tables [OF nc base spsub, where fid = fid, folded D_def, folded WD]
  note ids = imported_ids [OF nc base spsub, where fid = fid, folded D_def, folded WD]
  note sub = imported_spsub [OF nc base spsub, where fid = fid, folded D_def, folded WD]
  have tabs: "\<forall>g\<in>set gs. row_tables W (tableName (group_shape_id g)) \<noteq> None"
    using imported_tables [OF nc base spsub, where fid = fid, folded D_def, folded WD]
      fold_put_tables_exist [of _ gs fid db1] unfolding D_def by simp
  have it: "\<forall>g\<in>set gs. menu_items_in W (group_shape_id g) \<noteq> []"
  proof
    fix g assume g: "g \<in> set gs"
    then obtain rs where "row_tables W (tableName (group_shape_id g)) = Some rs"
      using tabs by auto
    then have l: "rowService_list W (group_shape_id g) = Inr (sort_key rowOrder rs)"
      by (simp add: rowService_list_def)
    have "group_shape_id g \<in> set (index_references W)" using g by (simp add: refs)
    then have "menu_items_of (sort_key rowOrder rs) \<noteq> []" using items l by blast
    then show "menu_items_in W (group_shape_id g) \<noteq> []" by (simp add: menu_items_in_def l)
  qed
  define e where "e = exported_group W"
  define gs' where "gs' = map e (map group_shape_id gs)"
  have eg: "expected_menu_groups W = gs'"
    unfolding gs'_def e_def
    using imported_groups [OF nc base spsub, where fid = fid, folded D_def, folded WD] it by simp
  have ne': "gs' \<noteq> []" using ne by (simp add: gs'_def gs_def)
  define cfg' where
    "cfg' = \<lparr>config_name = ''config'', configType = ''startingPoints'', json = gs'\<rparr>"
  have ex: "exportStartingPoints_db W = Inr (Some [cfg'])"
    using exportStartingPoints_db_groups [OF sd st o] ne' by (simp add: eg cfg'_def)
  have eid: "group_shape_id (e (group_shape_id g)) = group_shape_id g" if "g \<in> set gs" for g
  proof -
    from imported_names [OF nc base spsub, where fid = fid, folded D_def, folded WD] it that
    obtain g' where "group_shape_id g' = group_shape_id g"
      "menuGroup (exported_group W (group_shape_id g)) = menuGroup g'" by blast
    then show ?thesis
      using group_shape_id_cong [of "e (group_shape_id g)" g'] by (simp add: e_def)
  qed
  have ids': "map group_shape_id gs' = map group_shape_id gs"
    by (simp add: gs'_def eid)
  have mem': "\<exists>g\<in>set gs. g' = e (group_shape_id g)" if "g' \<in> set gs'" for g'
    using that by (auto simp: gs'_def)
  have G: "group_shape_id ` set gs' = group_shape_id ` set gs"
    using ids' by (metis image_set)
  \<comment> \<open>the second import\<close>
  have c': "find (\<lambda>item. configType item = ''startingPoints'') [cfg'] = Some cfg'"
    by (simp add: cfg'_def)
  have j': "json cfg' = gs'" by (simp add: cfg'_def)
  define W' where "W' = imported_starting_points gs' W"
  define r' where
    "r' = \<lparr>sp_shapesCreated = length gs' + 1,
           sp_rowsCreated = sum_list (map (\<lambda>g. length (menuItems g)) gs') + length gs',
           sp_folderId = fst (getOrCreateStartingPointFolder W)\<rparr>"
  have imp': "importStartingPoints_db [cfg'] W = Inr (r', W')"
    using importStartingPoints_db_result [OF c', of W] ne' by (simp add: j' r'_def W'_def)
  obtain fid' W1 where fo': "getOrCreateStartingPointFolder W = (fid', W1)"
    by (cases "getOrCreateStartingPointFolder W")
  have fr': "shapes_tbl W1 = shapes_tbl W" "row_tables W1 = row_tables W"
    using folder_frame [of W] fo' by simp_all
  define D' where "D' = fold (put_group fid') gs' W1"
  have WD': "W' = put_index fid' gs' D'"
    by (simp add: W'_def imported_starting_points_def fo' D'_def)
  have nc': "\<forall>g\<in>set gs'. tableName (group_shape_id g) \<noteq> tableName STARTING_POINT_INDEX_ID"
    using nc mem' eid by fastforce
  have base': "STARTING_POINT_INDEX_ID \<in> shapeId ` set (shapes_tbl W1)
               \<or> row_tables W1 (tableName STARTING_POINT_INDEX_ID) = None"
    using ids fr' by simp
  have spsub': "\<forall>s\<in>set (shapes_tbl W1). isStartingPointShape (shapeId s) \<longrightarrow>
                  shapeId s \<in> insert STARTING_POINT_INDEX_ID (group_shape_id ` set gs')"
    using sub fr' G by simp
  note o' = imported_refs [OF nc' base' spsub', where fid = fid', folded D'_def, folded WD']
  have refs': "index_references W' = index_references W"
    using orderedShapeIds_references [OF o'] by (simp add: refs ids')
  note sd' = sps_distinct [OF nc' base' spsub', where fid = fid', folded D'_def, folded WD']
  note st' = sps_tables [OF nc' base' spsub', where fid = fid', folded D'_def, folded WD']
  have all: "group_shape_id ` set gs' \<subseteq> shapeId ` set (shapes_tbl W1)"
    using ids fr' G by auto
  have same: "menu_items_in W' (group_shape_id g') = menu_items_in W (group_shape_id g')"
    if g': "g' \<in> set gs'" for g'
  proof -
    from fold_put_reset [OF all g', of fid'] obtain g'' where
      g'': "g'' \<in> set gs'" "tableName (group_shape_id g'') = tableName (group_shape_id g')"
      and t: "row_tables D' (tableName (group_shape_id g')) = Some (group_rows g'')"
      unfolding D'_def by blast
    have "row_tables W' (tableName (group_shape_id g')) = Some (group_rows g'')"
      using imported_tables [OF nc' base' spsub', where fid = fid', folded D'_def, folded WD'] g' t
      by simp
    then have a: "menu_items_in W' (group_shape_id g') = map normal_item (menuItems g'')"
      by (simp add: menu_items_in_def rowService_list_def sort_group_rows menu_items_of_group_rows)
    from mem' [OF g''(1)] obtain g where g: "g \<in> set gs" "g'' = e (group_shape_id g)" by blast
    have "menuItems g'' = menu_items_in W (group_shape_id g)"
      by (simp add: g(2) e_def exported_group_def)
    moreover have "group_shape_id g'' = group_shape_id g"
      using eid [OF g(1)] g(2) by simp
    then have "menu_items_in W (group_shape_id g) = menu_items_in W (group_shape_id g')"
      using g''(2) menu_items_in_same_table by metis
    ultimately show ?thesis
      using a by (simp add: normal_menu_items_in)
  qed
  have it': "\<forall>g\<in>set gs'. menu_items_in W' (group_shape_id g) \<noteq> []"
  proof
    fix g' assume g': "g' \<in> set gs'"
    from mem' [OF g'] obtain g where g: "g \<in> set gs" "g' = e (group_shape_id g)" by blast
    then have "group_shape_id g' = group_shape_id g" using eid by simp
    then show "menu_items_in W' (group_shape_id g') \<noteq> []"
      using same [OF g'] it g(1) by simp
  qed
  have eq: "exported_group W' (group_shape_id g') = e (group_shape_id g')" if g': "g' \<in> set gs'" for g'
  proof -
    from imported_names [OF nc' base' spsub', where fid = fid', folded D'_def, folded WD'] it' g'
    obtain g'' where g'': "g'' \<in> set gs'" "group_shape_id g'' = group_shape_id g'"
      and n: "menuGroup (exported_group W' (group_shape_id g')) = menuGroup g''" by blast
    from mem' [OF g''(1)] obtain g where g: "g \<in> set gs" "g'' = e (group_shape_id g)" by blast
    have "group_shape_id g'' = group_shape_id g" using eid [OF g(1)] g(2) by simp
    then have "g'' = e (group_shape_id g')" using g(2) g''(2) by simp
    then have "menuGroup (exported_group W' (group_shape_id g')) = menuGroup (e (group_shape_id g'))"
      using n by simp
    moreover have "menuItems (exported_group W' (group_shape_id g')) = menuItems (e (group_shape_id g'))"
      using same [OF g'] by (simp add: e_def exported_group_def)
    ultimately show ?thesis by (rule menu_group_eq)
  qed
  have "expected_menu_groups W' = map (exported_group W') (map group_shape_id gs')"
    using imported_groups [OF nc' base' spsub', where fid = fid', folded D'_def, folded WD'] it'
    by simp
  also have "\<dots> = map e (map group_shape_id gs')"
    using eq by simp
  also have "\<dots> = map e (map group_shape_id gs)" by (simp only: ids')
  also have "\<dots> = gs'" by (simp only: gs'_def)
  finally have eg': "expected_menu_groups W' = gs'" .
  have ex': "exportStartingPoints_db W' = Inr (Some [cfg'])"
    using exportStartingPoints_db_groups [OF sd' st' o'] ne' by (simp add: eg' cfg'_def)
  have "map group_shape_id gs' = index_references W" by (simp add: ids' refs)
  then show ?thesis
    using ex imp' refs' ex' unfolding cfg'_def by auto
qed

lemma fresh_folder:
  "getOrCreateStartingPointFolder (initializeWorkspaceDb name) =
     (1, (initializeWorkspaceDb name)
           \<lparr>folders_tbl := [\<lparr>folder_id = 1, folder_name = STARTING_POINT_FOLDER_NAME\<rparr>],
            next_folder_id := 2\<rparr>)"
  by (simp add: getOrCreateStartingPointFolder_def folderService_list_def folderService_create_def
        initializeWorkspaceDb_def)

lemma example_group_ids:
  "group_shape_id \<lparr>menuGroup = ''Works  BF2'', menuItems = its\<rparr> = ''startingpoint:Works_BF2''"
  "group_shape_id \<lparr>menuGroup = ''Empty'', menuItems = its\<rparr> = ''startingpoint:Empty''"
  "group_shape_id \<lparr>menuGroup = ''A_B'', menuItems = its\<rparr> = ''startingpoint:A_B''"
  "group_shape_id \<lparr>menuGroup = ''A:B'', menuItems = its\<rparr> = ''startingpoint:A:B''"
  "group_shape_id \<lparr>menuGroup = ''index'', menuItems = its\<rparr> = ''startingpoint:index''"
  by (simp_all add: group_shape_id_def STARTING_POINT_PREFIX_def is_space_def)

lemma example_table_names:
  "tableName ''startingpoint:Works_BF2'' = ''shape_startingpoint_works_bf2''"
  "tableName ''startingpoint:Empty'' = ''shape_startingpoint_empty''"
  "tableName ''startingpoint:A_B'' = ''shape_startingpoint_a_b''"
  "tableName ''startingpoint:A:B'' = ''shape_startingpoint_a_b''"
  by (simp_all add: tableName_def sanitizeTableName_def sanitize_char_def to_lower_def
        LATIN1_UPPER_def LATIN1_LOWER_def)

lemma example_starting_points:
  "isStartingPointShape ''startingpoint:Works_BF2''"
  "isStartingPointShape ''startingpoint:Empty''"
  "isStartingPointShape ''startingpoint:A_B''"
  "isStartingPointShape ''startingpoint:A:B''"
  by (simp_all add: isStartingPointShape_def STARTING_POINT_PREFIX_def toLowerCase_def
        to_lower_def LATIN1_UPPER_def LATIN1_LOWER_def starts_with_def)

lemma example_menu_items:
  "menu_item_of (stored_row (item_row k works_item) k') = works_item_exported"
  "menu_item_of (stored_row (item_row k works_item_exported) k') = works_item_exported"
  "menu_item_of (stored_row (item_row k instance_item) k') = instance_item"
  by (simp_all add: menu_item_of_stored normal_item_def works_item_def works_item_exported_def
        instance_item_def first_or_empty_def nth_opt_def or_else_def truthy_def)

lemma shared_table_imported:
  "imported_starting_points
     [\<lparr>menuGroup = ''A_B'', menuItems = [works_item]\<rparr>, \<lparr>menuGroup = ''A:B'', menuItems = [instance_item]\<rparr>]
     (initializeWorkspaceDb ''w'') = shared_table_db"
  unfolding imported_starting_points_def fresh_folder prod.case
  by (simp add: put_index_def put_group_def kept_rows_def group_shape_def index_shape_def
        STARTING_POINT_INDEX_ID_def sp_table_names
        group_rows_def index_rows_def example_group_ids example_table_names
        STARTING_POINT_FOLDER_NAME_def or_undefined_def truthy_def shared_table_db_def
        initializeWorkspaceDb_def)

lemma shared_table_import:
  "importStartingPoints_db shared_table_file (initializeWorkspaceDb ''w'') =
     Inr (\<lparr>sp_shapesCreated = 3, sp_rowsCreated = 4, sp_folderId = 1\<rparr>, shared_table_db)"
proof -
  define cfg where
    "cfg = \<lparr>config_name = ''config'', configType = ''startingPoints'',
            json = [\<lparr>menuGroup = ''A_B'', menuItems = [works_item]\<rparr>,
                    \<lparr>menuGroup = ''A:B'', menuItems = [instance_item]\<rparr>]\<rparr>"
  have c: "find (\<lambda>item. configType item = ''startingPoints'') shared_table_file = Some cfg"
    by (simp add: shared_table_file_def cfg_def)
  have j: "json cfg = [\<lparr>menuGroup = ''A_B'', menuItems = [works_item]\<rparr>,
                       \<lparr>menuGroup = ''A:B'', menuItems = [instance_item]\<rparr>]"
    by (simp add: cfg_def)
  have ne: "json cfg \<noteq> []" by (simp add: j)
  show ?thesis
    using importStartingPoints_db_result [OF c ne, of "initializeWorkspaceDb ''w''"]
    unfolding j shared_table_imported by (simp add: fresh_folder)
qed

lemma shared_table_references:
  "index_references shared_table_db = [''startingpoint:A_B'', ''startingpoint:A:B'']"
  by (simp add: index_references_def shared_table_db_def STARTING_POINT_INDEX_ID_def
        sp_table_names stored_row_def index_row_def empty_row_def or_undefined_def truthy_def)

lemma shared_table_rows:
  "rowService_list shared_table_db ''startingpoint:A_B'' =
     Inr [stored_row (item_row 0 works_item) 0, stored_row (item_row 0 instance_item) 0]"
  "rowService_list shared_table_db ''startingpoint:A:B'' =
     Inr [stored_row (item_row 0 works_item) 0, stored_row (item_row 0 instance_item) 0]"
  by (simp_all add: rowService_list_def example_table_names shared_table_db_def)

lemma shared_table_items:
  "menu_items_of [stored_row (item_row 0 works_item) 0, stored_row (item_row 0 instance_item) 0]
     = [works_item_exported, instance_item]"
  by (simp add: menu_items_of_def stored_item_hasPart example_menu_items)

lemma shared_table_shapes:
  "startingPointShapes shared_table_db =
     [\<lparr>shapeId = ''startingpoint:A:B'', shapeLabel = Some ''A:B'',
       description = None, resourceURI = None, folderId = Some 1\<rparr>,
      \<lparr>shapeId = ''startingpoint:A_B'', shapeLabel = Some ''A_B'',
       description = None, resourceURI = None, folderId = Some 1\<rparr>]"
  by (simp add: startingPointShapes_def shapeService_list_def shared_table_db_def
        example_starting_points STARTING_POINT_INDEX_ID_def)

lemma shared_table_groups:
  "expected_menu_groups shared_table_db = json (hd shared_table_exported)"
proof -
  have s: "startingPointShapes shared_table_db =
     [\<lparr>shapeId = ''startingpoint:A:B'', shapeLabel = Some ''A:B'',
       description = None, resourceURI = None, folderId = Some 1\<rparr>,
      \<lparr>shapeId = ''startingpoint:A_B'', shapeLabel = Some ''A_B'',
       description = None, resourceURI = None, folderId = Some 1\<rparr>]"
    by (simp add: startingPointShapes_def shapeService_list_def shared_table_db_def
        example_starting_points STARTING_POINT_INDEX_ID_def)
  show ?thesis
    by (simp add: expected_menu_groups_def s shared_table_references shapes_in_index_order_def
          shapes_not_in_index_def map_filter_simps menu_group_of_def shared_table_rows
          shared_table_items or_else_def truthy_def shared_table_exported_def)
qed

theorem starting_point_roundtrip_witness:
  "\<exists>r' W'.
     importStartingPoints_db shared_table_file (initializeWorkspaceDb ''w'') =
       Inr (\<lparr>sp_shapesCreated = 3, sp_rowsCreated = 4, sp_folderId = 1\<rparr>, shared_table_db)
   \<and> index_references shared_table_db = [''startingpoint:A_B'', ''startingpoint:A:B'']
   \<and> exportStartingPoints_db shared_table_db = Inr (Some shared_table_exported)
   \<and> importStartingPoints_db shared_table_exported shared_table_db = Inr (r', W')
   \<and> index_references W' = [''startingpoint:A_B'', ''startingpoint:A:B'']
   \<and> exportStartingPoints_db W' = Inr (Some shared_table_exported)"
proof -
  have plain: "\<forall>s\<in>set (shapes_tbl (initializeWorkspaceDb ''w'')). \<not> isStartingPointShape (shapeId s)"
    by (simp add: initializeWorkspaceDb_def)
  have noindex: "row_tables (initializeWorkspaceDb ''w'') (tableName STARTING_POINT_INDEX_ID) = None"
    by (simp add: initializeWorkspaceDb_def)
  have noclash: "\<forall>i\<in>set (index_references shared_table_db).
                   tableName i \<noteq> tableName STARTING_POINT_INDEX_ID"
    by (simp add: shared_table_references example_table_names STARTING_POINT_INDEX_ID_def
          sp_table_names)
  have items: "\<forall>i\<in>set (index_references shared_table_db). \<forall>rows.
                 rowService_list shared_table_db i = Inr rows \<longrightarrow> menu_items_of rows \<noteq> []"
    by (auto simp: shared_table_references shared_table_rows shared_table_items)
  from starting_point_roundtrip [OF shared_table_import plain noindex noclash items]
  obtain groups r' W' where
    e: "exportStartingPoints_db shared_table_db =
          Inr (Some [\<lparr>config_name = ''config'', configType = ''startingPoints'', json = groups\<rparr>])"
    and i: "importStartingPoints_db
              [\<lparr>config_name = ''config'', configType = ''startingPoints'', json = groups\<rparr>]
              shared_table_db = Inr (r', W')"
    and r: "index_references W' = index_references shared_table_db"
    and x: "exportStartingPoints_db W' = exportStartingPoints_db shared_table_db"
    by blast
  have d: "distinct (map shapeId (startingPointShapes shared_table_db))"
    by (rule distinct_startingPointShapes) (simp add: shared_table_db_def)
  have t: "\<forall>s\<in>set (startingPointShapes shared_table_db).
             tableName (shapeId s) \<in> dom (row_tables shared_table_db)"
    unfolding shared_table_shapes by (simp add: example_table_names shared_table_db_def)
  have o: "orderedShapeIds shared_table_db = Inr (index_references shared_table_db)"
    by (rule orderedShapeIds_total)
       (simp add: shared_table_db_def STARTING_POINT_INDEX_ID_def sp_table_names)
  have "exportStartingPoints_db shared_table_db = Inr (Some shared_table_exported)"
    using exportStartingPoints_db_groups [OF d t o]
    unfolding shared_table_groups by (simp add: shared_table_exported_def)
  then have g: "[\<lparr>config_name = ''config'', configType = ''startingPoints'', json = groups\<rparr>]
                  = shared_table_exported"
    using e by simp
  show ?thesis
    using shared_table_import shared_table_references e i r x unfolding g by auto
qed

lemma empty_group_imported:
  "imported_starting_points
     [\<lparr>menuGroup = ''Works  BF2'', menuItems = [works_item]\<rparr>, \<lparr>menuGroup = ''Empty'', menuItems = []\<rparr>]
     (initializeWorkspaceDb ''w'') = empty_group_db"
  unfolding imported_starting_points_def fresh_folder prod.case
  by (simp add: put_index_def put_group_def kept_rows_def group_shape_def index_shape_def
        STARTING_POINT_INDEX_ID_def sp_table_names
        group_rows_def index_rows_def example_group_ids example_table_names
        STARTING_POINT_FOLDER_NAME_def or_undefined_def truthy_def empty_group_db_def
        initializeWorkspaceDb_def)

lemma empty_group_import:
  "importStartingPoints_db empty_group_file (initializeWorkspaceDb ''w'') =
     Inr (\<lparr>sp_shapesCreated = 3, sp_rowsCreated = 3, sp_folderId = 1\<rparr>, empty_group_db)"
proof -
  define cfg where
    "cfg = \<lparr>config_name = ''config'', configType = ''startingPoints'',
            json = [\<lparr>menuGroup = ''Works  BF2'', menuItems = [works_item]\<rparr>,
                    \<lparr>menuGroup = ''Empty'', menuItems = []\<rparr>]\<rparr>"
  have c: "find (\<lambda>item. configType item = ''startingPoints'') empty_group_file = Some cfg"
    by (simp add: empty_group_file_def cfg_def)
  have j: "json cfg = [\<lparr>menuGroup = ''Works  BF2'', menuItems = [works_item]\<rparr>,
                       \<lparr>menuGroup = ''Empty'', menuItems = []\<rparr>]"
    by (simp add: cfg_def)
  have ne: "json cfg \<noteq> []" by (simp add: j)
  show ?thesis
    using importStartingPoints_db_result [OF c ne, of "initializeWorkspaceDb ''w''"]
    unfolding j empty_group_imported by (simp add: fresh_folder)
qed

lemma empty_group_references:
  "index_references empty_group_db = [''startingpoint:Works_BF2'', ''startingpoint:Empty'']"
  by (simp add: index_references_def empty_group_db_def STARTING_POINT_INDEX_ID_def
        sp_table_names stored_row_def index_row_def empty_row_def or_undefined_def truthy_def)

lemma empty_group_shapes:
  "startingPointShapes empty_group_db =
     [\<lparr>shapeId = ''startingpoint:Empty'', shapeLabel = Some ''Empty'',
       description = None, resourceURI = None, folderId = Some 1\<rparr>,
      \<lparr>shapeId = ''startingpoint:Works_BF2'', shapeLabel = Some ''Works  BF2'',
       description = None, resourceURI = None, folderId = Some 1\<rparr>]"
  by (simp add: startingPointShapes_def shapeService_list_def empty_group_db_def
        example_starting_points STARTING_POINT_INDEX_ID_def)

lemma empty_group_export:
  "exportStartingPoints_db empty_group_db = Inr (Some works_file_exported)"
proof -
  have r: "rowService_list empty_group_db ''startingpoint:Works_BF2'' =
             Inr [stored_row (item_row 0 works_item) 0]"
    "rowService_list empty_group_db ''startingpoint:Empty'' = Inr []"
    by (simp_all add: rowService_list_def example_table_names empty_group_db_def)
  have m: "menu_items_of [stored_row (item_row 0 works_item) 0] = [works_item_exported]"
    "menu_items_of [] = []"
    by (simp_all add: menu_items_of_def stored_item_hasPart example_menu_items)
  have g: "expected_menu_groups empty_group_db = json (hd works_file_exported)"
    by (simp add: expected_menu_groups_def empty_group_shapes empty_group_references
          shapes_in_index_order_def shapes_not_in_index_def map_filter_simps menu_group_of_def
          r m or_else_def truthy_def works_file_exported_def)
  have d: "distinct (map shapeId (startingPointShapes empty_group_db))"
    by (rule distinct_startingPointShapes) (simp add: empty_group_db_def)
  have t: "\<forall>s\<in>set (startingPointShapes empty_group_db).
             tableName (shapeId s) \<in> dom (row_tables empty_group_db)"
    unfolding empty_group_shapes by (simp add: example_table_names empty_group_db_def)
  have o: "orderedShapeIds empty_group_db = Inr (index_references empty_group_db)"
    by (rule orderedShapeIds_total)
       (simp add: empty_group_db_def STARTING_POINT_INDEX_ID_def sp_table_names)
  show ?thesis
    using exportStartingPoints_db_groups [OF d t o]
    unfolding g by (simp add: works_file_exported_def)
qed

lemma empty_group_folder:
  "getOrCreateStartingPointFolder empty_group_db = (1, empty_group_db)"
  by (simp add: getOrCreateStartingPointFolder_def folderService_list_def empty_group_db_def
        STARTING_POINT_FOLDER_NAME_def)

lemma empty_group_reimported:
  "imported_starting_points [\<lparr>menuGroup = ''Works  BF2'', menuItems = [works_item_exported]\<rparr>]
     empty_group_db = reimported_db"
proof -
  define g where "g = \<lparr>menuGroup = ''Works  BF2'', menuItems = [works_item_exported]\<rparr>"
  let ?W = "imported_starting_points [g] empty_group_db"
  have i: "group_shape_id g = ''startingpoint:Works_BF2''"
    by (simp add: g_def example_group_ids)
  have W: "?W = put_index 1 [g] (put_group 1 g empty_group_db)"
    by (simp add: imported_starting_points_def empty_group_folder)
  have k1: "kept_rows (group_shape_id g) empty_group_db = []"
    by (simp add: kept_rows_def i empty_group_db_def)
  have k2: "kept_rows STARTING_POINT_INDEX_ID (put_group fid g empty_group_db) = []" for fid
    by (simp add: kept_rows_def put_group_ids empty_group_db_def STARTING_POINT_INDEX_ID_def)
  have m: "menuGroup g = ''Works  BF2''" "menuItems g = [works_item_exported]"
    by (simp_all add: g_def)
  have s: "shapes_tbl ?W = shapes_tbl reimported_db"
    unfolding W put_index_shapes put_group_shapes
    by (simp add: group_shape_def index_shape_def i m
          or_undefined_def truthy_def empty_group_db_def reimported_db_def
          STARTING_POINT_INDEX_ID_def)
  have t: "row_tables ?W =
             (row_tables empty_group_db)
               (tableName (group_shape_id g) \<mapsto> group_rows g,
                tableName STARTING_POINT_INDEX_ID \<mapsto> index_rows [g])"
    unfolding W by (simp add: put_index_def k2) (simp add: put_group_def k1)
  have r: "row_tables ?W = row_tables reimported_db"
    unfolding t i
    by (rule ext)
       (simp add: group_rows_def index_rows_def i m
          example_table_names sp_table_names STARTING_POINT_INDEX_ID_def
          empty_group_db_def reimported_db_def)
  have "?W = empty_group_db\<lparr>shapes_tbl := shapes_tbl ?W, row_tables := row_tables ?W\<rparr>"
    unfolding W by (simp add: put_index_def put_group_def)
  then have "?W = reimported_db"
    unfolding s r by (simp add: reimported_db_def)
  then show ?thesis by (simp add: g_def)
qed

lemma empty_group_reimport:
  "importStartingPoints_db works_file_exported empty_group_db =
     Inr (\<lparr>sp_shapesCreated = 2, sp_rowsCreated = 2, sp_folderId = 1\<rparr>, reimported_db)"
proof -
  define cfg where
    "cfg = \<lparr>config_name = ''config'', configType = ''startingPoints'',
            json = [\<lparr>menuGroup = ''Works  BF2'', menuItems = [works_item_exported]\<rparr>]\<rparr>"
  have c: "find (\<lambda>item. configType item = ''startingPoints'') works_file_exported = Some cfg"
    by (simp add: works_file_exported_def cfg_def)
  have j: "json cfg = [\<lparr>menuGroup = ''Works  BF2'', menuItems = [works_item_exported]\<rparr>]"
    by (simp add: cfg_def)
  have ne: "json cfg \<noteq> []" by (simp add: j)
  show ?thesis
    using importStartingPoints_db_result [OF c ne, of empty_group_db]
    unfolding j empty_group_reimported by (simp add: empty_group_folder)
qed

lemma reimported_references:
  "index_references reimported_db = [''startingpoint:Works_BF2'']"
  by (simp add: index_references_def reimported_db_def empty_group_db_def
        STARTING_POINT_INDEX_ID_def sp_table_names stored_row_def index_row_def empty_row_def
        or_undefined_def truthy_def)

lemma index_group_imported:
  "imported_starting_points [\<lparr>menuGroup = ''index'', menuItems = [works_item]\<rparr>]
     (initializeWorkspaceDb ''w'') = index_group_db"
  unfolding imported_starting_points_def fresh_folder prod.case
  by (simp add: put_index_def put_group_def kept_rows_def group_shape_def index_shape_def
        STARTING_POINT_INDEX_ID_def sp_table_names
        group_rows_def index_rows_def example_group_ids
        STARTING_POINT_FOLDER_NAME_def or_undefined_def truthy_def index_group_db_def
        initializeWorkspaceDb_def)

lemma index_group_import:
  "importStartingPoints_db index_group_file (initializeWorkspaceDb ''w'') =
     Inr (\<lparr>sp_shapesCreated = 2, sp_rowsCreated = 2, sp_folderId = 1\<rparr>, index_group_db)"
proof -
  define cfg where
    "cfg = \<lparr>config_name = ''config'', configType = ''startingPoints'',
            json = [\<lparr>menuGroup = ''index'', menuItems = [works_item]\<rparr>]\<rparr>"
  have c: "find (\<lambda>item. configType item = ''startingPoints'') index_group_file = Some cfg"
    by (simp add: index_group_file_def cfg_def)
  have j: "json cfg = [\<lparr>menuGroup = ''index'', menuItems = [works_item]\<rparr>]"
    by (simp add: cfg_def)
  have ne: "json cfg \<noteq> []" by (simp add: j)
  show ?thesis
    using importStartingPoints_db_result [OF c ne, of "initializeWorkspaceDb ''w''"]
    unfolding j index_group_imported by (simp add: fresh_folder)
qed

lemma index_group_export: "exportStartingPoints_db index_group_db = Inr None"
  by (simp add: exportStartingPoints_db_def startingPointShapes_def shapeService_list_def
        index_group_db_def STARTING_POINT_INDEX_ID_def)

text \<open>
  Without the two conditions. A menu group without items is stored and named by the index,
  but the export leaves it out, and after importing the exported file the index names one
  group only. A menu group named \<open>index\<close> has the shape id of the index: the import
  replaces its shape by the index, and the export returns \<open>null\<close>, so that there is no
  file to import.
\<close>

theorem starting_point_roundtrip_counterexample:
  "importStartingPoints_db empty_group_file (initializeWorkspaceDb ''w'') =
     Inr (\<lparr>sp_shapesCreated = 3, sp_rowsCreated = 3, sp_folderId = 1\<rparr>, empty_group_db)
   \<and> index_references empty_group_db = [''startingpoint:Works_BF2'', ''startingpoint:Empty'']
   \<and> exportStartingPoints_db empty_group_db = Inr (Some works_file_exported)
   \<and> importStartingPoints_db works_file_exported empty_group_db =
       Inr (\<lparr>sp_shapesCreated = 2, sp_rowsCreated = 2, sp_folderId = 1\<rparr>, reimported_db)
   \<and> index_references reimported_db = [''startingpoint:Works_BF2'']
   \<and> importStartingPoints_db index_group_file (initializeWorkspaceDb ''w'') =
       Inr (\<lparr>sp_shapesCreated = 2, sp_rowsCreated = 2, sp_folderId = 1\<rparr>, index_group_db)
   \<and> exportStartingPoints_db index_group_db = Inr None"
  using empty_group_import empty_group_references empty_group_export empty_group_reimport
    reimported_references index_group_import index_group_export
  by simp

end
